theory Spec2Isabelle
  imports Complex_Main
begin

chapter \<open>aws-k8s-tester: the Fargate add-on, its profile poller, and eksconfig\<close>

text \<open>
  The development embeds three parts of the repository:
  \<^item> the Fargate add-on tester (\<^verbatim>\<open>Create\<close>, \<^verbatim>\<open>Delete\<close>) and its profile poller
    (\<^verbatim>\<open>Poll\<close>, \<^verbatim>\<open>IsProfileDeleted\<close>);
  \<^item> the reflection-based reader of environment variables (\<^verbatim>\<open>parseEnvs\<close>,
    \<^verbatim>\<open>UpdateFromEnvs\<close>) of package eksconfig;
  \<^item> the validation and defaulting of the configuration
    (\<^verbatim>\<open>ValidateAndSetDefaults\<close> and the validators it runs).

  Go strings are byte strings (\<^typ>\<open>string\<close>). A Go \<^verbatim>\<open>error\<close> is its text; the
  \<^verbatim>\<open>nil\<close> error is \<^term>\<open>None\<close>. A pointer that may be \<^verbatim>\<open>nil\<close> is an option.
\<close>

section \<open>Strings: the functions of package strings the code calls\<close>

text \<open>\<^verbatim>\<open>strings.HasPrefix\<close>, \<^verbatim>\<open>strings.HasSuffix\<close> and \<^verbatim>\<open>strings.Contains\<close>.\<close>

definition HasPrefix :: "string \<Rightarrow> string \<Rightarrow> bool" where
  "HasPrefix s pre = (take (length pre) s = pre)"

definition HasSuffix :: "string \<Rightarrow> string \<Rightarrow> bool" where
  "HasSuffix s suf = (length suf \<le> length s \<and> drop (length s - length suf) s = suf)"

fun Contains :: "string \<Rightarrow> string \<Rightarrow> bool" where
  "Contains [] sub = (sub = [])"
| "Contains (c # s) sub = (HasPrefix (c # s) sub \<or> Contains s sub)"

text \<open>
  \<^verbatim>\<open>strings.ReplaceAll\<close> and \<^verbatim>\<open>strings.Split\<close>: the occurrences of the separator are
  found from the left and do not overlap. With an empty separator Go works between the
  characters.
\<close>

function ReplaceAll :: "string \<Rightarrow> string \<Rightarrow> string \<Rightarrow> string" where
  "ReplaceAll [] old new = (if old = [] then new else [])"
| "ReplaceAll (c # s) old new =
     (if old = [] then new @ c # ReplaceAll s old new
      else if HasPrefix (c # s) old then new @ ReplaceAll (drop (length old) (c # s)) old new
      else c # ReplaceAll s old new)"
  by pat_completeness auto
termination
  by (relation "measure (\<lambda>(s, old, new). length s)") auto

function split_from :: "string \<Rightarrow> string \<Rightarrow> string \<Rightarrow> string list" where
  "split_from piece [] sep = [piece]"
| "split_from piece (c # s) sep =
     (if sep \<noteq> [] \<and> HasPrefix (c # s) sep
      then piece # split_from [] (drop (length sep) (c # s)) sep
      else split_from (piece @ [c]) s sep)"
  by pat_completeness auto
termination
  by (relation "measure (\<lambda>(piece, s, sep). length s)") auto

definition Split :: "string \<Rightarrow> string \<Rightarrow> string list" where
  "Split s sep = (if sep = [] then map (\<lambda>c. [c]) s else split_from [] s sep)"

text \<open>\<^verbatim>\<open>strings.Join\<close>.\<close>

fun Join :: "string list \<Rightarrow> string \<Rightarrow> string" where
  "Join [] sep = []"
| "Join [x] sep = x"
| "Join (x # y # xs) sep = x @ sep @ Join (y # xs) sep"

text \<open>
  \<^verbatim>\<open>strings.ToUpper\<close> and \<^verbatim>\<open>strings.ToLower\<close> on ASCII: the letters change case, every
  other byte stays. (On text outside ASCII Go maps Unicode letters; the names, tags and
  secrets here are ASCII.)
\<close>

definition lower_letters :: string where
  "lower_letters = ''abcdefghijklmnopqrstuvwxyz''"

definition upper_letters :: string where
  "upper_letters = ''ABCDEFGHIJKLMNOPQRSTUVWXYZ''"

definition upper_char :: "char \<Rightarrow> char" where
  "upper_char c = (case map_of (zip lower_letters upper_letters) c of None \<Rightarrow> c | Some u \<Rightarrow> u)"

definition lower_char :: "char \<Rightarrow> char" where
  "lower_char c = (case map_of (zip upper_letters lower_letters) c of None \<Rightarrow> c | Some l \<Rightarrow> l)"

definition ToUpper :: "string \<Rightarrow> string" where
  "ToUpper s = map upper_char s"

definition ToLower :: "string \<Rightarrow> string" where
  "ToLower s = map lower_char s"

section \<open>The Fargate tester\<close>

subsection \<open>State, collaborators and the log of effects\<close>

text \<open>
  Every step of the tester talks to the Kubernetes API, to CloudFormation or to EKS, and
  \<^verbatim>\<open>EKSConfig.Sync\<close> writes the configuration to disk. Each is an operation on the world
  outside the tester: it changes that world and returns an error or \<^verbatim>\<open>nil\<close>. What an
  operation does is a parameter (\<open>exec\<close>); the tester's own control flow is what is
  modelled. No step reads or writes the \<^verbatim>\<open>Created\<close> flag, so the flag is kept apart from
  the world the steps act on.
\<close>

text \<open>
  An error is either a plain one (\<^verbatim>\<open>errors.New\<close>, \<^verbatim>\<open>fmt.Errorf\<close>, the errors of a
  context) or one that implements \<^verbatim>\<open>awserr.Error\<close>: then it has a code besides its
  text. The second argument of \<open>awsError\<close> is what \<^verbatim>\<open>Error()\<close> returns.
\<close>

datatype error = errorString string | awsError string string

fun error_text :: "error \<Rightarrow> string" where
  "error_text (errorString s) = s"
| "error_text (awsError code s) = s"

datatype op =
    createNamespace | createRole | createSecret | createProfile | createPod
  | checkPod | checkNode
  | deletePod | deleteProfile | deleteRole | deleteSecret | deleteNamespace
  | Sync

text \<open>
  The log holds, in order, every assignment to \<^verbatim>\<open>AddOnFargate.Created\<close>, every operation
  called with what it returned, and every \<^verbatim>\<open>time.Sleep\<close> (in seconds).
\<close>

datatype event = Assign_Created bool | Call op "error option" | Sleep nat

record 'w collaborators =
  exec :: "op \<Rightarrow> 'w \<Rightarrow> 'w \<times> error option"
  clock :: "'w \<Rightarrow> int"

record 'w tester =
  Created :: bool
  CreateTook :: int
  DeleteTook :: int
  world :: 'w
  events :: "event list"

definition call :: "'w collaborators \<Rightarrow> op \<Rightarrow> 'w tester \<Rightarrow> 'w tester \<times> error option" where
  "call k p ts =
     (let (w, err) = exec k p (world ts)
      in (ts\<lparr>world := w, events := events ts @ [Call p err]\<rparr>, err))"

definition assign_Created :: "bool \<Rightarrow> 'w tester \<Rightarrow> 'w tester" where
  "assign_Created b ts = ts\<lparr>Created := b, events := events ts @ [Assign_Created b]\<rparr>"

definition sleep :: "nat \<Rightarrow> 'w tester \<Rightarrow> 'w tester" where
  "sleep secs ts = ts\<lparr>events := events ts @ [Sleep secs]\<rparr>"

subsection \<open>Create\<close>

text \<open>
  The chain \<^verbatim>\<open>if err := step(); err != nil { return err }\<close>, one link per step, in the
  order of the source.
\<close>

definition create_steps :: "op list" where
  "create_steps =
     [createNamespace, createRole, createSecret, createProfile, createPod, checkPod, checkNode]"

fun run_steps :: "'w collaborators \<Rightarrow> op list \<Rightarrow> 'w tester \<Rightarrow> 'w tester \<times> error option" where
  "run_steps k [] ts = (ts, None)"
| "run_steps k (p # ps) ts =
     (case call k p ts of
        (ts', Some err) \<Rightarrow> (ts', Some err)
      | (ts', None) \<Rightarrow> run_steps k ps ts')"

text \<open>
  \<^verbatim>\<open>Create\<close>: the early return when the add-on is already created; otherwise the flag is
  set and synced, the steps run, the function returns what \<^verbatim>\<open>Sync\<close> returns when every
  step succeeded, and the deferred function records the duration and syncs once more.
\<close>

definition Create :: "'w collaborators \<Rightarrow> 'w tester \<Rightarrow> 'w tester \<times> error option" where
  "Create k ts =
     (if Created ts then (ts, None)
      else
        let ts1 = assign_Created True ts;
            ts2 = fst (call k Sync ts1);
            createStart = clock k (world ts2);
            (ts3, err) =
              (case run_steps k create_steps ts2 of
                 (t, Some e) \<Rightarrow> (t, Some e)
               | (t, None) \<Rightarrow> call k Sync t);
            ts4 = ts3\<lparr>CreateTook := clock k (world ts3) - createStart\<rparr>;
            ts5 = fst (call k Sync ts4)
        in (ts5, err))"

subsection \<open>Delete\<close>

text \<open>
  \<^verbatim>\<open>Delete\<close> collects the failures of the first three deletions in the local slice
  \<^verbatim>\<open>errs\<close> and goes on; the slice is not read again. A failure to delete the secret or
  the namespace returns at once. The deferred function records the duration and syncs.
\<close>

definition failed_to :: "string \<Rightarrow> error option \<Rightarrow> string list" where
  "failed_to what err =
     (case err of
        None \<Rightarrow> []
      | Some e \<Rightarrow> [''failed to delete '' @ what @ '' ('' @ error_text e @ '')''])"

definition Delete :: "'w collaborators \<Rightarrow> 'w tester \<Rightarrow> 'w tester \<times> error option" where
  "Delete k ts =
     (if \<not> Created ts then (ts, None)
      else
        let deleteStart = clock k (world ts);
            (ts1, err1) = call k deletePod ts;
            errs1 = failed_to ''Fargate Pod'' err1;
            (ts2, err2) = call k deleteProfile ts1;
            errs2 = errs1 @ failed_to ''Fargate profile'' err2;
            ts3 = sleep 10 ts2;
            (ts4, err3) = call k deleteRole ts3;
            errs = errs2 @ failed_to ''IAM Role'' err3;
            ts5 = sleep 20 ts4;
            (ts6, err) =
              (case call k deleteSecret ts5 of
                 (t, Some e) \<Rightarrow> (t, Some e)
               | (t, None) \<Rightarrow>
                   (case call k deleteNamespace t of
                      (t', Some e) \<Rightarrow> (t', Some e)
                    | (t', None) \<Rightarrow> call k Sync (assign_Created False t')));
            ts7 = ts6\<lparr>DeleteTook := clock k (world ts6) - deleteStart\<rparr>;
            ts8 = fst (call k Sync ts7)
        in (ts8, err))"

section \<open>The Fargate profile poller\<close>

subsection \<open>Values\<close>

text \<open>
  Of \<^verbatim>\<open>eks.FargateProfile\<close> the poller reads the status only; the name is kept to tell
  profiles apart. Both are \<^verbatim>\<open>*string\<close> in the SDK.
\<close>

record FargateProfile =
  FargateProfileName :: "string option"
  Status :: "string option"

record FargateProfileStatus =
  FargateProfile :: "FargateProfile option"
  Error :: "error option"

text \<open>\<^verbatim>\<open>aws.StringValue\<close>: the empty string for a \<^verbatim>\<open>nil\<close> pointer.\<close>

definition StringValue :: "string option \<Rightarrow> string" where
  "StringValue p = (case p of None \<Rightarrow> [] | Some s \<Rightarrow> s)"

definition FargateProfileStatusDELETEDORNOTEXIST :: string where
  "FargateProfileStatusDELETEDORNOTEXIST = ''DELETED/NOT-EXIST''"

text \<open>The two failure statuses of the EKS API, as the SDK spells them.\<close>

definition FargateProfileStatusCreateFailed :: string where
  "FargateProfileStatusCreateFailed = ''CREATE_FAILED''"

definition FargateProfileStatusDeleteFailed :: string where
  "FargateProfileStatusDeleteFailed = ''DELETE_FAILED''"

fun IsProfileDeleted :: "error option \<Rightarrow> bool" where
  "IsProfileDeleted None = False"
| "IsProfileDeleted (Some err) =
     ((case err of
         awsError code _ \<Rightarrow> code = ''ResourceNotFoundException''
       | errorString _ \<Rightarrow> False)
      \<or> Contains (error_text err) '' not found '')"

subsection \<open>What the goroutine observes\<close>

text \<open>
  The goroutine of \<^verbatim>\<open>Poll\<close> depends on its surroundings at four places in each turn of
  its loop: the loop condition \<^verbatim>\<open>ctx.Err() == nil\<close>, the \<^verbatim>\<open>select\<close> at the head of the
  body, the answer of \<^verbatim>\<open>DescribeFargateProfile\<close>, and the \<^verbatim>\<open>select\<close> of the initial wait.
  A \<open>tick\<close> holds what one turn observes. A \<^verbatim>\<open>select\<close> proceeds with the context
  (whose error is then not \<^verbatim>\<open>nil\<close>, by the contract of package context), with the stop
  channel, or with the timer. A run is a list of ticks; when the list ends before the
  goroutine has returned, the goroutine is still in its loop.

  The turns below are what the goroutine does as long as its sends proceed. The channel
  and its reader come after them: see \<open>blocked_after\<close> at the end of this section.
\<close>

datatype select_case = ctx_Done error | stopc | time_After

datatype describe_result = returned_error error | returned_output "FargateProfile option"

record tick =
  ctx_Err :: "error option"
  selected :: select_case
  DescribeFargateProfile :: describe_result
  selected_initial :: select_case

text \<open>
  What the goroutine does, in order: timers it waited for until they fired (the
  duration asked for), calls of \<^verbatim>\<open>DescribeFargateProfile\<close> (cluster and profile name),
  values sent on the channel, and the close of the channel.
\<close>

datatype poll_event = Wait nat | Describe string string | Send FargateProfileStatus | Close

record loop_vars =
  waitDur :: nat
  first :: bool

definition wait_aborted :: "error \<Rightarrow> poll_event list" where
  "wait_aborted e = [Send \<lparr>FargateProfile = None, Error = Some e\<rparr>, Close]"

subsection \<open>One turn of the loop, and the loop\<close>

text \<open>
  A turn returns what it did and the loop variables of the next turn, or \<open>None\<close> when
  the goroutine returned. The texts of the errors made by \<^verbatim>\<open>fmt.Errorf\<close> are shortened.
\<close>

definition iteration ::
  "string \<Rightarrow> string \<Rightarrow> string \<Rightarrow> nat \<Rightarrow> nat \<Rightarrow> loop_vars \<Rightarrow> tick
     \<Rightarrow> poll_event list \<times> loop_vars option" where
  "iteration clusterName profileName desiredStatus initialWait wait v t =
     (case ctx_Err t of
        Some e \<Rightarrow> (wait_aborted e, None)
      | None \<Rightarrow>
          (case selected t of
             ctx_Done e \<Rightarrow> (wait_aborted e, None)
           | stopc \<Rightarrow> (wait_aborted (errorString ''wait stopped''), None)
           | time_After \<Rightarrow>
               let v1 = (if waitDur v = 0 then v\<lparr>waitDur := wait\<rparr> else v);
                   polled = [Wait (waitDur v), Describe clusterName profileName]
               in
                 (case DescribeFargateProfile t of
                    returned_error err \<Rightarrow>
                      if IsProfileDeleted (Some err) then
                        (if desiredStatus = FargateProfileStatusDELETEDORNOTEXIST
                         then (polled @ [Send \<lparr>FargateProfile = None, Error = None\<rparr>, Close], None)
                         else (polled @ [Send \<lparr>FargateProfile = None, Error = Some err\<rparr>, Close], None))
                      else (polled @ [Send \<lparr>FargateProfile = None, Error = Some err\<rparr>], Some v1)
                  | returned_output None \<Rightarrow>
                      (polled @ [Send \<lparr>FargateProfile = None,
                                        Error = Some (errorString ''unexpected empty response'')\<rparr>],
                       Some v1)
                  | returned_output (Some fargateProfile) \<Rightarrow>
                      let currentStatus = StringValue (Status fargateProfile) in
                      if currentStatus = desiredStatus then
                        (polled @ [Send \<lparr>FargateProfile = Some fargateProfile, Error = None\<rparr>, Close],
                         None)
                      else if currentStatus = FargateProfileStatusCreateFailed
                              \<or> currentStatus = FargateProfileStatusDeleteFailed then
                        (polled @
                           [Send \<lparr>FargateProfile = Some fargateProfile,
                                   Error = Some (errorString
                                     (''unexpected fargate status '' @ currentStatus))\<rparr>,
                            Close],
                         None)
                      else
                        let sent = polled @ [Send \<lparr>FargateProfile = Some fargateProfile, Error = None\<rparr>]
                        in if first v1 then
                             (case selected_initial t of
                                ctx_Done e \<Rightarrow> (sent @ wait_aborted e, None)
                              | stopc \<Rightarrow> (sent @ wait_aborted (errorString ''wait stopped''), None)
                              | time_After \<Rightarrow>
                                  (sent @ [Wait initialWait], Some (v1\<lparr>first := False\<rparr>)))
                           else (sent, Some v1))))"

fun poll_loop ::
  "string \<Rightarrow> string \<Rightarrow> string \<Rightarrow> nat \<Rightarrow> nat \<Rightarrow> loop_vars \<Rightarrow> tick list \<Rightarrow> poll_event list" where
  "poll_loop clusterName profileName desiredStatus initialWait wait v [] = []"
| "poll_loop clusterName profileName desiredStatus initialWait wait v (t # ts) =
     (case iteration clusterName profileName desiredStatus initialWait wait v t of
        (evs, None) \<Rightarrow> evs
      | (evs, Some v') \<Rightarrow>
          evs @ poll_loop clusterName profileName desiredStatus initialWait wait v' ts)"

text \<open>
  \<^verbatim>\<open>Poll\<close> starts the goroutine with \<^verbatim>\<open>waitDur\<close> zero and \<^verbatim>\<open>first\<close> true. The context,
  the stop channel and the EKS API are the ticks.
\<close>

definition Poll ::
  "tick list \<Rightarrow> string \<Rightarrow> string \<Rightarrow> string \<Rightarrow> nat \<Rightarrow> nat \<Rightarrow> poll_event list" where
  "Poll ticks clusterName profileName desiredStatus initialWait wait =
     poll_loop clusterName profileName desiredStatus initialWait wait
       \<lparr>waitDur = 0, first = True\<rparr> ticks"

subsection \<open>Reading a run\<close>

text \<open>
  The timers waited for before each call of \<^verbatim>\<open>DescribeFargateProfile\<close>, since the call
  before it (or since the start): one list of durations per call.
\<close>

fun waits_since :: "nat list \<Rightarrow> poll_event list \<Rightarrow> nat list list" where
  "waits_since acc [] = []"
| "waits_since acc (Wait d # tr) = waits_since (acc @ [d]) tr"
| "waits_since acc (Describe c p # tr) = acc # waits_since [] tr"
| "waits_since acc (Send x # tr) = waits_since acc tr"
| "waits_since acc (Close # tr) = waits_since acc tr"

definition waits_before_calls :: "poll_event list \<Rightarrow> nat list list" where
  "waits_before_calls tr = waits_since [] tr"

text \<open>A tick at which the goroutine calls the API, and what the call finds.\<close>

definition polls :: "tick \<Rightarrow> bool" where
  "polls t = (ctx_Err t = None \<and> selected t = time_After)"





text \<open>A tick at which the call returns a profile that is neither desired nor failed.\<close>

definition in_progress :: "string \<Rightarrow> tick \<Rightarrow> bool" where
  "in_progress desiredStatus t =
     (polls t \<and>
      (case DescribeFargateProfile t of
         returned_error err \<Rightarrow> False
       | returned_output None \<Rightarrow> False
       | returned_output (Some p) \<Rightarrow>
           StringValue (Status p) \<noteq> desiredStatus
           \<and> StringValue (Status p) \<noteq> FargateProfileStatusCreateFailed
           \<and> StringValue (Status p) \<noteq> FargateProfileStatusDeleteFailed))"



subsection \<open>The channel\<close>




section \<open>eksconfig: reading the environment\<close>

subsection \<open>Structs as reflection sees them\<close>

text \<open>
  \<^verbatim>\<open>parseEnvs\<close> walks the fields of a struct by reflection. A field has its Go name, its
  \<^verbatim>\<open>json\<close> tag, its \<^verbatim>\<open>read-only\<close> tag and a value; the constructor of the value is the
  kind \<^verbatim>\<open>parseEnvs\<close> switches on. An integer carries the size of its type. A slice is a
  slice of strings. A map holds strings (\<^verbatim>\<open>Tags\<close>) or structs (\<^verbatim>\<open>ASGs\<close>, \<^verbatim>\<open>MNGs\<close>), in
  the order of insertion. Every other kind (pointer, struct, ...) is \<open>VOther\<close>.
\<close>

datatype int_kind = reflect_Int | reflect_Int32 | reflect_Int64

datatype uint_kind = reflect_Uint | reflect_Uint32 | reflect_Uint64

datatype field = Field (fieldName: string) (jsonTag: string) (readOnlyTag: string) (fieldValue: val)
and val =
    VString string
  | VBool bool
  | VInt int_kind int
  | VUint uint_kind nat
  | VFloat real
  | VSlice "string list"
  | VMap "(string \<times> mapval) list"
  | VOther
and mapval = MString string | MStruct "field list"

text \<open>
  The argument of \<^verbatim>\<open>parseEnvs\<close> is a pointer to a struct. For a \<^verbatim>\<open>nil\<close> pointer
  reflection still knows the fields of the type; their values are not there.
\<close>

datatype struct_ptr = nil_ptr "field list" | ptr "field list"

fun Elem :: "struct_ptr \<Rightarrow> field list" where
  "Elem (nil_ptr fs) = fs"
| "Elem (ptr fs) = fs"

fun is_nil :: "struct_ptr \<Rightarrow> bool" where
  "is_nil (nil_ptr fs) = True"
| "is_nil (ptr fs) = False"

fun with_fields :: "struct_ptr \<Rightarrow> field list \<Rightarrow> struct_ptr" where
  "with_fields (nil_ptr _) fs = nil_ptr fs"
| "with_fields (ptr _) fs = ptr fs"

definition Set_field :: "field \<Rightarrow> val \<Rightarrow> field" where
  "Set_field f v = Field (fieldName f) (jsonTag f) (readOnlyTag f) v"

text \<open>
  \<^verbatim>\<open>SetInt\<close> and \<^verbatim>\<open>SetUint\<close> store a 64-bit number in a field of the field's size: the
  high bits are cut off. \<^verbatim>\<open>int\<close> and \<^verbatim>\<open>uint\<close> have 64 bits.
\<close>

fun int_bits :: "int_kind \<Rightarrow> nat" where
  "int_bits reflect_Int = 64"
| "int_bits reflect_Int32 = 32"
| "int_bits reflect_Int64 = 64"

fun uint_bits :: "uint_kind \<Rightarrow> nat" where
  "uint_bits reflect_Uint = 64"
| "uint_bits reflect_Uint32 = 32"
| "uint_bits reflect_Uint64 = 64"

definition SetInt :: "int_kind \<Rightarrow> int \<Rightarrow> int" where
  "SetInt k x =
     (x + 2 ^ (int_bits k - 1)) mod 2 ^ int_bits k - 2 ^ (int_bits k - 1)"

definition SetUint :: "uint_kind \<Rightarrow> nat \<Rightarrow> nat" where
  "SetUint k x = x mod 2 ^ uint_bits k"

subsection \<open>The environment and the library\<close>

text \<open>
  The environment maps the names of the variables that are set to their values;
  \<^verbatim>\<open>os.Getenv\<close> returns the empty string for a variable that is not set.
\<close>

type_synonym environ = "string \<rightharpoonup> string"

definition Getenv :: "environ \<Rightarrow> string \<Rightarrow> string" where
  "Getenv e name = (case e name of None \<Rightarrow> [] | Some v \<Rightarrow> v)"

text \<open>
  The parsers of package strconv and \<^verbatim>\<open>json.Unmarshal\<close> (into a map of structs) belong
  to the Go library: they are parameters. \<open>None\<close> is a parse error. Floating-point
  numbers are taken as reals: rounding is not modelled.
\<close>

record library =
  ParseBool :: "string \<Rightarrow> bool option"
  ParseInt :: "string \<Rightarrow> int option"
  ParseUint :: "string \<Rightarrow> nat option"
  ParseFloat :: "string \<Rightarrow> real option"
  Unmarshal :: "string \<Rightarrow> (string \<times> field list) list option"

text \<open>How a call ends other than by returning \<^verbatim>\<open>nil\<close>: it returns an error, or it panics.\<close>

datatype exit = returns_error error | panics string

subsection \<open>parseEnvs\<close>

definition EnvironmentVariablePrefix :: string where
  "EnvironmentVariablePrefix = ''AWS_K8S_TESTER_EKS_''"

definition EnvironmentVariablePrefixParameters :: string where
  "EnvironmentVariablePrefixParameters = ''AWS_K8S_TESTER_EKS_PARAMETERS_''"

definition EnvironmentVariablePrefixAddOnNodeGroups :: string where
  "EnvironmentVariablePrefixAddOnNodeGroups = ''AWS_K8S_TESTER_EKS_ADD_ON_NODE_GROUPS_''"

definition EnvironmentVariablePrefixAddOnManagedNodeGroups :: string where
  "EnvironmentVariablePrefixAddOnManagedNodeGroups =
     ''AWS_K8S_TESTER_EKS_ADD_ON_MANAGED_NODE_GROUPS_''"

definition EnvironmentVariablePrefixAddOnNLBHelloWorld :: string where
  "EnvironmentVariablePrefixAddOnNLBHelloWorld = ''AWS_K8S_TESTER_EKS_ADD_ON_NLB_HELLO_WORLD_''"

definition EnvironmentVariablePrefixAddOnALB2048 :: string where
  "EnvironmentVariablePrefixAddOnALB2048 = ''AWS_K8S_TESTER_EKS_ADD_ON_ALB_2048_''"

definition EnvironmentVariablePrefixAddOnJobPi :: string where
  "EnvironmentVariablePrefixAddOnJobPi = ''AWS_K8S_TESTER_EKS_ADD_ON_JOB_PI_''"

definition EnvironmentVariablePrefixAddOnJobEcho :: string where
  "EnvironmentVariablePrefixAddOnJobEcho = ''AWS_K8S_TESTER_EKS_ADD_ON_JOB_ECHO_''"

definition EnvironmentVariablePrefixAddOnCronJob :: string where
  "EnvironmentVariablePrefixAddOnCronJob = ''AWS_K8S_TESTER_EKS_ADD_ON_CRON_JOB_''"

definition EnvironmentVariablePrefixAddOnSecrets :: string where
  "EnvironmentVariablePrefixAddOnSecrets = ''AWS_K8S_TESTER_EKS_ADD_ON_SECRETS_''"

definition EnvironmentVariablePrefixAddOnIRSA :: string where
  "EnvironmentVariablePrefixAddOnIRSA = ''AWS_K8S_TESTER_EKS_ADD_ON_IRSA_''"

definition EnvironmentVariablePrefixAddOnFargate :: string where
  "EnvironmentVariablePrefixAddOnFargate = ''AWS_K8S_TESTER_EKS_ADD_ON_FARGATE_''"

definition EnvironmentVariablePrefixAddOnAppMesh :: string where
  "EnvironmentVariablePrefixAddOnAppMesh = ''AWS_K8S_TESTER_EKS_ADD_ON_APP_MESH_''"

text \<open>The name of the variable of a field: the prefix and the tag, rewritten.\<close>

definition env_key :: "string \<Rightarrow> string \<Rightarrow> string" where
  "env_key pfx jv =
     pfx @ ToUpper (ReplaceAll (ReplaceAll jv '',omitempty'' []) ''-'' ''_'')"

text \<open>
  The assignment \<^verbatim>\<open>m[k] = v\<close> on a map given by its entries: the entry of the key is
  replaced where it stands, a new key comes last.

  The \<^verbatim>\<open>Tags\<close> case: the map is replaced by an empty one, then filled pair by pair; a
  pair that is not \<^verbatim>\<open>key=value\<close> returns an error and leaves the map as filled so far.
\<close>

fun SetMapIndex :: "('k \<times> 'v) list \<Rightarrow> 'k \<Rightarrow> 'v \<Rightarrow> ('k \<times> 'v) list" where
  "SetMapIndex [] k v = [(k, v)]"
| "SetMapIndex ((k', v') # m) k v =
     (if k' = k then (k, v) # m else (k', v') # SetMapIndex m k v)"

fun parse_tags :: "(string \<times> mapval) list \<Rightarrow> string list \<Rightarrow> (string \<times> mapval) list \<times> bool" where
  "parse_tags m [] = (m, True)"
| "parse_tags m (pair # pairs) =
     (case Split pair ''='' of
        [k, v] \<Rightarrow> parse_tags (SetMapIndex m k (MString v)) pairs
      | _ \<Rightarrow> (m, False))"

text \<open>
  The \<^verbatim>\<open>ASGs\<close> and \<^verbatim>\<open>MNGs\<close> cases: in every struct of the unmarshalled map, the string
  fields tagged read-only are emptied.
\<close>

definition clear_read_only :: "field \<Rightarrow> field" where
  "clear_read_only f =
     (if jsonTag f = [] then f
      else if readOnlyTag f \<noteq> ''true'' then f
      else (case fieldValue f of VString _ \<Rightarrow> Set_field f (VString []) | _ \<Rightarrow> f))"

fun clear_all :: "(string \<times> mapval) list \<Rightarrow> (string \<times> field list) list \<Rightarrow> (string \<times> mapval) list" where
  "clear_all m [] = m"
| "clear_all m ((k, v) # kvs) = clear_all (SetMapIndex m k (MStruct (map clear_read_only v))) kvs"

text \<open>
  The body of the loop over the fields: the field after the turn, and how the function
  ends if it ends in this turn. A field without tag, a variable that is empty or not
  set, and a field tagged read-only go on to the next field. The texts of the errors
  are shortened.
\<close>

definition parse_failed :: "string \<Rightarrow> string \<Rightarrow> exit" where
  "parse_failed sv name = returns_error (errorString (''failed to parse '' @ sv @ '' (field name '' @ name @ '')''))"

definition parse_field :: "library \<Rightarrow> environ \<Rightarrow> string \<Rightarrow> bool \<Rightarrow> field \<Rightarrow> field \<times> exit option" where
  "parse_field lib e pfx nil f =
     (if jsonTag f = [] then (f, None)
      else
        let env = env_key pfx (jsonTag f);
            sv = Getenv e env
        in if sv = [] then (f, None)
           else if readOnlyTag f = ''true'' then (f, None)
           else if nil then (f, Some (panics ''reflect: call of reflect.Value.Field on zero Value''))
           else
             (case fieldValue f of
                VString _ \<Rightarrow> (Set_field f (VString sv), None)
              | VBool _ \<Rightarrow>
                  (case ParseBool lib sv of
                     None \<Rightarrow> (f, Some (parse_failed sv (fieldName f)))
                   | Some bb \<Rightarrow> (Set_field f (VBool bb), None))
              | VInt k _ \<Rightarrow>
                  (case ParseInt lib sv of
                     None \<Rightarrow> (f, Some (parse_failed sv (fieldName f)))
                   | Some iv \<Rightarrow> (Set_field f (VInt k (SetInt k iv)), None))
              | VUint k _ \<Rightarrow>
                  (case ParseUint lib sv of
                     None \<Rightarrow> (f, Some (parse_failed sv (fieldName f)))
                   | Some iv \<Rightarrow> (Set_field f (VUint k (SetUint k iv)), None))
              | VFloat _ \<Rightarrow>
                  (case ParseFloat lib sv of
                     None \<Rightarrow> (f, Some (parse_failed sv (fieldName f)))
                   | Some fv \<Rightarrow> (Set_field f (VFloat fv), None))
              | VSlice _ \<Rightarrow>
                  (let ss = Split sv '','' in
                   if length ss < 1 then (f, None) else (Set_field f (VSlice ss), None))
              | VMap _ \<Rightarrow>
                  (if fieldName f = ''Tags'' then
                     (case parse_tags [] (Split sv '';'') of
                        (m, True) \<Rightarrow> (Set_field f (VMap m), None)
                      | (m, False) \<Rightarrow>
                          (Set_field f (VMap m),
                           Some (returns_error (errorString
                             (''map '' @ sv @ '' for '' @ fieldName f @ '' has unexpected format'')))))
                   else if fieldName f = ''ASGs'' \<or> fieldName f = ''MNGs'' then
                     (case Unmarshal lib sv of
                        None \<Rightarrow> (f, Some (parse_failed sv (fieldName f)))
                      | Some kvs \<Rightarrow> (Set_field f (VMap (clear_all [] kvs)), None))
                   else (f, Some (returns_error (errorString
                           (''field '' @ fieldName f @ '' not supported for reflect.Map'')))))
              | VOther \<Rightarrow>
                  (f, Some (returns_error (errorString (env @ '' is not supported as an env''))))))"

fun parse_fields :: "library \<Rightarrow> environ \<Rightarrow> string \<Rightarrow> bool \<Rightarrow> field list \<Rightarrow> field list \<times> exit option" where
  "parse_fields lib e pfx nil [] = ([], None)"
| "parse_fields lib e pfx nil (f # fs) =
     (case parse_field lib e pfx nil f of
        (f', Some x) \<Rightarrow> (f' # fs, Some x)
      | (f', None) \<Rightarrow>
          (case parse_fields lib e pfx nil fs of (fs', r) \<Rightarrow> (f' # fs', r)))"

text \<open>
  \<^verbatim>\<open>parseEnvs\<close> changes the struct in place: the struct as it is when the function ends
  is returned with how it ends, also when it ends with an error or a panic.
\<close>

definition parseEnvs :: "library \<Rightarrow> environ \<Rightarrow> string \<Rightarrow> struct_ptr \<Rightarrow> struct_ptr \<times> exit option" where
  "parseEnvs lib e pfx addOn =
     (case parse_fields lib e pfx (is_nil addOn) (Elem addOn) of
        (fs, r) \<Rightarrow> (with_fields addOn fs, r))"

subsection \<open>UpdateFromEnvs\<close>

text \<open>
  \<^verbatim>\<open>UpdateFromEnvs\<close> calls \<^verbatim>\<open>parseEnvs\<close> on the configuration and then on each of the
  twelve structs its pointer fields point to, each with its prefix, and returns at the
  first error. The configuration is given as these thirteen structs, in the order of the
  calls; in the first one the pointer fields are of kind \<open>VOther\<close>. The deferred
  \<^verbatim>\<open>unsafeSync\<close> writes the configuration to disk; the mutex is not modelled.
\<close>

definition prefixes :: "string list" where
  "prefixes =
     [EnvironmentVariablePrefix,
      EnvironmentVariablePrefixParameters,
      EnvironmentVariablePrefixAddOnNodeGroups,
      EnvironmentVariablePrefixAddOnManagedNodeGroups,
      EnvironmentVariablePrefixAddOnNLBHelloWorld,
      EnvironmentVariablePrefixAddOnALB2048,
      EnvironmentVariablePrefixAddOnJobPi,
      EnvironmentVariablePrefixAddOnJobEcho,
      EnvironmentVariablePrefixAddOnCronJob,
      EnvironmentVariablePrefixAddOnSecrets,
      EnvironmentVariablePrefixAddOnIRSA,
      EnvironmentVariablePrefixAddOnFargate,
      EnvironmentVariablePrefixAddOnAppMesh]"

fun parse_each :: "library \<Rightarrow> environ \<Rightarrow> string list \<Rightarrow> struct_ptr list \<Rightarrow> struct_ptr list \<times> exit option" where
  "parse_each lib e (pfx # pfxs) (s # ss) =
     (case parseEnvs lib e pfx s of
        (s', Some x) \<Rightarrow> (s' # ss, Some x)
      | (s', None) \<Rightarrow> (case parse_each lib e pfxs ss of (ss', r) \<Rightarrow> (s' # ss', r)))"
| "parse_each lib e pfxs ss = (ss, None)"

definition UpdateFromEnvs :: "library \<Rightarrow> environ \<Rightarrow> struct_ptr list \<Rightarrow> struct_ptr list \<times> exit option" where
  "UpdateFromEnvs lib e cfg = parse_each lib e prefixes cfg"

section \<open>eksconfig: validation and defaults\<close>

subsection \<open>The configuration\<close>

text \<open>
  The structs of package eksconfig (and \<^verbatim>\<open>ec2config.ASG\<close>), with the fields the validation
  reads or writes. The fields of \<^verbatim>\<open>Config\<close> that point to a struct are options: such a
  pointer can be \<^verbatim>\<open>nil\<close>. A Go map is the list of its entries, in the order in which
  \<^verbatim>\<open>range\<close> visits them (any order). Integers are unbounded, with the conversion to
  \<^verbatim>\<open>int32\<close> written out. The float \<^verbatim>\<open>VersionValue\<close> is a real number.
\<close>

record ASG =
  Name :: string
  RemoteAccessUserName :: string
  AMIType :: string
  InstanceTypes :: "string list"
  VolumeSize :: int
  ASGMinSize :: int
  ASGMaxSize :: int
  ASGDesiredCapacity :: int
  SSMDocumentCreate :: bool
  SSMDocumentName :: string
  SSMDocumentExecutionTimeoutSeconds :: int

record MNG =
  Name :: string
  RemoteAccessUserName :: string
  AMIType :: string
  InstanceTypes :: "string list"
  VolumeSize :: int
  ASGMinSize :: int
  ASGMaxSize :: int
  ASGDesiredCapacity :: int

record Parameters =
  RoleName :: string
  RoleCreate :: bool
  RoleARN :: string
  RoleServicePrincipals :: "string list"
  RoleManagedPolicyARNs :: "string list"
  VPCCreate :: bool
  VPCID :: string
  VPCCIDR :: string
  PublicSubnetCIDR1 :: string
  PublicSubnetCIDR2 :: string
  PublicSubnetCIDR3 :: string
  PrivateSubnetCIDR1 :: string
  PrivateSubnetCIDR2 :: string
  Version :: string
  VersionValue :: real
  EncryptionCMKCreate :: bool
  EncryptionCMKARN :: string

record AddOnNodeGroups =
  Enable :: bool
  RoleName :: string
  RoleCreate :: bool
  RoleARN :: string
  RoleServicePrincipals :: "string list"
  RoleManagedPolicyARNs :: "string list"
  LogsDir :: string
  ASGs :: "(string \<times> ASG) list"

record AddOnManagedNodeGroups =
  Enable :: bool
  RoleName :: string
  RoleCreate :: bool
  RoleARN :: string
  RoleServicePrincipals :: "string list"
  RoleManagedPolicyARNs :: "string list"
  LogsDir :: string
  MNGs :: "(string \<times> MNG) list"

record AddOnNLBHelloWorld =
  Enable :: bool
  Namespace :: string
  DeploymentReplicas :: int

record AddOnALB2048 =
  Enable :: bool
  Namespace :: string
  DeploymentReplicasALB :: int
  DeploymentReplicas2048 :: int

record AddOnJobPi =
  Enable :: bool
  Namespace :: string

record AddOnJobEcho =
  Enable :: bool
  Namespace :: string
  EchoSize :: int

record AddOnCronJob =
  Enable :: bool
  Namespace :: string
  EchoSize :: int

record AddOnSecrets =
  Enable :: bool
  Namespace :: string
  WritesResultPath :: string
  ReadsResultPath :: string

record AddOnIRSA =
  Enable :: bool
  Namespace :: string
  RoleName :: string
  ServiceAccountName :: string
  ConfigMapName :: string
  ConfigMapScriptFileName :: string
  S3Key :: string
  DeploymentName :: string
  DeploymentResultPath :: string

record AddOnFargate =
  Enable :: bool
  Namespace :: string
  ProfileName :: string
  SecretName :: string
  PodName :: string
  ContainerName :: string
  RoleCreate :: bool
  RoleName :: string
  RoleARN :: string
  RoleServicePrincipals :: "string list"
  RoleManagedPolicyARNs :: "string list"

record AddOnAppMesh =
  Enable :: bool
  Namespace :: string

record Config =
  ConfigPath :: string
  KubectlCommandsOutputPath :: string
  RemoteAccessCommandsOutputPath :: string
  Region :: string
  Name :: string
  LogOutputs :: "string list"
  KubectlDownloadURL :: string
  KubeConfigPath :: string
  CommandAfterCreateCluster :: string
  CommandAfterCreateClusterOutputPath :: string
  CommandAfterCreateAddOns :: string
  CommandAfterCreateAddOnsOutputPath :: string
  S3BucketName :: string
  S3BucketCreate :: bool
  S3BucketLifecycleExpirationDays :: int
  Parameters :: "Parameters option"
  RemoteAccessKeyCreate :: bool
  RemoteAccessKeyName :: string
  RemoteAccessPrivateKeyPath :: string
  AddOnNodeGroups :: "AddOnNodeGroups option"
  AddOnManagedNodeGroups :: "AddOnManagedNodeGroups option"
  AddOnNLBHelloWorld :: "AddOnNLBHelloWorld option"
  AddOnALB2048 :: "AddOnALB2048 option"
  AddOnJobPi :: "AddOnJobPi option"
  AddOnJobEcho :: "AddOnJobEcho option"
  AddOnCronJob :: "AddOnCronJob option"
  AddOnSecrets :: "AddOnSecrets option"
  AddOnIRSA :: "AddOnIRSA option"
  AddOnFargate :: "AddOnFargate option"
  AddOnAppMesh :: "AddOnAppMesh option"

subsection \<open>The host\<close>

text \<open>
  What the validation asks of the operating system, of the Go library and of the parts
  of the repository that are not among the sources: the file system and the search path,
  the functions of package filepath that clean paths, \<^verbatim>\<open>strconv.ParseFloat\<close> (the number
  and whether it failed), the random string, the keys of \<^verbatim>\<open>aws.RegionToAiport\<close>, and the
  constants of package eksconfig and of the SDK. All are parameters.
\<close>

record host =
  RegionToAiport :: "string \<Rightarrow> bool"
  GOOS :: string
  Getwd :: "string option"
  TempDir :: string
  MkdirAll :: "string \<Rightarrow> error option"
  filepath_Abs :: "string \<Rightarrow> string option"
  filepath_Join :: "string list \<Rightarrow> string"
  filepath_Dir :: "string \<Rightarrow> string"
  path_Join :: "string list \<Rightarrow> string"
  LookPath :: "string \<Rightarrow> string option"
  Exist :: "string \<Rightarrow> bool"
  strconv_ParseFloat :: "string \<Rightarrow> real \<times> error option"
  randString :: "nat \<Rightarrow> string"
  NGsMaxLimit :: int
  NGMaxLimit :: int
  MNGsMaxLimit :: int
  MNGMaxLimit :: int
  DefaultNodeVolumeSize :: int
  DefaultNodeInstanceTypeCPU :: string
  DefaultNodeInstanceTypeGPU :: string
  AMITypeBottleRocketCPU :: string
  AMITypesAl2X8664 :: string
  AMITypesAl2X8664Gpu :: string

subsection \<open>Helpers\<close>

definition fails :: "string \<Rightarrow> exit option" where
  "fails msg = Some (returns_error (errorString msg))"

definition nil_dereference :: "exit option" where
  "nil_dereference = Some (panics ''invalid memory address or nil pointer dereference'')"

text \<open>
  \<^verbatim>\<open>filepath.Ext\<close>: the suffix that starts at the last dot of the last element of the
  path, or the empty string. It is computed from the end of the path.
\<close>

fun ext_scan :: "string \<Rightarrow> string \<Rightarrow> string" where
  "ext_scan [] seen = []"
| "ext_scan (c # front) seen =
     (if c = CHR ''/'' then []
      else if c = CHR ''.'' then c # seen
      else ext_scan front (c # seen))"

definition Ext :: "string \<Rightarrow> string" where
  "Ext path = ext_scan (rev path) []"

text \<open>The conversion \<^verbatim>\<open>int32(x)\<close> keeps the low 32 bits.\<close>

definition int32 :: "int \<Rightarrow> int" where
  "int32 x = (x + 2147483648) mod 4294967296 - 2147483648"

text \<open>\<^verbatim>\<open>getNameFromARN\<close>: what follows the last slash.\<close>

definition getNameFromARN :: "string \<Rightarrow> string" where
  "getNameFromARN arn =
     (let ss = Split arn ''/'' in if length ss > 0 then last ss else arn)"

text \<open>
  \<^verbatim>\<open>secretRegex\<close> is \<^verbatim>\<open>[^a-zA-Z0-9]+\<close>. Its \<^verbatim>\<open>ReplaceAllString\<close> puts the replacement
  in the place of every longest run of bytes that are not ASCII letters or digits. (The
  bytes of a character outside ASCII are all such bytes.)
\<close>

definition digits :: string where
  "digits = ''0123456789''"

definition alphanumeric :: "char \<Rightarrow> bool" where
  "alphanumeric c = (c \<in> set (lower_letters @ upper_letters @ digits))"

function secretRegex_ReplaceAllString :: "string \<Rightarrow> string \<Rightarrow> string" where
  "secretRegex_ReplaceAllString [] repl = []"
| "secretRegex_ReplaceAllString (c # s) repl =
     (if alphanumeric c then c # secretRegex_ReplaceAllString s repl
      else repl @ secretRegex_ReplaceAllString (dropWhile (\<lambda>x. \<not> alphanumeric x) s) repl)"
  by pat_completeness auto
termination
  by (relation "measure (\<lambda>(s, repl). length s)")
     (auto simp: less_Suc_eq_le length_dropWhile_le)

subsection \<open>The parts of the repository that are not among the sources\<close>

text \<open>
  Modelled from the spec: \<^verbatim>\<open>IsEnabledAddOn...\<close> (eksconfig/config.go) are not among the
  sources. Following the claims, an add-on is enabled when its pointer is not \<^verbatim>\<open>nil\<close>
  and its \<^verbatim>\<open>Enable\<close> field is true; the configuration is not changed by asking.
\<close>

definition IsEnabledAddOnNodeGroups :: "Config \<Rightarrow> bool" where
  "IsEnabledAddOnNodeGroups cfg =
     (case AddOnNodeGroups cfg of None \<Rightarrow> False | Some a \<Rightarrow> AddOnNodeGroups.Enable a)"

definition IsEnabledAddOnManagedNodeGroups :: "Config \<Rightarrow> bool" where
  "IsEnabledAddOnManagedNodeGroups cfg =
     (case AddOnManagedNodeGroups cfg of None \<Rightarrow> False | Some a \<Rightarrow> AddOnManagedNodeGroups.Enable a)"

definition IsEnabledAddOnNLBHelloWorld :: "Config \<Rightarrow> bool" where
  "IsEnabledAddOnNLBHelloWorld cfg =
     (case AddOnNLBHelloWorld cfg of None \<Rightarrow> False | Some a \<Rightarrow> AddOnNLBHelloWorld.Enable a)"

definition IsEnabledAddOnALB2048 :: "Config \<Rightarrow> bool" where
  "IsEnabledAddOnALB2048 cfg =
     (case AddOnALB2048 cfg of None \<Rightarrow> False | Some a \<Rightarrow> AddOnALB2048.Enable a)"

definition IsEnabledAddOnJobPi :: "Config \<Rightarrow> bool" where
  "IsEnabledAddOnJobPi cfg =
     (case AddOnJobPi cfg of None \<Rightarrow> False | Some a \<Rightarrow> AddOnJobPi.Enable a)"

definition IsEnabledAddOnJobEcho :: "Config \<Rightarrow> bool" where
  "IsEnabledAddOnJobEcho cfg =
     (case AddOnJobEcho cfg of None \<Rightarrow> False | Some a \<Rightarrow> AddOnJobEcho.Enable a)"

definition IsEnabledAddOnCronJob :: "Config \<Rightarrow> bool" where
  "IsEnabledAddOnCronJob cfg =
     (case AddOnCronJob cfg of None \<Rightarrow> False | Some a \<Rightarrow> AddOnCronJob.Enable a)"

definition IsEnabledAddOnSecrets :: "Config \<Rightarrow> bool" where
  "IsEnabledAddOnSecrets cfg =
     (case AddOnSecrets cfg of None \<Rightarrow> False | Some a \<Rightarrow> AddOnSecrets.Enable a)"

definition IsEnabledAddOnIRSA :: "Config \<Rightarrow> bool" where
  "IsEnabledAddOnIRSA cfg =
     (case AddOnIRSA cfg of None \<Rightarrow> False | Some a \<Rightarrow> AddOnIRSA.Enable a)"

definition IsEnabledAddOnFargate :: "Config \<Rightarrow> bool" where
  "IsEnabledAddOnFargate cfg =
     (case AddOnFargate cfg of None \<Rightarrow> False | Some a \<Rightarrow> AddOnFargate.Enable a)"

definition IsEnabledAddOnAppMesh :: "Config \<Rightarrow> bool" where
  "IsEnabledAddOnAppMesh cfg =
     (case AddOnAppMesh cfg of None \<Rightarrow> False | Some a \<Rightarrow> AddOnAppMesh.Enable a)"

text \<open>
  Modelled from the spec: \<^verbatim>\<open>unsafeSync\<close> (eksconfig/config.go) is not among the sources.
  By the comment of \<^verbatim>\<open>ValidateAndSetDefaults\<close> it writes the populated YAML to the
  configuration path: the configuration in memory stays as it is.
\<close>

definition unsafeSync :: "Config \<Rightarrow> Config" where
  "unsafeSync cfg = cfg"

subsection \<open>Statements in sequence\<close>

text \<open>
  A function that validates is a list of statements run in order: each takes the
  configuration and returns it, changed or not, with how the function ends if it ends
  there. \<open>check\<close> is \<^verbatim>\<open>if bad { return errors.New(msg) }\<close>; \<open>assign\<close> is a statement
  that does not return.
\<close>

fun in_order :: "(Config \<Rightarrow> Config \<times> exit option) list \<Rightarrow> Config \<Rightarrow> Config \<times> exit option" where
  "in_order [] cfg = (cfg, None)"
| "in_order (stmt # stmts) cfg =
     (case stmt cfg of
        (c, Some x) \<Rightarrow> (c, Some x)
      | (c, None) \<Rightarrow> in_order stmts c)"

definition check :: "(Config \<Rightarrow> bool) \<Rightarrow> string \<Rightarrow> Config \<Rightarrow> Config \<times> exit option" where
  "check bad msg cfg = (cfg, if bad cfg then fails msg else None)"

definition assign :: "(Config \<Rightarrow> Config) \<Rightarrow> Config \<Rightarrow> Config \<times> exit option" where
  "assign f cfg = (f cfg, None)"

subsection \<open>validateConfig\<close>

text \<open>
  The default of \<^verbatim>\<open>ConfigPath\<close>: the working directory, or a directory made under the
  temporary directory when there is none, and the name with \<^verbatim>\<open>.yaml\<close>; the code panics
  when \<^verbatim>\<open>filepath.Abs\<close> fails.
\<close>

definition default_ConfigPath :: "host \<Rightarrow> Config \<Rightarrow> Config \<times> exit option" where
  "default_ConfigPath h cfg =
     (if ConfigPath cfg = [] then
        (case (case Getwd h of
                 Some wd \<Rightarrow> Inr wd
               | None \<Rightarrow>
                   (let rootDir = filepath_Join h [TempDir h, Config.Name cfg]
                    in case MkdirAll h rootDir of Some err \<Rightarrow> Inl err | None \<Rightarrow> Inr rootDir))
         of
           Inl err \<Rightarrow> (cfg, Some (returns_error err))
         | Inr rootDir \<Rightarrow>
             let cfg1 = cfg\<lparr>ConfigPath := filepath_Join h [rootDir, Config.Name cfg @ ''.yaml'']\<rparr>
             in (case filepath_Abs h (ConfigPath cfg1) of
                   None \<Rightarrow> (cfg1, Some (panics ''filepath.Abs failed''))
                 | Some p \<Rightarrow> (cfg1\<lparr>ConfigPath := p\<rparr>, None)))
      else (cfg, None))"

definition mkdir_ConfigPath :: "host \<Rightarrow> Config \<Rightarrow> Config \<times> exit option" where
  "mkdir_ConfigPath h cfg =
     (cfg, map_option returns_error (MkdirAll h (filepath_Dir h (ConfigPath cfg))))"

definition add_log_output :: "Config \<Rightarrow> Config" where
  "add_log_output cfg =
     (if length (LogOutputs cfg) = 1
         \<and> (LogOutputs cfg ! 0 = ''stderr'' \<or> LogOutputs cfg ! 0 = ''stdout'')
      then cfg\<lparr>LogOutputs := LogOutputs cfg @ [ConfigPath cfg @ ''.log'']\<rparr>
      else cfg)"

text \<open>The nine \<^verbatim>\<open>if\<close>s on the output paths, one definition each, in the order of the source.\<close>

definition default_KubectlCommandsOutputPath :: "Config \<Rightarrow> Config" where
  "default_KubectlCommandsOutputPath cfg =
     (if KubectlCommandsOutputPath cfg = []
      then cfg\<lparr>KubectlCommandsOutputPath := ReplaceAll (ConfigPath cfg) ''.yaml'' [] @ ''.kubectl.sh''\<rparr>
      else cfg)"

definition sh_KubectlCommandsOutputPath :: "Config \<Rightarrow> Config" where
  "sh_KubectlCommandsOutputPath cfg =
     (if Ext (KubectlCommandsOutputPath cfg) \<noteq> ''.sh''
      then cfg\<lparr>KubectlCommandsOutputPath := KubectlCommandsOutputPath cfg @ ''.sh''\<rparr>
      else cfg)"

definition default_RemoteAccessCommandsOutputPath :: "Config \<Rightarrow> Config" where
  "default_RemoteAccessCommandsOutputPath cfg =
     (if RemoteAccessCommandsOutputPath cfg = []
      then cfg\<lparr>RemoteAccessCommandsOutputPath := ReplaceAll (ConfigPath cfg) ''.yaml'' [] @ ''.ssh.sh''\<rparr>
      else cfg)"

definition sh_RemoteAccessCommandsOutputPath :: "Config \<Rightarrow> Config" where
  "sh_RemoteAccessCommandsOutputPath cfg =
     (if Ext (RemoteAccessCommandsOutputPath cfg) \<noteq> ''.sh''
      then cfg\<lparr>RemoteAccessCommandsOutputPath := RemoteAccessCommandsOutputPath cfg @ ''.sh''\<rparr>
      else cfg)"

definition default_CommandAfterCreateClusterOutputPath :: "Config \<Rightarrow> Config" where
  "default_CommandAfterCreateClusterOutputPath cfg =
     (if CommandAfterCreateClusterOutputPath cfg = []
      then cfg\<lparr>CommandAfterCreateClusterOutputPath :=
                 ReplaceAll (ConfigPath cfg) ''.yaml'' [] @ ''.after-create-cluster.out.log''\<rparr>
      else cfg)"

definition log_CommandAfterCreateClusterOutputPath :: "Config \<Rightarrow> Config" where
  "log_CommandAfterCreateClusterOutputPath cfg =
     (if Ext (CommandAfterCreateClusterOutputPath cfg) \<noteq> ''.log''
      then cfg\<lparr>CommandAfterCreateClusterOutputPath :=
                 CommandAfterCreateClusterOutputPath cfg @ ''.log''\<rparr>
      else cfg)"

definition default_CommandAfterCreateAddOnsOutputPath :: "Config \<Rightarrow> Config" where
  "default_CommandAfterCreateAddOnsOutputPath cfg =
     (if CommandAfterCreateAddOnsOutputPath cfg = []
      then cfg\<lparr>CommandAfterCreateAddOnsOutputPath :=
                 ReplaceAll (ConfigPath cfg) ''.yaml'' [] @ ''.after-create-add-ons.out.log''\<rparr>
      else cfg)"

definition log_CommandAfterCreateAddOnsOutputPath :: "Config \<Rightarrow> Config" where
  "log_CommandAfterCreateAddOnsOutputPath cfg =
     (if Ext (CommandAfterCreateAddOnsOutputPath cfg) \<noteq> ''.log''
      then cfg\<lparr>CommandAfterCreateAddOnsOutputPath :=
                 CommandAfterCreateAddOnsOutputPath cfg @ ''.log''\<rparr>
      else cfg)"

definition default_KubeConfigPath :: "Config \<Rightarrow> Config" where
  "default_KubeConfigPath cfg =
     (if KubeConfigPath cfg = []
      then cfg\<lparr>KubeConfigPath := ReplaceAll (ConfigPath cfg) ''.yaml'' [] @ ''.kubeconfig.yaml''\<rparr>
      else cfg)"

definition output_path_statements :: "(Config \<Rightarrow> Config \<times> exit option) list" where
  "output_path_statements =
     [assign default_KubectlCommandsOutputPath,
      assign sh_KubectlCommandsOutputPath,
      assign default_RemoteAccessCommandsOutputPath,
      assign sh_RemoteAccessCommandsOutputPath,
      assign default_CommandAfterCreateClusterOutputPath,
      assign log_CommandAfterCreateClusterOutputPath,
      assign default_CommandAfterCreateAddOnsOutputPath,
      assign log_CommandAfterCreateAddOnsOutputPath,
      assign default_KubeConfigPath]"

text \<open>
  A command is looked up in the search path and its first word replaced by what was
  found; the function returns an error when the first word is not found.
  (\<^verbatim>\<open>strings.Split\<close> returns at least one word.)
\<close>

definition resolve_command :: "host \<Rightarrow> string \<Rightarrow> string option" where
  "resolve_command h cmd =
     (case Split cmd '' '' of
        [] \<Rightarrow> None
      | w # ws \<Rightarrow> (case LookPath h w of None \<Rightarrow> None | Some p \<Rightarrow> Some (Join (p # ws) '' '')))"

definition resolve_CommandAfterCreateCluster :: "host \<Rightarrow> Config \<Rightarrow> Config \<times> exit option" where
  "resolve_CommandAfterCreateCluster h cfg =
     (if CommandAfterCreateCluster cfg \<noteq> [] then
        (case resolve_command h (CommandAfterCreateCluster cfg) of
           None \<Rightarrow> (cfg, fails ''CommandAfterCreateCluster does not exist'')
         | Some cmd \<Rightarrow> (cfg\<lparr>CommandAfterCreateCluster := cmd\<rparr>, None))
      else (cfg, None))"

definition resolve_CommandAfterCreateAddOns :: "host \<Rightarrow> Config \<Rightarrow> Config \<times> exit option" where
  "resolve_CommandAfterCreateAddOns h cfg =
     (if CommandAfterCreateAddOns cfg \<noteq> [] then
        (case resolve_command h (CommandAfterCreateAddOns cfg) of
           None \<Rightarrow> (cfg, fails ''CommandAfterCreateAddOns does not exist'')
         | Some cmd \<Rightarrow> (cfg\<lparr>CommandAfterCreateAddOns := cmd\<rparr>, None))
      else (cfg, None))"

definition default_S3Bucket :: "Config \<Rightarrow> Config" where
  "default_S3Bucket cfg =
     (if S3BucketCreate cfg then
        let c1 = (if S3BucketName cfg = []
                  then cfg\<lparr>S3BucketName := Config.Name cfg @ ''-s3-bucket''\<rparr> else cfg)
        in if S3BucketLifecycleExpirationDays c1 > 0 \<and> S3BucketLifecycleExpirationDays c1 < 3
           then c1\<lparr>S3BucketLifecycleExpirationDays := 3\<rparr> else c1
      else cfg)"

definition validateConfig :: "host \<Rightarrow> Config \<Rightarrow> Config \<times> exit option" where
  "validateConfig h =
     in_order
       ([check (\<lambda>cfg. \<not> RegionToAiport h (Region cfg)) ''region not found'',
         check (\<lambda>cfg. length (Config.Name cfg) = 0) ''Name is empty'',
         check (\<lambda>cfg. Config.Name cfg \<noteq> ToLower (Config.Name cfg)) ''Name must be in lower-case'',
         check (\<lambda>cfg. length (LogOutputs cfg) = 0) ''LogOutputs is not empty'',
         default_ConfigPath h,
         mkdir_ConfigPath h,
         assign add_log_output]
        @ output_path_statements @
        [check (\<lambda>cfg. \<not> Contains (KubectlDownloadURL cfg) (GOOS h))
           ''kubectl-download-url build OS mismatch'',
         resolve_CommandAfterCreateCluster h,
         resolve_CommandAfterCreateAddOns h,
         assign default_S3Bucket])"

subsection \<open>validateParameters\<close>

text \<open>
  The checks on the five subnet fields: with a VPC CIDR none may be empty, without one
  none may be set. The third private subnet does not exist. The first case of each
  \<^verbatim>\<open>switch\<close> that holds decides.
\<close>

definition check_subnets :: "Parameters \<Rightarrow> exit option" where
  "check_subnets ps =
     (if VPCCIDR ps \<noteq> [] then
        (if PublicSubnetCIDR1 ps = [] then fails ''empty Parameters.PublicSubnetCIDR1''
         else if PublicSubnetCIDR2 ps = [] then fails ''empty Parameters.PublicSubnetCIDR2''
         else if PublicSubnetCIDR3 ps = [] then fails ''empty Parameters.PublicSubnetCIDR3''
         else if PrivateSubnetCIDR1 ps = [] then fails ''empty Parameters.PrivateSubnetCIDR1''
         else if PrivateSubnetCIDR2 ps = [] then fails ''empty Parameters.PrivateSubnetCIDR2''
         else None)
      else
        (if PublicSubnetCIDR1 ps \<noteq> [] then fails ''non-empty Parameters.PublicSubnetCIDR1''
         else if PublicSubnetCIDR2 ps \<noteq> [] then fails ''non-empty Parameters.PublicSubnetCIDR2''
         else if PublicSubnetCIDR3 ps \<noteq> [] then fails ''non-empty Parameters.PublicSubnetCIDR3''
         else if PrivateSubnetCIDR1 ps \<noteq> [] then fails ''non-empty Parameters.PrivateSubnetCIDR1''
         else if PrivateSubnetCIDR2 ps \<noteq> [] then fails ''non-empty Parameters.PrivateSubnetCIDR2''
         else None))"

text \<open>
  The role of the cluster: created (then named after the cluster when it has no name),
  or an existing one (then its ARN is required and policies and principals must be
  empty). The parameters after the block, and the error if there is one.
\<close>

definition check_role :: "string \<Rightarrow> Parameters \<Rightarrow> Parameters \<times> exit option" where
  "check_role name ps =
     (if Parameters.RoleCreate ps then
        ((if Parameters.RoleName ps = []
          then ps\<lparr>Parameters.RoleName := name @ ''-role-cluster''\<rparr> else ps), None)
      else if Parameters.RoleARN ps = [] then
        (ps, fails ''Parameters.RoleCreate false; expect non-empty RoleARN'')
      else
        let ps1 = (if Parameters.RoleName ps = []
                   then ps\<lparr>Parameters.RoleName := getNameFromARN (Parameters.RoleARN ps)\<rparr>
                   else ps)
        in if length (Parameters.RoleManagedPolicyARNs ps1) > 0 then
             (ps1, fails ''Parameters.RoleCreate false; expect empty RoleManagedPolicyARNs'')
           else if length (Parameters.RoleServicePrincipals ps1) > 0 then
             (ps1, fails ''Parameters.RoleCreate false; expect empty RoleServicePrincipals'')
           else (ps1, None))"

text \<open>The remote access key, on the fields of the configuration itself.\<close>

definition check_remote_access :: "host \<Rightarrow> Config \<Rightarrow> Config \<times> exit option" where
  "check_remote_access h cfg =
     (if RemoteAccessPrivateKeyPath cfg = [] then (cfg, fails ''empty RemoteAccessPrivateKeyPath'')
      else if RemoteAccessKeyCreate cfg then
        ((if RemoteAccessKeyName cfg = []
          then cfg\<lparr>RemoteAccessKeyName := Config.Name cfg @ ''-key-nodes''\<rparr> else cfg), None)
      else if RemoteAccessKeyName cfg = [] then
        (cfg, fails ''RemoteAccessKeyCreate false; expect non-empty RemoteAccessKeyName'')
      else if RemoteAccessPrivateKeyPath cfg = [] then
        (cfg, fails ''RemoteAccessKeyCreate false; expect non-empty RemoteAccessPrivateKeyPath'')
      else if \<not> Exist h (RemoteAccessPrivateKeyPath cfg) then
        (cfg, fails ''RemoteAccessPrivateKeyPath does not exist'')
      else (cfg, None))"

text \<open>
  \<^verbatim>\<open>validateParameters\<close> reads \<^verbatim>\<open>cfg.Parameters.Version\<close> first: with a \<^verbatim>\<open>nil\<close> pointer
  the code panics there. The parsed number is stored before the error is looked at.
\<close>

definition validateParameters :: "host \<Rightarrow> Config \<Rightarrow> Config \<times> exit option" where
  "validateParameters h cfg =
     (case Parameters cfg of
        None \<Rightarrow> (cfg, nil_dereference)
      | Some ps \<Rightarrow>
          if Version ps = [] then (cfg, fails ''empty Parameters.Version'')
          else
            (case strconv_ParseFloat h (Version ps) of
               (f, Some err) \<Rightarrow>
                 (cfg\<lparr>Parameters := Some (ps\<lparr>VersionValue := f\<rparr>)\<rparr>,
                  fails ''cannot parse Parameters.Version'')
             | (f, None) \<Rightarrow>
                 (case check_role (Config.Name cfg) (ps\<lparr>VersionValue := f\<rparr>) of
                    (ps1, Some x) \<Rightarrow> (cfg\<lparr>Parameters := Some ps1\<rparr>, Some x)
                  | (ps1, None) \<Rightarrow>
                      let c1 = cfg\<lparr>Parameters := Some ps1\<rparr> in
                      if \<not> VPCCreate ps1 \<and> VPCID ps1 = [] then
                        (c1, fails ''Parameters.RoleCreate false; expect non-empty VPCID'')
                      else
                        (case check_subnets ps1 of
                           Some x \<Rightarrow> (c1, Some x)
                         | None \<Rightarrow> check_remote_access h c1))))"

subsection \<open>validateAddOnNodeGroups\<close>

text \<open>The role of the node groups.\<close>

definition NG_check_role :: "string \<Rightarrow> AddOnNodeGroups \<Rightarrow> AddOnNodeGroups \<times> exit option" where
  "NG_check_role name ng =
     (if AddOnNodeGroups.RoleCreate ng then
        let ng1 = (if AddOnNodeGroups.RoleName ng = []
                   then ng\<lparr>AddOnNodeGroups.RoleName := name @ ''-role-ng''\<rparr> else ng)
        in if length (AddOnNodeGroups.RoleServicePrincipals ng1) > 0
              \<and> ''ec2.amazonaws.com'' \<notin> set (AddOnNodeGroups.RoleServicePrincipals ng1)
           then (ng1, fails ''AddOnNodeGroups.RoleServicePrincipals must include ec2.amazonaws.com'')
           else (ng1, None)
      else if AddOnNodeGroups.RoleARN ng = [] then
        (ng, fails ''AddOnNodeGroups.RoleCreate false; expect non-empty RoleARN'')
      else
        let ng1 = (if AddOnNodeGroups.RoleName ng = []
                   then ng\<lparr>AddOnNodeGroups.RoleName := getNameFromARN (AddOnNodeGroups.RoleARN ng)\<rparr>
                   else ng)
        in if length (AddOnNodeGroups.RoleManagedPolicyARNs ng1) > 0 then
             (ng1, fails ''AddOnNodeGroups.RoleCreate false; expect empty RoleManagedPolicyARNs'')
           else if length (AddOnNodeGroups.RoleServicePrincipals ng1) > 0 then
             (ng1, fails ''AddOnNodeGroups.RoleCreate false; expect empty RoleServicePrincipals'')
           else (ng1, None))"

text \<open>The two \<^verbatim>\<open>switch\<close>es on the AMI type of an ASG.\<close>

definition ASG_check_user :: "host \<Rightarrow> ASG \<Rightarrow> exit option" where
  "ASG_check_user h v =
     (if ASG.AMIType v = AMITypeBottleRocketCPU h then
        (if ASG.RemoteAccessUserName v \<noteq> ''ec2-user''
         then fails ''unexpected RemoteAccessUserName'' else None)
      else if ASG.AMIType v = AMITypesAl2X8664 h then
        (if ASG.RemoteAccessUserName v \<noteq> ''ec2-user''
         then fails ''unexpected RemoteAccessUserName'' else None)
      else if ASG.AMIType v = AMITypesAl2X8664Gpu h then
        (if ASG.RemoteAccessUserName v \<noteq> ''ec2-user''
         then fails ''unexpected RemoteAccessUserName'' else None)
      else fails ''unknown ASGs AMIType'')"

definition ASG_default_InstanceTypes :: "host \<Rightarrow> ASG \<Rightarrow> ASG \<times> exit option" where
  "ASG_default_InstanceTypes h v =
     (if ASG.AMIType v = AMITypeBottleRocketCPU h then
        ((if length (ASG.InstanceTypes v) = 0
          then v\<lparr>ASG.InstanceTypes := [DefaultNodeInstanceTypeCPU h]\<rparr> else v), None)
      else if ASG.AMIType v = AMITypesAl2X8664 h then
        ((if length (ASG.InstanceTypes v) = 0
          then v\<lparr>ASG.InstanceTypes := [DefaultNodeInstanceTypeCPU h]\<rparr> else v), None)
      else if ASG.AMIType v = AMITypesAl2X8664Gpu h then
        ((if length (ASG.InstanceTypes v) = 0
          then v\<lparr>ASG.InstanceTypes := [DefaultNodeInstanceTypeGPU h]\<rparr> else v), None)
      else (v, fails ''unknown AddOnNodeGroups.ASGs AMIType''))"

text \<open>An instance type the load balancers do not support.\<close>

definition older_instance_type :: "string \<Rightarrow> bool" where
  "older_instance_type ivt = (HasPrefix ivt ''m3.'' \<or> HasPrefix ivt ''c4.'')"

text \<open>
  The three \<^verbatim>\<open>if\<close>s at the end of the body of both loops: the replicas of the load
  balancer add-ons are raised to the desired capacity of the node group.
\<close>

definition raise_replicas :: "int \<Rightarrow> Config \<Rightarrow> Config" where
  "raise_replicas desired cfg =
     (let c1 = (case AddOnNLBHelloWorld cfg of
                  Some a \<Rightarrow>
                    if IsEnabledAddOnNLBHelloWorld cfg \<and> DeploymentReplicas a < int32 desired
                    then cfg\<lparr>AddOnNLBHelloWorld := Some (a\<lparr>DeploymentReplicas := int32 desired\<rparr>)\<rparr>
                    else cfg
                | None \<Rightarrow> cfg);
          c2 = (case AddOnALB2048 c1 of
                  Some a \<Rightarrow>
                    if IsEnabledAddOnALB2048 c1 \<and> DeploymentReplicasALB a < int32 desired
                    then c1\<lparr>AddOnALB2048 := Some (a\<lparr>DeploymentReplicasALB := int32 desired\<rparr>)\<rparr>
                    else c1
                | None \<Rightarrow> c1)
      in (case AddOnALB2048 c2 of
            Some a \<Rightarrow>
              if IsEnabledAddOnALB2048 c2 \<and> DeploymentReplicas2048 a < int32 desired
              then c2\<lparr>AddOnALB2048 := Some (a\<lparr>DeploymentReplicas2048 := int32 desired\<rparr>)\<rparr>
              else c2
          | None \<Rightarrow> c2))"

text \<open>
  The body of the loop over the ASGs in two parts. First the checks and defaults on the
  copy \<open>v\<close> of the entry, from the number of instance types to the SSM document: they
  read the configuration only to know whether a load balancer add-on is enabled.
\<close>

definition checked_ASG :: "host \<Rightarrow> bool \<Rightarrow> ASG \<Rightarrow> ASG \<times> exit option" where
  "checked_ASG h load_balancer v =
     (if length (ASG.InstanceTypes v) > 4 then (v, fails ''too many InstaceTypes'')
      else
        let v1 = (if ASG.VolumeSize v = 0 then v\<lparr>ASG.VolumeSize := DefaultNodeVolumeSize h\<rparr> else v);
            v2 = (if ASG.RemoteAccessUserName v1 = []
                  then v1\<lparr>ASG.RemoteAccessUserName := ''ec2-user''\<rparr> else v1)
        in
          (case ASG_check_user h v2 of
             Some x \<Rightarrow> (v2, Some x)
           | None \<Rightarrow>
               (case ASG_default_InstanceTypes h v2 of
                  (v3, Some x) \<Rightarrow> (v3, Some x)
                | (v3, None) \<Rightarrow>
                    if load_balancer \<and> list_ex older_instance_type (ASG.InstanceTypes v3)
                      then (v3, fails ''older instance type InstanceType'')
                    else if ASG.ASGMinSize v3 > ASG.ASGMaxSize v3
                      then (v3, fails ''ASGMinSize > ASGMaxSize'')
                    else if ASG.ASGDesiredCapacity v3 > ASG.ASGMaxSize v3
                      then (v3, fails ''ASGDesiredCapacity > ASGMaxSize'')
                    else if ASG.ASGMaxSize v3 > NGMaxLimit h
                      then (v3, fails ''ASGMaxSize > NGMaxLimit'')
                    else if ASG.ASGDesiredCapacity v3 > NGMaxLimit h
                      then (v3, fails ''ASGDesiredCapacity > NGMaxLimit'')
                    else
                      ((if SSMDocumentCreate v3 then
                          (let w = (if SSMDocumentName v3 = []
                                    then v3\<lparr>SSMDocumentName := ASG.Name v3 @ ''SSMDocument''\<rparr>
                                    else v3)
                           in if SSMDocumentExecutionTimeoutSeconds w = 0
                              then w\<lparr>SSMDocumentExecutionTimeoutSeconds := 3600\<rparr>
                              else w)
                        else v3),
                       None))))"

text \<open>
  Then the whole body, for the entry \<open>(k, v)\<close>: the checks on the name, the part above,
  the replicas and the assignment \<^verbatim>\<open>cfg.AddOnNodeGroups.ASGs[k] = v\<close>. It returns the
  configuration and the names seen so far, after the turn, and the error if the turn
  returns one.
\<close>

definition validate_ASG ::
  "host \<Rightarrow> string \<Rightarrow> ASG \<Rightarrow> Config \<times> string list \<Rightarrow> (Config \<times> string list) \<times> exit option" where
  "validate_ASG h k v st =
     (case st of (cfg, names) \<Rightarrow>
      if ASG.Name v = [] then (st, fails ''AddOnNodeGroups.ASGs Name is empty'')
      else if k \<noteq> ASG.Name v then (st, fails ''AddOnNodeGroups.ASGs Name has different Name field'')
      else if ASG.Name v \<in> set names then (st, fails ''AddOnNodeGroups.ASGs Name is redundant'')
      else
        (case checked_ASG h (IsEnabledAddOnNLBHelloWorld cfg \<or> IsEnabledAddOnALB2048 cfg) v of
           (v', Some x) \<Rightarrow> ((cfg, ASG.Name v # names), Some x)
         | (v', None) \<Rightarrow>
             let c1 = raise_replicas (ASG.ASGDesiredCapacity v') cfg in
             (case AddOnNodeGroups c1 of
                None \<Rightarrow> ((c1, ASG.Name v # names), nil_dereference)
              | Some ng \<Rightarrow>
                  ((c1\<lparr>AddOnNodeGroups := Some (ng\<lparr>ASGs := SetMapIndex (ASGs ng) k v'\<rparr>)\<rparr>,
                    ASG.Name v # names),
                   None))))"

fun validate_ASGs ::
  "host \<Rightarrow> (string \<times> ASG) list \<Rightarrow> Config \<times> string list \<Rightarrow> Config \<times> exit option" where
  "validate_ASGs h [] st = (fst st, None)"
| "validate_ASGs h ((k, v) # entries) st =
     (case validate_ASG h k v st of
        (st', Some x) \<Rightarrow> (fst st', Some x)
      | (st', None) \<Rightarrow> validate_ASGs h entries st')"

definition validateAddOnNodeGroups :: "host \<Rightarrow> Config \<Rightarrow> Config \<times> exit option" where
  "validateAddOnNodeGroups h cfg =
     (if \<not> IsEnabledAddOnNodeGroups cfg then (cfg, None)
      else
        (case AddOnNodeGroups cfg of
           None \<Rightarrow> (cfg, nil_dereference)
         | Some ng \<Rightarrow>
             if length (ASGs ng) = 0 then (cfg, fails ''empty ASGs'')
             else if int (length (ASGs ng)) > NGsMaxLimit h
               then (cfg, fails ''NGs exceeds maximum number of NGs'')
             else
               (case Parameters cfg of
                  None \<Rightarrow> (cfg, nil_dereference)
                | Some ps \<Rightarrow>
                    if VersionValue ps < 114 / 100
                    then (cfg, fails ''Version not supported for AddOnNodeGroups'')
                    else
                      let ng1 = (if AddOnNodeGroups.LogsDir ng = []
                                 then ng\<lparr>AddOnNodeGroups.LogsDir :=
                                          filepath_Join h [filepath_Dir h (ConfigPath cfg),
                                                           Config.Name cfg @ ''-logs-ngs'']\<rparr>
                                 else ng)
                      in
                        (case NG_check_role (Config.Name cfg) ng1 of
                           (ng2, Some x) \<Rightarrow> (cfg\<lparr>AddOnNodeGroups := Some ng2\<rparr>, Some x)
                         | (ng2, None) \<Rightarrow>
                             validate_ASGs h (ASGs ng2)
                               (cfg\<lparr>AddOnNodeGroups := Some ng2\<rparr>, [])))))"

subsection \<open>validateAddOnManagedNodeGroups\<close>

definition MNG_check_role ::
  "string \<Rightarrow> AddOnManagedNodeGroups \<Rightarrow> AddOnManagedNodeGroups \<times> exit option" where
  "MNG_check_role name mng =
     (if AddOnManagedNodeGroups.RoleCreate mng then
        let m1 = (if AddOnManagedNodeGroups.RoleName mng = []
                  then mng\<lparr>AddOnManagedNodeGroups.RoleName := name @ ''-role-mng''\<rparr> else mng)
        in if length (AddOnManagedNodeGroups.RoleServicePrincipals m1) > 0
              \<and> ''ec2.amazonaws.com'' \<notin> set (AddOnManagedNodeGroups.RoleServicePrincipals m1)
           then (m1, fails ''AddOnManagedNodeGroups.RoleServicePrincipals must include ec2.amazonaws.com'')
           else (m1, None)
      else if AddOnManagedNodeGroups.RoleARN mng = [] then
        (mng, fails ''AddOnManagedNodeGroups.RoleCreate false; expect non-empty RoleARN'')
      else
        let m1 = (if AddOnManagedNodeGroups.RoleName mng = []
                  then mng\<lparr>AddOnManagedNodeGroups.RoleName :=
                             getNameFromARN (AddOnManagedNodeGroups.RoleARN mng)\<rparr>
                  else mng)
        in if length (AddOnManagedNodeGroups.RoleManagedPolicyARNs m1) > 0 then
             (m1, fails ''AddOnManagedNodeGroups.RoleCreate false; expect empty RoleManagedPolicyARNs'')
           else if length (AddOnManagedNodeGroups.RoleServicePrincipals m1) > 0 then
             (m1, fails ''AddOnManagedNodeGroups.RoleCreate false; expect empty RoleServicePrincipals'')
           else (m1, None))"

definition MNG_check_user :: "host \<Rightarrow> MNG \<Rightarrow> exit option" where
  "MNG_check_user h v =
     (if MNG.AMIType v = AMITypesAl2X8664 h then
        (if MNG.RemoteAccessUserName v \<noteq> ''ec2-user''
         then fails ''unexpected RemoteAccessUserName'' else None)
      else if MNG.AMIType v = AMITypesAl2X8664Gpu h then
        (if MNG.RemoteAccessUserName v \<noteq> ''ec2-user''
         then fails ''unexpected RemoteAccessUserName'' else None)
      else fails ''unknown ASGs AMIType'')"

definition MNG_default_InstanceTypes :: "host \<Rightarrow> MNG \<Rightarrow> MNG \<times> exit option" where
  "MNG_default_InstanceTypes h v =
     (if MNG.AMIType v = AMITypesAl2X8664 h then
        ((if length (MNG.InstanceTypes v) = 0
          then v\<lparr>MNG.InstanceTypes := [DefaultNodeInstanceTypeCPU h]\<rparr> else v), None)
      else if MNG.AMIType v = AMITypesAl2X8664Gpu h then
        ((if length (MNG.InstanceTypes v) = 0
          then v\<lparr>MNG.InstanceTypes := [DefaultNodeInstanceTypeGPU h]\<rparr> else v), None)
      else (v, fails ''unknown AddOnManagedNodeGroups.MNGs AMIType''))"

text \<open>
  The body of the loop over the managed node groups, in the same two parts. The name of
  a managed node group must not be a key of the ASGs when the node groups are enabled.
\<close>

definition checked_MNG :: "host \<Rightarrow> bool \<Rightarrow> MNG \<Rightarrow> MNG \<times> exit option" where
  "checked_MNG h load_balancer v =
     (if length (MNG.InstanceTypes v) > 4 then (v, fails ''too many InstaceTypes'')
      else
        let v1 = (if MNG.VolumeSize v = 0 then v\<lparr>MNG.VolumeSize := DefaultNodeVolumeSize h\<rparr> else v);
            v2 = (if MNG.RemoteAccessUserName v1 = []
                  then v1\<lparr>MNG.RemoteAccessUserName := ''ec2-user''\<rparr> else v1)
        in
          (case MNG_check_user h v2 of
             Some x \<Rightarrow> (v2, Some x)
           | None \<Rightarrow>
               (case MNG_default_InstanceTypes h v2 of
                  (v3, Some x) \<Rightarrow> (v3, Some x)
                | (v3, None) \<Rightarrow>
                    if load_balancer \<and> list_ex older_instance_type (MNG.InstanceTypes v3)
                      then (v3, fails ''older instance type InstanceTypes'')
                    else if MNG.ASGMinSize v3 > MNG.ASGMaxSize v3
                      then (v3, fails ''ASGMinSize > ASGMaxSize'')
                    else if MNG.ASGDesiredCapacity v3 > MNG.ASGMaxSize v3
                      then (v3, fails ''ASGDesiredCapacity > ASGMaxSize'')
                    else if MNG.ASGMaxSize v3 > MNGMaxLimit h
                      then (v3, fails ''ASGMaxSize > MNGMaxLimit'')
                    else if MNG.ASGDesiredCapacity v3 > MNGMaxLimit h
                      then (v3, fails ''ASGDesiredCapacity > MNGMaxLimit'')
                    else (v3, None))))"

definition validate_MNG ::
  "host \<Rightarrow> string \<Rightarrow> MNG \<Rightarrow> Config \<times> string list \<Rightarrow> (Config \<times> string list) \<times> exit option" where
  "validate_MNG h k v st =
     (case st of (cfg, names) \<Rightarrow>
      if MNG.Name v = [] then (st, fails ''AddOnManagedNodeGroups.MNGs Name is empty'')
      else if k \<noteq> MNG.Name v
        then (st, fails ''AddOnManagedNodeGroups.MNGs Name has different Name field'')
      else if MNG.Name v \<in> set names
        then (st, fails ''AddOnManagedNodeGroups.MNGs Name is redundant'')
      else if IsEnabledAddOnNodeGroups cfg
              \<and> (case AddOnNodeGroups cfg of
                    None \<Rightarrow> False
                  | Some ng \<Rightarrow> MNG.Name v \<in> fst ` set (ASGs ng))
        then ((cfg, MNG.Name v # names), fails ''MNGs name is conflicting with NG ASG'')
      else
        (case checked_MNG h (IsEnabledAddOnNLBHelloWorld cfg \<or> IsEnabledAddOnALB2048 cfg) v of
           (v', Some x) \<Rightarrow> ((cfg, MNG.Name v # names), Some x)
         | (v', None) \<Rightarrow>
             let c1 = raise_replicas (MNG.ASGDesiredCapacity v') cfg in
             (case AddOnManagedNodeGroups c1 of
                None \<Rightarrow> ((c1, MNG.Name v # names), nil_dereference)
              | Some mng \<Rightarrow>
                  ((c1\<lparr>AddOnManagedNodeGroups := Some (mng\<lparr>MNGs := SetMapIndex (MNGs mng) k v'\<rparr>)\<rparr>,
                    MNG.Name v # names),
                   None))))"

fun validate_MNGs ::
  "host \<Rightarrow> (string \<times> MNG) list \<Rightarrow> Config \<times> string list \<Rightarrow> Config \<times> exit option" where
  "validate_MNGs h [] st = (fst st, None)"
| "validate_MNGs h ((k, v) # entries) st =
     (case validate_MNG h k v st of
        (st', Some x) \<Rightarrow> (fst st', Some x)
      | (st', None) \<Rightarrow> validate_MNGs h entries st')"

definition validateAddOnManagedNodeGroups :: "host \<Rightarrow> Config \<Rightarrow> Config \<times> exit option" where
  "validateAddOnManagedNodeGroups h cfg =
     (if \<not> IsEnabledAddOnManagedNodeGroups cfg then (cfg, None)
      else
        (case AddOnManagedNodeGroups cfg of
           None \<Rightarrow> (cfg, nil_dereference)
         | Some mng \<Rightarrow>
             if length (MNGs mng) = 0 then (cfg, fails ''empty MNGs'')
             else if int (length (MNGs mng)) > MNGsMaxLimit h
               then (cfg, fails ''MNGs exceeds maximum number of MNGs'')
             else
               (case Parameters cfg of
                  None \<Rightarrow> (cfg, nil_dereference)
                | Some ps \<Rightarrow>
                    if VersionValue ps < 114 / 100
                    then (cfg, fails ''Version not supported for AddOnManagedNodeGroups'')
                    else
                      let m1 = (if AddOnManagedNodeGroups.LogsDir mng = []
                                then mng\<lparr>AddOnManagedNodeGroups.LogsDir :=
                                          filepath_Join h [filepath_Dir h (ConfigPath cfg),
                                                           Config.Name cfg @ ''-logs-mngs'']\<rparr>
                                else mng)
                      in
                        (case MNG_check_role (Config.Name cfg) m1 of
                           (m2, Some x) \<Rightarrow> (cfg\<lparr>AddOnManagedNodeGroups := Some m2\<rparr>, Some x)
                         | (m2, None) \<Rightarrow>
                             validate_MNGs h (MNGs m2)
                               (cfg\<lparr>AddOnManagedNodeGroups := Some m2\<rparr>, [])))))"

subsection \<open>The validators of the workload add-ons\<close>

definition no_node_group :: "Config \<Rightarrow> bool" where
  "no_node_group cfg =
     (\<not> IsEnabledAddOnNodeGroups cfg \<and> \<not> IsEnabledAddOnManagedNodeGroups cfg)"

definition validateAddOnNLBHelloWorld :: "host \<Rightarrow> Config \<Rightarrow> Config \<times> exit option" where
  "validateAddOnNLBHelloWorld h cfg =
     (if \<not> IsEnabledAddOnNLBHelloWorld cfg then (cfg, None)
      else if no_node_group cfg
        then (cfg, fails ''AddOnNLBHelloWorld.Enable true but no node group is enabled'')
      else
        (case AddOnNLBHelloWorld cfg of
           None \<Rightarrow> (cfg, nil_dereference)
         | Some a \<Rightarrow>
             ((if AddOnNLBHelloWorld.Namespace a = []
               then cfg\<lparr>AddOnNLBHelloWorld :=
                          Some (a\<lparr>AddOnNLBHelloWorld.Namespace := Config.Name cfg @ ''-nlb-hello-world''\<rparr>)\<rparr>
               else cfg),
              None)))"

definition validateAddOnALB2048 :: "host \<Rightarrow> Config \<Rightarrow> Config \<times> exit option" where
  "validateAddOnALB2048 h cfg =
     (if \<not> IsEnabledAddOnALB2048 cfg then (cfg, None)
      else if no_node_group cfg
        then (cfg, fails ''AddOnALB2048.Enable true but no node group is enabled'')
      else
        (case AddOnALB2048 cfg of
           None \<Rightarrow> (cfg, nil_dereference)
         | Some a \<Rightarrow>
             ((if AddOnALB2048.Namespace a = []
               then cfg\<lparr>AddOnALB2048 :=
                          Some (a\<lparr>AddOnALB2048.Namespace := Config.Name cfg @ ''-alb-2048''\<rparr>)\<rparr>
               else cfg),
              None)))"

definition validateAddOnJobPi :: "host \<Rightarrow> Config \<Rightarrow> Config \<times> exit option" where
  "validateAddOnJobPi h cfg =
     (if \<not> IsEnabledAddOnJobPi cfg then (cfg, None)
      else if no_node_group cfg
        then (cfg, fails ''AddOnJobPi.Enable true but no node group is enabled'')
      else
        (case AddOnJobPi cfg of
           None \<Rightarrow> (cfg, nil_dereference)
         | Some a \<Rightarrow>
             ((if AddOnJobPi.Namespace a = []
               then cfg\<lparr>AddOnJobPi :=
                          Some (a\<lparr>AddOnJobPi.Namespace := Config.Name cfg @ ''-job-perl''\<rparr>)\<rparr>
               else cfg),
              None)))"

definition validateAddOnJobEcho :: "host \<Rightarrow> Config \<Rightarrow> Config \<times> exit option" where
  "validateAddOnJobEcho h cfg =
     (if \<not> IsEnabledAddOnJobEcho cfg then (cfg, None)
      else if no_node_group cfg
        then (cfg, fails ''AddOnJobEcho.Enable true but no node group is enabled'')
      else
        (case AddOnJobEcho cfg of
           None \<Rightarrow> (cfg, nil_dereference)
         | Some a \<Rightarrow>
             let a1 = (if AddOnJobEcho.Namespace a = []
                       then a\<lparr>AddOnJobEcho.Namespace := Config.Name cfg @ ''-job-echo''\<rparr> else a);
                 c1 = cfg\<lparr>AddOnJobEcho := Some a1\<rparr>
             in if AddOnJobEcho.EchoSize a1 > 250000
                then (c1, fails ''echo size limit is 0.25 MB'')
                else (c1, None)))"

definition validateAddOnCronJob :: "host \<Rightarrow> Config \<Rightarrow> Config \<times> exit option" where
  "validateAddOnCronJob h cfg =
     (if \<not> IsEnabledAddOnCronJob cfg then (cfg, None)
      else if no_node_group cfg
        then (cfg, fails ''AddOnCronJob.Enable true but no node group is enabled'')
      else
        (case AddOnCronJob cfg of
           None \<Rightarrow> (cfg, nil_dereference)
         | Some a \<Rightarrow>
             let a1 = (if AddOnCronJob.Namespace a = []
                       then a\<lparr>AddOnCronJob.Namespace := Config.Name cfg @ ''-cronjob''\<rparr> else a);
                 c1 = cfg\<lparr>AddOnCronJob := Some a1\<rparr>
             in if AddOnCronJob.EchoSize a1 > 250000
                then (c1, fails ''echo size limit is 0.25 MB'')
                else (c1, None)))"

definition validateAddOnSecrets :: "host \<Rightarrow> Config \<Rightarrow> Config \<times> exit option" where
  "validateAddOnSecrets h cfg =
     (if \<not> IsEnabledAddOnSecrets cfg then (cfg, None)
      else if no_node_group cfg
        then (cfg, fails ''AddOnSecrets.Enable true but no node group is enabled'')
      else
        (case AddOnSecrets cfg of
           None \<Rightarrow> (cfg, nil_dereference)
         | Some a \<Rightarrow>
             let a1 = (if AddOnSecrets.Namespace a = []
                       then a\<lparr>AddOnSecrets.Namespace := Config.Name cfg @ ''-secrets''\<rparr> else a);
                 a2 = (if WritesResultPath a1 = []
                       then a1\<lparr>WritesResultPath :=
                                 filepath_Join h [filepath_Dir h (ConfigPath cfg),
                                                  Config.Name cfg @ ''-secret-writes.csv'']\<rparr>
                       else a1)
             in if Ext (WritesResultPath a2) \<noteq> ''.csv''
                then (cfg\<lparr>AddOnSecrets := Some a2\<rparr>,
                      fails ''expected .csv extension for WritesResultPath'')
                else
                  let a3 = (if ReadsResultPath a2 = []
                            then a2\<lparr>ReadsResultPath :=
                                      filepath_Join h [filepath_Dir h (ConfigPath cfg),
                                                       Config.Name cfg @ ''-secret-reads.csv'']\<rparr>
                            else a2)
                  in if Ext (ReadsResultPath a3) \<noteq> ''.csv''
                     then (cfg\<lparr>AddOnSecrets := Some a3\<rparr>,
                           fails ''expected .csv extension for ReadsResultPath'')
                     else (cfg\<lparr>AddOnSecrets := Some a3\<rparr>, None)))"

definition validateAddOnIRSA :: "host \<Rightarrow> Config \<Rightarrow> Config \<times> exit option" where
  "validateAddOnIRSA h cfg =
     (if \<not> IsEnabledAddOnIRSA cfg then (cfg, None)
      else if no_node_group cfg
        then (cfg, fails ''AddOnIRSA.Enable true but no node group is enabled'')
      else
        (case Parameters cfg of
           None \<Rightarrow> (cfg, nil_dereference)
         | Some ps \<Rightarrow>
             if VersionValue ps < 114 / 100
             then (cfg, fails ''Version not supported for AddOnIRSA'')
             else if S3BucketName cfg = []
               then (cfg, fails ''AddOnIRSA requires S3 bucket but S3BucketName empty'')
             else
               (case AddOnIRSA cfg of
                  None \<Rightarrow> (cfg, nil_dereference)
                | Some a \<Rightarrow>
                    let name = Config.Name cfg;
                        a1 = (if AddOnIRSA.Namespace a = []
                              then a\<lparr>AddOnIRSA.Namespace := name @ ''-irsa''\<rparr> else a);
                        a2 = (if AddOnIRSA.RoleName a1 = []
                              then a1\<lparr>AddOnIRSA.RoleName := name @ ''-role-irsa''\<rparr> else a1);
                        a3 = (if ServiceAccountName a2 = []
                              then a2\<lparr>ServiceAccountName := name @ ''-irsa-service-account''\<rparr>
                              else a2);
                        a4 = (if ConfigMapName a3 = []
                              then a3\<lparr>ConfigMapName := name @ ''-irsa-configmap''\<rparr> else a3);
                        a5 = (if ConfigMapScriptFileName a4 = []
                              then a4\<lparr>ConfigMapScriptFileName := name @ ''-irsa-configmap.sh''\<rparr>
                              else a4);
                        a6 = (if S3Key a5 = []
                              then a5\<lparr>S3Key := path_Join h [name, ''irsa-s3-key'']\<rparr> else a5);
                        a7 = (if DeploymentName a6 = []
                              then a6\<lparr>DeploymentName := name @ ''-irsa-deployment''\<rparr> else a6);
                        a8 = (if DeploymentResultPath a7 = []
                              then a7\<lparr>DeploymentResultPath :=
                                        filepath_Join h [filepath_Dir h (ConfigPath cfg),
                                                         name @ ''-irsa-deployment-result.log'']\<rparr>
                              else a7)
                    in (cfg\<lparr>AddOnIRSA := Some a8\<rparr>, None))))"

text \<open>
  \<^verbatim>\<open>validateAddOnFargate\<close>: the defaults of the names, then the secret name without the
  runs \<^verbatim>\<open>secretRegex\<close> matches, in lower case, then the role.
\<close>

definition Fargate_check_role :: "string \<Rightarrow> AddOnFargate \<Rightarrow> AddOnFargate \<times> exit option" where
  "Fargate_check_role name a =
     (if AddOnFargate.RoleCreate a then
        ((if AddOnFargate.RoleName a = []
          then a\<lparr>AddOnFargate.RoleName := name @ ''-role-fargate''\<rparr> else a), None)
      else if AddOnFargate.RoleARN a = [] then
        (a, fails ''AddOnFargate.RoleCreate false; expect non-empty RoleARN'')
      else
        let a1 = (if AddOnFargate.RoleName a = []
                  then a\<lparr>AddOnFargate.RoleName := getNameFromARN (AddOnFargate.RoleARN a)\<rparr>
                  else a)
        in if length (AddOnFargate.RoleManagedPolicyARNs a1) > 0 then
             (a1, fails ''AddOnFargate.RoleCreate false; expect empty RoleManagedPolicyARNs'')
           else if length (AddOnFargate.RoleServicePrincipals a1) > 0 then
             (a1, fails ''AddOnFargate.RoleCreate false; expect empty RoleServicePrincipals'')
           else (a1, None))"

definition default_Fargate_names :: "host \<Rightarrow> string \<Rightarrow> AddOnFargate \<Rightarrow> AddOnFargate" where
  "default_Fargate_names h name a =
     (let a1 = (if AddOnFargate.Namespace a = []
                then a\<lparr>AddOnFargate.Namespace := name @ ''-fargate''\<rparr> else a);
          a2 = (if ProfileName a1 = []
                then a1\<lparr>ProfileName := name @ ''-fargate-profile''\<rparr> else a1);
          a3 = (if SecretName a2 = []
                then a2\<lparr>SecretName := name @ ''addonfargatesecret''\<rparr> else a2);
          a4 = (if PodName a3 = []
                then a3\<lparr>PodName := name @ ''-fargate-pod''\<rparr> else a3);
          a5 = (if ContainerName a4 = []
                then a4\<lparr>ContainerName := name @ ''-'' @ randString h 10\<rparr> else a4)
      in a5\<lparr>SecretName := ToLower (secretRegex_ReplaceAllString (SecretName a5) [])\<rparr>)"

definition validateAddOnFargate :: "host \<Rightarrow> Config \<Rightarrow> Config \<times> exit option" where
  "validateAddOnFargate h cfg =
     (if \<not> IsEnabledAddOnFargate cfg then (cfg, None)
      else if no_node_group cfg
        then (cfg, fails ''AddOnFargate.Enable true but no node group is enabled'')
      else
        (case Parameters cfg of
           None \<Rightarrow> (cfg, nil_dereference)
         | Some ps \<Rightarrow>
             if VersionValue ps < 114 / 100
             then (cfg, fails ''Version not supported for AddOnFargate'')
             else
               (case AddOnFargate cfg of
                  None \<Rightarrow> (cfg, nil_dereference)
                | Some a \<Rightarrow>
                    (case Fargate_check_role (Config.Name cfg)
                            (default_Fargate_names h (Config.Name cfg) a) of
                       (a', r) \<Rightarrow> (cfg\<lparr>AddOnFargate := Some a'\<rparr>, r)))))"

definition validateAddOnAppMesh :: "host \<Rightarrow> Config \<Rightarrow> Config \<times> exit option" where
  "validateAddOnAppMesh h cfg =
     (if \<not> IsEnabledAddOnAppMesh cfg then (cfg, None)
      else if no_node_group cfg
        then (cfg, fails ''AddOnAppMesh.Enable true but no node group is enabled'')
      else
        (case AddOnAppMesh cfg of
           None \<Rightarrow> (cfg, nil_dereference)
         | Some a \<Rightarrow>
             ((if AddOnAppMesh.Namespace a = []
               then cfg\<lparr>AddOnAppMesh := Some (a\<lparr>AddOnAppMesh.Namespace := ''appmesh-system''\<rparr>)\<rparr>
               else cfg),
              None)))"

subsection \<open>ValidateAndSetDefaults\<close>

text \<open>
  The validators run in the order of the source; the first that does not return
  \<^verbatim>\<open>nil\<close> ends the function, its error wrapped with its name. A panic stays a panic.
  The deferred \<^verbatim>\<open>unsafeSync\<close> runs last in every case. The mutex is not modelled.
\<close>

definition wrapped :: "string \<Rightarrow> exit \<Rightarrow> exit" where
  "wrapped name x =
     (case x of
        returns_error err \<Rightarrow>
          returns_error (errorString (name @ '' failed ['' @ error_text err @ '']''))
      | panics msg \<Rightarrow> panics msg)"

fun run_validators ::
  "(string \<times> (Config \<Rightarrow> Config \<times> exit option)) list \<Rightarrow> Config \<Rightarrow> Config \<times> exit option" where
  "run_validators [] cfg = (cfg, None)"
| "run_validators ((name, validate) # vs) cfg =
     (case validate cfg of
        (c, Some x) \<Rightarrow> (c, Some (wrapped name x))
      | (c, None) \<Rightarrow> run_validators vs c)"

definition addon_validators :: "host \<Rightarrow> (string \<times> (Config \<Rightarrow> Config \<times> exit option)) list" where
  "addon_validators h =
     [(''validateAddOnNLBHelloWorld'', validateAddOnNLBHelloWorld h),
      (''validateAddOnALB2048'', validateAddOnALB2048 h),
      (''validateAddOnJobPi'', validateAddOnJobPi h),
      (''validateAddOnJobEcho'', validateAddOnJobEcho h),
      (''validateAddOnCronJob'', validateAddOnCronJob h),
      (''validateAddOnSecrets'', validateAddOnSecrets h),
      (''validateAddOnIRSA'', validateAddOnIRSA h),
      (''validateAddOnFargate'', validateAddOnFargate h),
      (''validateAddOnAppMesh'', validateAddOnAppMesh h)]"

definition validators :: "host \<Rightarrow> (string \<times> (Config \<Rightarrow> Config \<times> exit option)) list" where
  "validators h =
     [(''validateConfig'', validateConfig h),
      (''validateParameters'', validateParameters h),
      (''validateAddOnNodeGroups'', validateAddOnNodeGroups h),
      (''validateAddOnManagedNodeGroups'', validateAddOnManagedNodeGroups h)]
     @ addon_validators h"

definition ValidateAndSetDefaults :: "host \<Rightarrow> Config \<Rightarrow> Config \<times> exit option" where
  "ValidateAndSetDefaults h cfg =
     (case run_validators (validators h) cfg of (c, r) \<Rightarrow> (unsafeSync c, r))"

subsection \<open>Reading a configuration\<close>

text \<open>Which add-ons are enabled, and the paths derived from the configuration path.\<close>

definition enabled :: "Config \<Rightarrow> bool list" where
  "enabled cfg =
     [IsEnabledAddOnNodeGroups cfg, IsEnabledAddOnManagedNodeGroups cfg,
      IsEnabledAddOnNLBHelloWorld cfg, IsEnabledAddOnALB2048 cfg, IsEnabledAddOnJobPi cfg,
      IsEnabledAddOnJobEcho cfg, IsEnabledAddOnCronJob cfg, IsEnabledAddOnSecrets cfg,
      IsEnabledAddOnIRSA cfg, IsEnabledAddOnFargate cfg, IsEnabledAddOnAppMesh cfg]"

definition output_paths :: "Config \<Rightarrow> string list" where
  "output_paths cfg =
     [ConfigPath cfg, KubeConfigPath cfg, KubectlCommandsOutputPath cfg,
      RemoteAccessCommandsOutputPath cfg, CommandAfterCreateClusterOutputPath cfg,
      CommandAfterCreateAddOnsOutputPath cfg]"

definition workload_enabled :: "Config \<Rightarrow> bool" where
  "workload_enabled cfg =
     (IsEnabledAddOnNLBHelloWorld cfg \<or> IsEnabledAddOnALB2048 cfg \<or> IsEnabledAddOnJobPi cfg
      \<or> IsEnabledAddOnJobEcho cfg \<or> IsEnabledAddOnCronJob cfg \<or> IsEnabledAddOnSecrets cfg
      \<or> IsEnabledAddOnIRSA cfg \<or> IsEnabledAddOnFargate cfg \<or> IsEnabledAddOnAppMesh cfg)"

section \<open>Concrete inputs\<close>

subsection \<open>Testers and collaborators\<close>

text \<open>
  Collaborators whose operations all succeed but one, on a world with nothing in it,
  and a clock that stands still.
\<close>

definition all_but :: "op \<Rightarrow> error \<Rightarrow> unit collaborators" where
  "all_but bad e =
     \<lparr>exec = (\<lambda>p w. (w, if p = bad then Some e else None)), clock = (\<lambda>w. 0)\<rparr>"

definition fresh_tester :: "unit tester" where
  "fresh_tester = \<lparr>Created = False, CreateTook = 0, DeleteTook = 0, world = (), events = []\<rparr>"

definition created_tester :: "unit tester" where
  "created_tester = \<lparr>Created = True, CreateTook = 0, DeleteTook = 0, world = (), events = []\<rparr>"

subsection \<open>Runs of the poller\<close>

definition profile_in :: "string \<Rightarrow> FargateProfile" where
  "profile_in st = \<lparr>FargateProfileName = Some ''fp'', Status = Some st\<rparr>"

definition sees :: "string \<Rightarrow> tick" where
  "sees st =
     \<lparr>ctx_Err = None, selected = time_After,
      DescribeFargateProfile = returned_output (Some (profile_in st)),
      selected_initial = time_After\<rparr>"

definition throttled :: tick where
  "throttled =
     \<lparr>ctx_Err = None, selected = time_After,
      DescribeFargateProfile = returned_error (awsError ''ThrottlingException'' ''Rate exceeded''),
      selected_initial = time_After\<rparr>"




subsection \<open>A configuration as reflection sees it, and an environment\<close>

definition sample_library :: library where
  "sample_library =
     \<lparr>ParseBool = (\<lambda>s. if s = ''true'' then Some True else if s = ''false'' then Some False else None),
      ParseInt = (\<lambda>s. None),
      ParseUint = (\<lambda>s. None),
      ParseFloat = (\<lambda>s. if s = ''1.16'' then Some (116 / 100) else None),
      Unmarshal = (\<lambda>s. None)\<rparr>"

definition sample_structs :: "struct_ptr list" where
  "sample_structs =
     [ptr [Field ''ConfigPath'' ''config-path'' ''false'' (VString ''/tmp/a.yaml''),
           Field ''CommandAfterCreateClusterOutputPath''
             ''command-after-create-cluster-output-path'' ''true'' (VString []),
           Field ''Parameters'' ''parameters'' ''false'' VOther],
      ptr [Field ''Version'' ''version'' ''false'' (VString ''1.15''),
           Field ''VersionValue'' ''version-value'' ''true'' (VFloat (115 / 100))]]
     @ replicate 11 (ptr [])"

definition sample_environ :: environ where
  "sample_environ =
     [''AWS_K8S_TESTER_EKS_CONFIG_PATH'' \<mapsto> [],
      ''AWS_K8S_TESTER_EKS_COMMAND_AFTER_CREATE_CLUSTER_OUTPUT_PATH'' \<mapsto> ''/tmp/out.log'',
      ''AWS_K8S_TESTER_EKS_PARAMETERS_VERSION'' \<mapsto> ''1.16'',
      ''AWS_K8S_TESTER_EKS_PARAMETERS_VERSION_VALUE'' \<mapsto> ''1.16'']"


subsection \<open>A host and configurations to validate\<close>

text \<open>
  A Linux host where every directory can be made, every path is absolute already and
  no command is found; and a configuration with one node group, the echo job, the cron
  job and the Fargate add-on enabled.
\<close>

definition sample_host :: host where
  "sample_host =
     \<lparr>RegionToAiport = (\<lambda>r. r = ''us-west-2''),
      GOOS = ''linux'',
      Getwd = Some ''/home/user'',
      TempDir = ''/tmp'',
      MkdirAll = (\<lambda>p. None),
      filepath_Abs = (\<lambda>p. Some p),
      filepath_Join = (\<lambda>ps. Join ps ''/''),
      filepath_Dir = (\<lambda>p. ''/tmp''),
      path_Join = (\<lambda>ps. Join ps ''/''),
      LookPath = (\<lambda>w. None),
      Exist = (\<lambda>p. True),
      strconv_ParseFloat =
        (\<lambda>s. if s = ''1.16'' then (116 / 100, None) else (0, Some (errorString ''invalid syntax''))),
      randString = (\<lambda>n. replicate n CHR ''x''),
      NGsMaxLimit = 10,
      NGMaxLimit = 5000,
      MNGsMaxLimit = 10,
      MNGMaxLimit = 100,
      DefaultNodeVolumeSize = 40,
      DefaultNodeInstanceTypeCPU = ''c5.xlarge'',
      DefaultNodeInstanceTypeGPU = ''p3.8xlarge'',
      AMITypeBottleRocketCPU = ''BOTTLEROCKET_x86_64'',
      AMITypesAl2X8664 = ''AL2_x86_64'',
      AMITypesAl2X8664Gpu = ''AL2_x86_64_GPU''\<rparr>"

definition sample_ASG :: ASG where
  "sample_ASG =
     \<lparr>ASG.Name = ''ng1'', ASG.RemoteAccessUserName = ''ec2-user'', ASG.AMIType = ''AL2_x86_64'',
      ASG.InstanceTypes = [], ASG.VolumeSize = 0, ASG.ASGMinSize = 1, ASG.ASGMaxSize = 2,
      ASG.ASGDesiredCapacity = 1, SSMDocumentCreate = False, SSMDocumentName = [],
      SSMDocumentExecutionTimeoutSeconds = 0\<rparr>"

definition sample_Parameters :: Parameters where
  "sample_Parameters =
     \<lparr>Parameters.RoleName = [], Parameters.RoleCreate = True, Parameters.RoleARN = [],
      Parameters.RoleServicePrincipals = [], Parameters.RoleManagedPolicyARNs = [],
      VPCCreate = True, VPCID = [], VPCCIDR = [],
      PublicSubnetCIDR1 = [], PublicSubnetCIDR2 = [], PublicSubnetCIDR3 = [],
      PrivateSubnetCIDR1 = [], PrivateSubnetCIDR2 = [],
      Version = ''1.16'', VersionValue = 0,
      EncryptionCMKCreate = True, EncryptionCMKARN = []\<rparr>"

definition sample_Config :: Config where
  "sample_Config =
     \<lparr>ConfigPath = ''/tmp/a.yaml'',
      KubectlCommandsOutputPath = ''/tmp/k'',
      RemoteAccessCommandsOutputPath = [],
      Region = ''us-west-2'',
      Config.Name = ''eks1'',
      LogOutputs = [''stderr''],
      KubectlDownloadURL = ''https://example.com/bin/linux/amd64/kubectl'',
      KubeConfigPath = [],
      CommandAfterCreateCluster = [],
      CommandAfterCreateClusterOutputPath = [],
      CommandAfterCreateAddOns = [],
      CommandAfterCreateAddOnsOutputPath = ''/tmp/after.log'',
      S3BucketName = [],
      S3BucketCreate = False,
      S3BucketLifecycleExpirationDays = 0,
      Parameters = Some sample_Parameters,
      RemoteAccessKeyCreate = True,
      RemoteAccessKeyName = [],
      RemoteAccessPrivateKeyPath = ''/tmp/key'',
      AddOnNodeGroups =
        Some \<lparr>AddOnNodeGroups.Enable = True, AddOnNodeGroups.RoleName = [],
              AddOnNodeGroups.RoleCreate = True, AddOnNodeGroups.RoleARN = [],
              AddOnNodeGroups.RoleServicePrincipals = [],
              AddOnNodeGroups.RoleManagedPolicyARNs = [],
              AddOnNodeGroups.LogsDir = [], ASGs = [(''ng1'', sample_ASG)]\<rparr>,
      AddOnManagedNodeGroups = None,
      AddOnNLBHelloWorld = None,
      AddOnALB2048 = None,
      AddOnJobPi = None,
      AddOnJobEcho =
        Some \<lparr>AddOnJobEcho.Enable = True, AddOnJobEcho.Namespace = [],
              AddOnJobEcho.EchoSize = 100\<rparr>,
      AddOnCronJob =
        Some \<lparr>AddOnCronJob.Enable = True, AddOnCronJob.Namespace = [],
              AddOnCronJob.EchoSize = 250000\<rparr>,
      AddOnSecrets = None,
      AddOnIRSA = None,
      AddOnFargate =
        Some \<lparr>AddOnFargate.Enable = True, AddOnFargate.Namespace = [], ProfileName = [],
              SecretName = ''My-Secret_1'', PodName = [], ContainerName = [],
              AddOnFargate.RoleCreate = True, AddOnFargate.RoleName = [],
              AddOnFargate.RoleARN = [], AddOnFargate.RoleServicePrincipals = [],
              AddOnFargate.RoleManagedPolicyARNs = []\<rparr>,
      AddOnAppMesh = None\<rparr>"

text \<open>The same without a node group, and with a \<^verbatim>\<open>nil\<close> \<^verbatim>\<open>Parameters\<close> besides.\<close>

definition no_node_group_Config :: Config where
  "no_node_group_Config = sample_Config\<lparr>AddOnNodeGroups := None\<rparr>"

definition nil_Parameters_Config :: Config where
  "nil_Parameters_Config = no_node_group_Config\<lparr>Parameters := None\<rparr>"

text \<open>The sample with an echo job, and with a cron job, one byte over the limit.\<close>

definition large_JobEcho_Config :: Config where
  "large_JobEcho_Config =
     sample_Config\<lparr>AddOnJobEcho :=
       Some \<lparr>AddOnJobEcho.Enable = True, AddOnJobEcho.Namespace = [],
             AddOnJobEcho.EchoSize = 250001\<rparr>\<rparr>"

definition large_CronJob_Config :: Config where
  "large_CronJob_Config =
     sample_Config\<lparr>AddOnCronJob :=
       Some \<lparr>AddOnCronJob.Enable = True, AddOnCronJob.Namespace = [],
             AddOnCronJob.EchoSize = 250001\<rparr>\<rparr>"
section \<open>Properties of the Fargate tester\<close>

lemma call_frame:
  "Created (fst (call k p ts)) = Created ts"
  "events (fst (call k p ts)) = events ts @ [Call p (snd (call k p ts))]"
  by (simp_all add: call_def split: prod.splits)

lemma run_steps_log:
  "\<exists>n. n \<le> length ps \<and>
     events (fst (run_steps k ps ts)) =
       events ts @ map (\<lambda>p. Call p None) (take n ps) @
       (if n < length ps then [Call (ps ! n) (snd (run_steps k ps ts))] else []) \<and>
     (n < length ps \<longleftrightarrow> snd (run_steps k ps ts) \<noteq> None) \<and>
     Created (fst (run_steps k ps ts)) = Created ts"
proof (induction ps arbitrary: ts)
  case Nil
  then show ?case by simp
next
  case (Cons p ps)
  obtain ts' r where c: "call k p ts = (ts', r)" by (cases "call k p ts")
  have ev: "events ts' = events ts @ [Call p r]" and cr: "Created ts' = Created ts"
    using call_frame [of k p ts] c by simp_all
  show ?case
  proof (cases r)
    case (Some e)
    then show ?thesis using c ev cr by (intro exI [of _ 0]) simp
  next
    case None
    from Cons.IH [of ts'] obtain n where n: "n \<le> length ps"
      "events (fst (run_steps k ps ts')) =
         events ts' @ map (\<lambda>p. Call p None) (take n ps) @
         (if n < length ps then [Call (ps ! n) (snd (run_steps k ps ts'))] else [])"
      "(n < length ps \<longleftrightarrow> snd (run_steps k ps ts') \<noteq> None)"
      "Created (fst (run_steps k ps ts')) = Created ts'"
      by blast
    show ?thesis using c None ev cr n by (intro exI [of _ "Suc n"]) simp
  qed
qed


lemma assign_Created_frame:
  "Created (assign_Created b ts) = b"
  "events (assign_Created b ts) = events ts @ [Assign_Created b]"
  "world (assign_Created b ts) = world ts"
  by (simp_all add: assign_Created_def)

text \<open>
  The log of \<^verbatim>\<open>Create\<close> when the flag is false, in terms of the steps it runs.
\<close>

lemma Create_log:
  assumes "\<not> Created ts"
  shows "\<exists>n r0 r1. n \<le> length create_steps \<and>
     events (fst (Create k ts)) =
       events ts @ [Assign_Created True, Call Sync r0] @
       map (\<lambda>p. Call p None) (take n create_steps) @
       (if n < length create_steps then [Call (create_steps ! n) (snd (Create k ts))]
        else [Call Sync (snd (Create k ts))]) @
       [Call Sync r1] \<and>
     (n < length create_steps \<longrightarrow> snd (Create k ts) \<noteq> None) \<and>
     Created (fst (Create k ts))"
proof -
  define ts1 where "ts1 = assign_Created True ts"
  define ts2 where "ts2 = fst (call k Sync ts1)"
  define r0 where "r0 = snd (call k Sync ts1)"
  define body where "body = run_steps k create_steps ts2"
  define res where "res = (case body of (t, Some e) \<Rightarrow> (t, Some e) | (t, None) \<Rightarrow> call k Sync t)"
  define ts4 where "ts4 = (fst res)\<lparr>CreateTook := clock k (world (fst res)) - clock k (world ts2)\<rparr>"
  have C: "Create k ts = (fst (call k Sync ts4), snd res)"
    using assms
    by (simp add: Create_def Let_def ts1_def ts2_def body_def res_def ts4_def split: prod.splits)
  have e2: "events ts2 = events ts @ [Assign_Created True, Call Sync r0]"
    and c2: "Created ts2"
    using call_frame [of k Sync ts1] assign_Created_frame [of True ts]
    by (simp_all add: ts2_def ts1_def r0_def)
  from run_steps_log [of create_steps k ts2] obtain n where n: "n \<le> length create_steps"
    "events (fst body) = events ts2 @ map (\<lambda>p. Call p None) (take n create_steps) @
       (if n < length create_steps then [Call (create_steps ! n) (snd body)] else [])"
    "(n < length create_steps \<longleftrightarrow> snd body \<noteq> None)"
    "Created (fst body) = Created ts2"
    unfolding body_def by blast
  have r: "events (fst res) = events ts2 @ map (\<lambda>p. Call p None) (take n create_steps) @
       (if n < length create_steps then [Call (create_steps ! n) (snd res)]
        else [Call Sync (snd res)])"
    and rc: "Created (fst res)" and rn: "n < length create_steps \<longrightarrow> snd res \<noteq> None"
  proof -
    obtain t b where tb: "body = (t, b)" by (cases body)
    show "events (fst res) = events ts2 @ map (\<lambda>p. Call p None) (take n create_steps) @
       (if n < length create_steps then [Call (create_steps ! n) (snd res)]
        else [Call Sync (snd res)])"
      using n tb call_frame [of k Sync t] by (cases b) (simp_all add: res_def)
    show "Created (fst res)"
      using n c2 tb call_frame [of k Sync t] by (cases b) (simp_all add: res_def)
    show "n < length create_steps \<longrightarrow> snd res \<noteq> None"
      using n tb by (cases b) (simp_all add: res_def)
  qed
  have e5: "events (fst (call k Sync ts4)) = events (fst res) @ [Call Sync (snd (call k Sync ts4))]"
    and c5: "Created (fst (call k Sync ts4))"
    using call_frame [of k Sync ts4] rc by (simp_all add: ts4_def)
  show ?thesis
    apply (rule exI [of _ n], rule exI [of _ r0], rule exI [of _ "snd (call k Sync ts4)"])
    using n(1) r rn e2 e5 c5 by (simp add: C)
qed

text \<open>
  C7. When \<^verbatim>\<open>AddOnFargate.Created\<close> is false, \<^verbatim>\<open>Create\<close> first sets the flag (and
  syncs), then runs create namespace, create role, create secret, create profile,
  create pod, check pod, check node in this order. It stops at the first step that
  returns an error and returns that error: the log holds the \<open>n\<close> steps that succeeded,
  then the step that failed with what \<^verbatim>\<open>Create\<close> returns, and no later step. When all
  seven succeed it returns what the final \<^verbatim>\<open>Sync\<close> returns. The last entry of the log is
  the \<^verbatim>\<open>Sync\<close> of the deferred function.
\<close>

theorem Create_runs_steps_in_order:
  assumes "\<not> Created ts"
  shows "\<exists>n r0 r1. n \<le> 7 \<and>
     events (fst (Create k ts)) =
       events ts @ [Assign_Created True, Call Sync r0] @
       map (\<lambda>p. Call p None)
         (take n [createNamespace, createRole, createSecret, createProfile, createPod,
                  checkPod, checkNode]) @
       (if n < 7
        then [Call ([createNamespace, createRole, createSecret, createProfile, createPod,
                     checkPod, checkNode] ! n) (snd (Create k ts))]
        else [Call Sync (snd (Create k ts))]) @
       [Call Sync r1] \<and>
     (n < 7 \<longrightarrow> snd (Create k ts) \<noteq> None) \<and>
     Created (fst (Create k ts))"
proof -
  have l: "length create_steps = 7" by (simp add: create_steps_def)
  show ?thesis
    by (rule Create_log [OF assms, of k, unfolded l, unfolded create_steps_def])
qed

theorem Create_runs_steps_in_order_witness:
  "\<not> Created fresh_tester \<and>
   events (fst (Create (all_but createSecret (errorString ''quota'')) fresh_tester)) =
     [Assign_Created True, Call Sync None, Call createNamespace None, Call createRole None,
      Call createSecret (Some (errorString ''quota'')), Call Sync None] \<and>
   snd (Create (all_but createSecret (errorString ''quota'')) fresh_tester)
     = Some (errorString ''quota'') \<and>
   Created (fst (Create (all_but createSecret (errorString ''quota'')) fresh_tester)) \<and>
   events (fst (Create (all_but checkNode (errorString ''no node'')) fresh_tester)) =
     [Assign_Created True, Call Sync None, Call createNamespace None, Call createRole None,
      Call createSecret None, Call createProfile None, Call createPod None,
      Call checkPod None, Call checkNode (Some (errorString ''no node'')), Call Sync None] \<and>
   snd (Create (all_but checkNode (errorString ''no node'')) fresh_tester)
     = Some (errorString ''no node'') \<and>
   events (fst (Create (all_but createPod (errorString ''pending'')) fresh_tester)) =
     [Assign_Created True, Call Sync None, Call createNamespace None, Call createRole None,
      Call createSecret None, Call createProfile None,
      Call createPod (Some (errorString ''pending'')), Call Sync None] \<and>
   events (fst (Create (all_but deletePod (errorString ''timeout'')) fresh_tester)) =
     [Assign_Created True, Call Sync None, Call createNamespace None, Call createRole None,
      Call createSecret None, Call createProfile None, Call createPod None,
      Call checkPod None, Call checkNode None, Call Sync None, Call Sync None] \<and>
   snd (Create (all_but deletePod (errorString ''timeout'')) fresh_tester) = None"
  using Create_runs_steps_in_order [of fresh_tester "all_but createSecret (errorString ''quota'')"]
    Create_runs_steps_in_order [of fresh_tester "all_but checkNode (errorString ''no node'')"]
    Create_runs_steps_in_order [of fresh_tester "all_but createPod (errorString ''pending'')"]
    Create_runs_steps_in_order [of fresh_tester "all_but deletePod (errorString ''timeout'')"]
  by (simp add: fresh_tester_def all_but_def Create_def create_steps_def call_def
      assign_Created_def)

text \<open>
  C8. With \<^verbatim>\<open>AddOnFargate.Created\<close> true and the deletion of the pod failing while every
  other operation succeeds, \<^verbatim>\<open>Delete\<close> goes through all five deletions, resets the flag
  and returns \<^verbatim>\<open>nil\<close>: the failure it collected is not returned.
\<close>

theorem Delete_returns_nil_after_failed_pod_deletion:
  "Created created_tester \<and>
   snd (Delete (all_but deletePod (errorString ''timeout'')) created_tester) = None \<and>
   \<not> Created (fst (Delete (all_but deletePod (errorString ''timeout'')) created_tester)) \<and>
   events (fst (Delete (all_but deletePod (errorString ''timeout'')) created_tester)) =
     [Call deletePod (Some (errorString ''timeout'')), Call deleteProfile None, Sleep 10,
      Call deleteRole None, Sleep 20, Call deleteSecret None, Call deleteNamespace None,
      Assign_Created False, Call Sync None, Call Sync None]"
  by (simp add: created_tester_def all_but_def Delete_def call_def assign_Created_def
      sleep_def)

text \<open>
  C9. When \<^verbatim>\<open>AddOnFargate.Created\<close> is already true, \<^verbatim>\<open>Create\<close> returns \<^verbatim>\<open>nil\<close> and leaves
  the tester as it is: no operation is called and nothing is assigned. When the flag is
  false, \<^verbatim>\<open>Delete\<close> does the same.
\<close>

theorem Create_Delete_skip:
  "(Created ts \<longrightarrow> Create k ts = (ts, None)) \<and> (\<not> Created ts \<longrightarrow> Delete k ts = (ts, None))"
  by (simp add: Create_def Delete_def)

theorem Create_Delete_skip_witness:
  "Created created_tester \<and>
   Create (all_but createPod (errorString ''quota'')) created_tester = (created_tester, None) \<and>
   \<not> Created fresh_tester \<and>
   Delete (all_but deletePod (errorString ''timeout'')) fresh_tester = (fresh_tester, None)"
  using Create_Delete_skip [of created_tester "all_but createPod (errorString ''quota'')"]
    Create_Delete_skip [of fresh_tester "all_but deletePod (errorString ''timeout'')"]
  by (simp add: created_tester_def fresh_tester_def)

section \<open>Properties of the poller\<close>















lemma waits_since_no_call:
  "\<forall>c p. Describe c p \<notin> set tr \<Longrightarrow> waits_since acc tr = []"
  by (induction acc tr rule: waits_since.induct) auto

lemma waits_since_append:
  "\<forall>c p. Describe c p \<notin> set tr \<Longrightarrow>
   waits_since acc (tr @ tr') = waits_since (acc @ [d. Wait d \<leftarrow> tr]) tr'"
  by (induction acc tr rule: waits_since.induct) auto

text \<open>The shapes of one turn.\<close>

lemma iteration_shape:
  "iteration c p d iw w v t = (evs, r) \<Longrightarrow>
   (\<not> polls t \<and> r = None \<and> (\<exists>x. evs = [Send x, Close])) \<or>
   (polls t \<and> \<not> in_progress d t \<and>
      (\<exists>x. (evs = [Wait (waitDur v), Describe c p, Send x, Close] \<and> r = None) \<or>
           (evs = [Wait (waitDur v), Describe c p, Send x] \<and>
            r = Some (if waitDur v = 0 then v\<lparr>waitDur := w\<rparr> else v)))) \<or>
   (polls t \<and> in_progress d t \<and>
      (\<exists>x y. (evs = [Wait (waitDur v), Describe c p, Send x, Send y, Close] \<and> r = None \<and> first v) \<or>
           (evs = [Wait (waitDur v), Describe c p, Send x, Wait iw] \<and> first v \<and>
            r = Some ((if waitDur v = 0 then v\<lparr>waitDur := w\<rparr> else v)\<lparr>first := False\<rparr>)) \<or>
           (evs = [Wait (waitDur v), Describe c p, Send x] \<and> \<not> first v \<and>
            r = Some (if waitDur v = 0 then v\<lparr>waitDur := w\<rparr> else v))))"
  by (auto simp: iteration_def polls_def in_progress_def Let_def wait_aborted_def
      split: option.splits select_case.splits describe_result.splits if_splits)


lemma next_vars:
  "waitDur v = 0 \<or> waitDur v = w \<Longrightarrow>
   waitDur (if waitDur v = 0 then v\<lparr>waitDur := w\<rparr> else v) = w \<and>
   first (if waitDur v = 0 then v\<lparr>waitDur := w\<rparr> else v) = first v"
  by auto

lemma waits_steady:
  "\<not> first v \<Longrightarrow> waitDur v = w \<Longrightarrow>
   waits_since acc (poll_loop c p d iw w v ticks) = [] \<or>
   (\<exists>m. waits_since acc (poll_loop c p d iw w v ticks) = (acc @ [w]) # replicate m [w])"
proof (induction ticks arbitrary: acc v)
  case Nil
  then show ?case by simp
next
  case (Cons t ticks)
  obtain evs r where it: "iteration c p d iw w v t = (evs, r)"
    by (cases "iteration c p d iw w v t")
  let ?v' = "if waitDur v = 0 then v\<lparr>waitDur := w\<rparr> else v"
  have v': "\<not> first ?v'" "waitDur ?v' = w" using Cons.prems by auto
  from Cons.IH [OF v', of "[]"]
  have IH: "waits_since [] (poll_loop c p d iw w ?v' ticks) = [] \<or>
    (\<exists>m. waits_since [] (poll_loop c p d iw w ?v' ticks) = [w] # replicate m [w])" by simp
  from iteration_shape [OF it] Cons.prems(1)
  consider x where "evs = [Send x, Close]" "r = None"
    | x where "evs = [Wait (waitDur v), Describe c p, Send x, Close]" "r = None"
    | x where "evs = [Wait (waitDur v), Describe c p, Send x]" "r = Some ?v'"
    by blast
  then show ?case
  proof cases
    case 1
    then show ?thesis using it by simp
  next
    case 2
    then show ?thesis using it Cons.prems by (intro disjI2 exI [of _ 0]) simp
  next
    case 3
    from IH show ?thesis
    proof
      assume "waits_since [] (poll_loop c p d iw w ?v' ticks) = []"
      then show ?thesis using it 3 Cons.prems by (intro disjI2 exI [of _ 0]) simp
    next
      assume "\<exists>m. waits_since [] (poll_loop c p d iw w ?v' ticks) = [w] # replicate m [w]"
      then obtain m where "waits_since [] (poll_loop c p d iw w ?v' ticks) = [w] # replicate m [w]" ..
      then show ?thesis using it 3 Cons.prems by (intro disjI2 exI [of _ "Suc m"]) simp
    qed
  qed
qed

lemma waits_first:
  "first v \<Longrightarrow> waitDur v = 0 \<or> waitDur v = w \<Longrightarrow>
   waits_since acc (poll_loop c p d iw w v ticks) = [] \<or>
   (\<exists>m\<le>length (takeWhile (\<lambda>t. \<not> in_progress d t) ticks).
      waits_since acc (poll_loop c p d iw w v ticks) = (acc @ [waitDur v]) # replicate m [w]) \<or>
   (\<exists>m. waits_since acc (poll_loop c p d iw w v ticks) =
      (acc @ [waitDur v]) # replicate (length (takeWhile (\<lambda>t. \<not> in_progress d t) ticks)) [w]
        @ [iw, w] # replicate m [w])"
proof (induction ticks arbitrary: acc v)
  case Nil
  then show ?case by simp
next
  case (Cons t ticks)
  obtain evs r where it: "iteration c p d iw w v t = (evs, r)"
    by (cases "iteration c p d iw w v t")
  let ?v' = "if waitDur v = 0 then v\<lparr>waitDur := w\<rparr> else v"
  let ?n = "length (takeWhile (\<lambda>t. \<not> in_progress d t) ticks)"
  have v': "first ?v'" "waitDur ?v' = 0 \<or> waitDur ?v' = w" "waitDur ?v' = w"
    using Cons.prems by auto
  from iteration_shape [OF it] Cons.prems(1)
  consider x where "evs = [Send x, Close]" "r = None"
    | x where "evs = [Wait (waitDur v), Describe c p, Send x, Close]" "r = None"
    | x where "\<not> in_progress d t" "evs = [Wait (waitDur v), Describe c p, Send x]" "r = Some ?v'"
    | x y where "evs = [Wait (waitDur v), Describe c p, Send x, Send y, Close]" "r = None"
    | x where "in_progress d t" "evs = [Wait (waitDur v), Describe c p, Send x, Wait iw]"
        "r = Some (?v'\<lparr>first := False\<rparr>)"
    by blast
  then show ?case
  proof cases
    case 1
    then show ?thesis using it by simp
  next
    case 2
    then show ?thesis using it by (intro disjI2 disjI1 exI [of _ 0]) simp
  next
    case 3
    note o3 = 3
    from Cons.IH [OF v'(1,2), of "[]"]
    consider (a) "waits_since [] (poll_loop c p d iw w ?v' ticks) = []"
      | (b) m where "m \<le> ?n" "waits_since [] (poll_loop c p d iw w ?v' ticks) = [w] # replicate m [w]"
      | (c) m where "waits_since [] (poll_loop c p d iw w ?v' ticks) =
           [w] # replicate ?n [w] @ [iw, w] # replicate m [w]"
      using v'(3) by auto
    then show ?thesis
    proof cases
      case a
      then show ?thesis using it o3 by (intro disjI2 disjI1 exI [of _ 0]) simp
    next
      case b
      then show ?thesis using it o3 by (intro disjI2 disjI1 exI [of _ "Suc m"]) simp
    next
      case c
      then show ?thesis using it o3 by (intro disjI2 disjI2 exI [of _ m]) simp
    qed
  next
    case 4
    then show ?thesis using it by (intro disjI2 disjI1 exI [of _ 0]) simp
  next
    case 5
    note o5 = 5
    have s: "\<not> first (?v'\<lparr>first := False\<rparr>)" "waitDur (?v'\<lparr>first := False\<rparr>) = w"
      using v'(3) by auto
    from waits_steady [OF s, of "[iw]" c p d iw ticks]
    consider (a) "waits_since [iw] (poll_loop c p d iw w (?v'\<lparr>first := False\<rparr>) ticks) = []"
      | (b) m where "waits_since [iw] (poll_loop c p d iw w (?v'\<lparr>first := False\<rparr>) ticks) =
          [iw, w] # replicate m [w]"
      by auto
    then show ?thesis
    proof cases
      case a
      then show ?thesis using it o5 by (intro disjI2 disjI1 exI [of _ 0]) simp
    next
      case b
      then show ?thesis using it o5 by (intro disjI2 disjI2 exI [of _ m]) simp
    qed
  qed
qed

text \<open>
  C2. The timers the goroutine waits for before its calls of
  \<^verbatim>\<open>DescribeFargateProfile\<close>: before the first call the timer of duration zero only;
  before every later call the timer of duration \<open>wait\<close> only, but for at most one call,
  which comes after the timer of \<open>initialWait\<close> and then the timer of \<open>wait\<close>. That call is
  the one after the first call that returned a profile neither in the desired nor in a
  failed status: \<open>n\<close> calls answered otherwise come before it, each after \<open>wait\<close> only.
  No call waits longer.
\<close>

theorem Poll_waits:
  "waits_before_calls (Poll ticks c p d iw w) = [] \<or>
   (\<exists>m\<le>length (takeWhile (\<lambda>t. \<not> in_progress d t) ticks).
      waits_before_calls (Poll ticks c p d iw w) = [0] # replicate m [w]) \<or>
   (\<exists>m. waits_before_calls (Poll ticks c p d iw w) =
      [0] # replicate (length (takeWhile (\<lambda>t. \<not> in_progress d t) ticks)) [w]
        @ [iw, w] # replicate m [w])"
  using waits_first [of "\<lparr>waitDur = 0, first = True\<rparr>" w "[]" c p d iw ticks]
  by (simp add: waits_before_calls_def Poll_def)

theorem Poll_initial_wait_after_second_call:
  "waits_before_calls
     (Poll [throttled, sees ''CREATING'', sees ''CREATING''] ''c'' ''fp'' ''ACTIVE'' 10 7) =
   [[0], [7], [10, 7]]"
  by (simp add: waits_before_calls_def Poll_def iteration_def sees_def throttled_def
      profile_in_def StringValue_def FargateProfileStatusCreateFailed_def
      FargateProfileStatusDeleteFailed_def HasPrefix_def)

section \<open>Properties of the reader of the environment\<close>

lemma parse_field_skips:
  "Getenv e (env_key pfx (jsonTag f)) = [] \<or> readOnlyTag f = ''true'' \<Longrightarrow>
   parse_field lib e pfx nil f = (f, None)"
  by (auto simp: parse_field_def Let_def)

lemma parse_fields_length:
  "length (fst (parse_fields lib e pfx nil fs)) = length fs"
  by (induction fs) (auto split: prod.splits option.splits)

lemma parse_fields_frame:
  "i < length fs \<Longrightarrow>
   Getenv e (env_key pfx (jsonTag (fs ! i))) = [] \<or> readOnlyTag (fs ! i) = ''true'' \<Longrightarrow>
   fst (parse_fields lib e pfx nil fs) ! i = fs ! i"
proof (induction fs arbitrary: i)
  case Nil
  then show ?case by simp
next
  case (Cons f fs)
  show ?case
  proof (cases i)
    case 0
    with Cons.prems parse_field_skips [of e pfx f lib nil] show ?thesis
      by (auto split: prod.splits option.splits)
  next
    case (Suc k)
    with Cons show ?thesis by (auto split: prod.splits option.splits)
  qed
qed

lemma parseEnvs_frame:
  "i < length (Elem s) \<Longrightarrow>
   Getenv e (env_key pfx (jsonTag (Elem s ! i))) = [] \<or> readOnlyTag (Elem s ! i) = ''true'' \<Longrightarrow>
   Elem (fst (parseEnvs lib e pfx s)) ! i = Elem s ! i \<and>
   length (Elem (fst (parseEnvs lib e pfx s))) = length (Elem s)"
  using parse_fields_frame [of i "Elem s" e pfx lib "is_nil s"]
    parse_fields_length [of lib e pfx "is_nil s" "Elem s"]
  by (cases s) (auto simp: parseEnvs_def split: prod.splits)

lemma parse_each_length:
  "length (fst (parse_each lib e pfxs ss)) = length ss"
  by (induction lib e pfxs ss rule: parse_each.induct) (auto split: prod.splits option.splits)

lemma parse_each_frame:
  "j < length ss \<Longrightarrow> j < length pfxs \<Longrightarrow> i < length (Elem (ss ! j)) \<Longrightarrow>
   Getenv e (env_key (pfxs ! j) (jsonTag (Elem (ss ! j) ! i))) = []
     \<or> readOnlyTag (Elem (ss ! j) ! i) = ''true'' \<Longrightarrow>
   Elem (fst (parse_each lib e pfxs ss) ! j) ! i = Elem (ss ! j) ! i"
proof (induction lib e pfxs ss arbitrary: j rule: parse_each.induct)
  case (1 lib e pfx pfxs s ss)
  show ?case
  proof (cases j)
    case 0
    with "1.prems" parseEnvs_frame [of i s e pfx lib] show ?thesis
      by (auto split: prod.splits option.splits)
  next
    case (Suc k)
    with 1 show ?thesis by (auto split: prod.splits option.splits)
  qed
qed auto

text \<open>
  C10. \<^verbatim>\<open>UpdateFromEnvs\<close> leaves a field of any of the thirteen structs as it is when
  the variable of the field (the prefix of the struct and the tag of the field, without
  \<^verbatim>\<open>,omitempty\<close>, with \<^verbatim>\<open>_\<close> for \<^verbatim>\<open>-\<close>, in upper case) is not set or is empty, and when the
  field is tagged read-only \<^verbatim>\<open>"true"\<close>, whatever the variable holds. This holds however
  the call ends: with \<^verbatim>\<open>nil\<close>, with an error, or with a panic. So only a non-empty value
  for a field that is not read-only can change the field.
\<close>

theorem UpdateFromEnvs_frame:
  assumes "j < length cfg" and "j < length prefixes" and "i < length (Elem (cfg ! j))"
    and "Getenv e (env_key (prefixes ! j) (jsonTag (Elem (cfg ! j) ! i))) = []
         \<or> readOnlyTag (Elem (cfg ! j) ! i) = ''true''"
  shows "Elem (fst (UpdateFromEnvs lib e cfg) ! j) ! i = Elem (cfg ! j) ! i"
  unfolding UpdateFromEnvs_def using assms by (rule parse_each_frame)

theorem UpdateFromEnvs_frame_witness:
  "Getenv sample_environ (env_key (prefixes ! 0) (jsonTag (Elem (sample_structs ! 0) ! 0))) = [] \<and>
   readOnlyTag (Elem (sample_structs ! 0) ! 1) = ''true'' \<and>
   readOnlyTag (Elem (sample_structs ! 1) ! 1) = ''true'' \<and>
   Getenv sample_environ (env_key (prefixes ! 1) (jsonTag (Elem (sample_structs ! 1) ! 1))) = ''1.16'' \<and>
   fst (UpdateFromEnvs sample_library sample_environ sample_structs) =
     [ptr [Field ''ConfigPath'' ''config-path'' ''false'' (VString ''/tmp/a.yaml''),
           Field ''CommandAfterCreateClusterOutputPath''
             ''command-after-create-cluster-output-path'' ''true'' (VString []),
           Field ''Parameters'' ''parameters'' ''false'' VOther],
      ptr [Field ''Version'' ''version'' ''false'' (VString ''1.16''),
           Field ''VersionValue'' ''version-value'' ''true'' (VFloat (115 / 100))]]
     @ replicate 11 (ptr [])"
  using UpdateFromEnvs_frame [of 0 sample_structs 0 sample_environ sample_library]
    UpdateFromEnvs_frame [of 0 sample_structs 1 sample_environ sample_library]
    UpdateFromEnvs_frame [of 1 sample_structs 1 sample_environ sample_library]
  by (simp add: sample_structs_def sample_environ_def sample_library_def UpdateFromEnvs_def
      parseEnvs_def parse_field_def Set_field_def env_key_def ToUpper_def upper_char_def HasPrefix_def
      lower_letters_def upper_letters_def Getenv_def prefixes_def EnvironmentVariablePrefix_def
      EnvironmentVariablePrefixParameters_def numeral_eq_Suc)

section \<open>Properties of the validation\<close>

subsection \<open>Assignments that do not change what is read\<close>

lemmas IsEnabled_defs =
  IsEnabledAddOnNodeGroups_def IsEnabledAddOnManagedNodeGroups_def
  IsEnabledAddOnNLBHelloWorld_def IsEnabledAddOnALB2048_def IsEnabledAddOnJobPi_def
  IsEnabledAddOnJobEcho_def IsEnabledAddOnCronJob_def IsEnabledAddOnSecrets_def
  IsEnabledAddOnIRSA_def IsEnabledAddOnFargate_def IsEnabledAddOnAppMesh_def

lemma enabled_updates:
  "enabled (c\<lparr>ConfigPath := x0\<rparr>) = enabled c"
  "enabled (c\<lparr>LogOutputs := x1\<rparr>) = enabled c"
  "enabled (c\<lparr>KubectlCommandsOutputPath := x2\<rparr>) = enabled c"
  "enabled (c\<lparr>RemoteAccessCommandsOutputPath := x3\<rparr>) = enabled c"
  "enabled (c\<lparr>CommandAfterCreateClusterOutputPath := x4\<rparr>) = enabled c"
  "enabled (c\<lparr>CommandAfterCreateAddOnsOutputPath := x5\<rparr>) = enabled c"
  "enabled (c\<lparr>KubeConfigPath := x6\<rparr>) = enabled c"
  "enabled (c\<lparr>CommandAfterCreateCluster := x7\<rparr>) = enabled c"
  "enabled (c\<lparr>CommandAfterCreateAddOns := x8\<rparr>) = enabled c"
  "enabled (c\<lparr>S3BucketName := x9\<rparr>) = enabled c"
  "enabled (c\<lparr>S3BucketLifecycleExpirationDays := x10\<rparr>) = enabled c"
  "enabled (c\<lparr>Parameters := x11\<rparr>) = enabled c"
  "enabled (c\<lparr>RemoteAccessKeyName := x12\<rparr>) = enabled c"
  by (simp_all add: enabled_def IsEnabled_defs)

lemma enabled_addon_updates:
  "AddOnNodeGroups c = Some a0 \<Longrightarrow> AddOnNodeGroups.Enable b0 = AddOnNodeGroups.Enable a0 \<Longrightarrow>
   enabled (c\<lparr>AddOnNodeGroups := Some b0\<rparr>) = enabled c"
  "AddOnManagedNodeGroups c = Some a1 \<Longrightarrow> AddOnManagedNodeGroups.Enable b1 = AddOnManagedNodeGroups.Enable a1 \<Longrightarrow>
   enabled (c\<lparr>AddOnManagedNodeGroups := Some b1\<rparr>) = enabled c"
  "AddOnNLBHelloWorld c = Some a2 \<Longrightarrow> AddOnNLBHelloWorld.Enable b2 = AddOnNLBHelloWorld.Enable a2 \<Longrightarrow>
   enabled (c\<lparr>AddOnNLBHelloWorld := Some b2\<rparr>) = enabled c"
  "AddOnALB2048 c = Some a3 \<Longrightarrow> AddOnALB2048.Enable b3 = AddOnALB2048.Enable a3 \<Longrightarrow>
   enabled (c\<lparr>AddOnALB2048 := Some b3\<rparr>) = enabled c"
  "AddOnJobPi c = Some a4 \<Longrightarrow> AddOnJobPi.Enable b4 = AddOnJobPi.Enable a4 \<Longrightarrow>
   enabled (c\<lparr>AddOnJobPi := Some b4\<rparr>) = enabled c"
  "AddOnJobEcho c = Some a5 \<Longrightarrow> AddOnJobEcho.Enable b5 = AddOnJobEcho.Enable a5 \<Longrightarrow>
   enabled (c\<lparr>AddOnJobEcho := Some b5\<rparr>) = enabled c"
  "AddOnCronJob c = Some a6 \<Longrightarrow> AddOnCronJob.Enable b6 = AddOnCronJob.Enable a6 \<Longrightarrow>
   enabled (c\<lparr>AddOnCronJob := Some b6\<rparr>) = enabled c"
  "AddOnSecrets c = Some a7 \<Longrightarrow> AddOnSecrets.Enable b7 = AddOnSecrets.Enable a7 \<Longrightarrow>
   enabled (c\<lparr>AddOnSecrets := Some b7\<rparr>) = enabled c"
  "AddOnIRSA c = Some a8 \<Longrightarrow> AddOnIRSA.Enable b8 = AddOnIRSA.Enable a8 \<Longrightarrow>
   enabled (c\<lparr>AddOnIRSA := Some b8\<rparr>) = enabled c"
  "AddOnFargate c = Some a9 \<Longrightarrow> AddOnFargate.Enable b9 = AddOnFargate.Enable a9 \<Longrightarrow>
   enabled (c\<lparr>AddOnFargate := Some b9\<rparr>) = enabled c"
  "AddOnAppMesh c = Some a10 \<Longrightarrow> AddOnAppMesh.Enable b10 = AddOnAppMesh.Enable a10 \<Longrightarrow>
   enabled (c\<lparr>AddOnAppMesh := Some b10\<rparr>) = enabled c"
  by (simp_all add: enabled_def IsEnabled_defs)

lemma output_paths_updates:
  "output_paths (c\<lparr>LogOutputs := x0\<rparr>) = output_paths c"
  "output_paths (c\<lparr>CommandAfterCreateCluster := x1\<rparr>) = output_paths c"
  "output_paths (c\<lparr>CommandAfterCreateAddOns := x2\<rparr>) = output_paths c"
  "output_paths (c\<lparr>S3BucketName := x3\<rparr>) = output_paths c"
  "output_paths (c\<lparr>S3BucketLifecycleExpirationDays := x4\<rparr>) = output_paths c"
  "output_paths (c\<lparr>Parameters := x5\<rparr>) = output_paths c"
  "output_paths (c\<lparr>RemoteAccessKeyName := x6\<rparr>) = output_paths c"
  "output_paths (c\<lparr>AddOnNodeGroups := y0\<rparr>) = output_paths c"
  "output_paths (c\<lparr>AddOnManagedNodeGroups := y1\<rparr>) = output_paths c"
  "output_paths (c\<lparr>AddOnNLBHelloWorld := y2\<rparr>) = output_paths c"
  "output_paths (c\<lparr>AddOnALB2048 := y3\<rparr>) = output_paths c"
  "output_paths (c\<lparr>AddOnJobPi := y4\<rparr>) = output_paths c"
  "output_paths (c\<lparr>AddOnJobEcho := y5\<rparr>) = output_paths c"
  "output_paths (c\<lparr>AddOnCronJob := y6\<rparr>) = output_paths c"
  "output_paths (c\<lparr>AddOnSecrets := y7\<rparr>) = output_paths c"
  "output_paths (c\<lparr>AddOnIRSA := y8\<rparr>) = output_paths c"
  "output_paths (c\<lparr>AddOnFargate := y9\<rparr>) = output_paths c"
  "output_paths (c\<lparr>AddOnAppMesh := y10\<rparr>) = output_paths c"
  by (simp_all add: output_paths_def)

lemma validateAddOnNLBHelloWorld_keeps:
  "Config.Name (fst (validateAddOnNLBHelloWorld h c)) = Config.Name c"
  "enabled (fst (validateAddOnNLBHelloWorld h c)) = enabled c"
  "output_paths (fst (validateAddOnNLBHelloWorld h c)) = output_paths c"
  "AddOnJobEcho (fst (validateAddOnNLBHelloWorld h c)) = AddOnJobEcho c"
  "AddOnCronJob (fst (validateAddOnNLBHelloWorld h c)) = AddOnCronJob c"
  "AddOnFargate (fst (validateAddOnNLBHelloWorld h c)) = AddOnFargate c"
  by (auto simp: validateAddOnNLBHelloWorld_def enabled_addon_updates output_paths_updates Let_def
      split: option.splits)

lemma validateAddOnALB2048_keeps:
  "Config.Name (fst (validateAddOnALB2048 h c)) = Config.Name c"
  "enabled (fst (validateAddOnALB2048 h c)) = enabled c"
  "output_paths (fst (validateAddOnALB2048 h c)) = output_paths c"
  "AddOnJobEcho (fst (validateAddOnALB2048 h c)) = AddOnJobEcho c"
  "AddOnCronJob (fst (validateAddOnALB2048 h c)) = AddOnCronJob c"
  "AddOnFargate (fst (validateAddOnALB2048 h c)) = AddOnFargate c"
  by (auto simp: validateAddOnALB2048_def enabled_addon_updates output_paths_updates Let_def
      split: option.splits)

lemma validateAddOnJobPi_keeps:
  "Config.Name (fst (validateAddOnJobPi h c)) = Config.Name c"
  "enabled (fst (validateAddOnJobPi h c)) = enabled c"
  "output_paths (fst (validateAddOnJobPi h c)) = output_paths c"
  "AddOnJobEcho (fst (validateAddOnJobPi h c)) = AddOnJobEcho c"
  "AddOnCronJob (fst (validateAddOnJobPi h c)) = AddOnCronJob c"
  "AddOnFargate (fst (validateAddOnJobPi h c)) = AddOnFargate c"
  by (auto simp: validateAddOnJobPi_def enabled_addon_updates output_paths_updates Let_def
      split: option.splits)

lemma validateAddOnJobEcho_keeps:
  "Config.Name (fst (validateAddOnJobEcho h c)) = Config.Name c"
  "enabled (fst (validateAddOnJobEcho h c)) = enabled c"
  "output_paths (fst (validateAddOnJobEcho h c)) = output_paths c"
  "AddOnCronJob (fst (validateAddOnJobEcho h c)) = AddOnCronJob c"
  "AddOnFargate (fst (validateAddOnJobEcho h c)) = AddOnFargate c"
  by (auto simp: validateAddOnJobEcho_def enabled_addon_updates output_paths_updates Let_def
      split: option.splits)

lemma validateAddOnCronJob_keeps:
  "Config.Name (fst (validateAddOnCronJob h c)) = Config.Name c"
  "enabled (fst (validateAddOnCronJob h c)) = enabled c"
  "output_paths (fst (validateAddOnCronJob h c)) = output_paths c"
  "AddOnJobEcho (fst (validateAddOnCronJob h c)) = AddOnJobEcho c"
  "AddOnFargate (fst (validateAddOnCronJob h c)) = AddOnFargate c"
  by (auto simp: validateAddOnCronJob_def enabled_addon_updates output_paths_updates Let_def
      split: option.splits)

lemma validateAddOnSecrets_keeps:
  "Config.Name (fst (validateAddOnSecrets h c)) = Config.Name c"
  "enabled (fst (validateAddOnSecrets h c)) = enabled c"
  "output_paths (fst (validateAddOnSecrets h c)) = output_paths c"
  "AddOnJobEcho (fst (validateAddOnSecrets h c)) = AddOnJobEcho c"
  "AddOnCronJob (fst (validateAddOnSecrets h c)) = AddOnCronJob c"
  "AddOnFargate (fst (validateAddOnSecrets h c)) = AddOnFargate c"
  by (auto simp: validateAddOnSecrets_def enabled_addon_updates output_paths_updates Let_def
      split: option.splits)

lemma validateAddOnIRSA_keeps:
  "Config.Name (fst (validateAddOnIRSA h c)) = Config.Name c"
  "enabled (fst (validateAddOnIRSA h c)) = enabled c"
  "output_paths (fst (validateAddOnIRSA h c)) = output_paths c"
  "AddOnJobEcho (fst (validateAddOnIRSA h c)) = AddOnJobEcho c"
  "AddOnCronJob (fst (validateAddOnIRSA h c)) = AddOnCronJob c"
  "AddOnFargate (fst (validateAddOnIRSA h c)) = AddOnFargate c"
  by (auto simp: validateAddOnIRSA_def enabled_addon_updates output_paths_updates Let_def
      split: option.splits)

lemma validateAddOnAppMesh_keeps:
  "Config.Name (fst (validateAddOnAppMesh h c)) = Config.Name c"
  "enabled (fst (validateAddOnAppMesh h c)) = enabled c"
  "output_paths (fst (validateAddOnAppMesh h c)) = output_paths c"
  "AddOnJobEcho (fst (validateAddOnAppMesh h c)) = AddOnJobEcho c"
  "AddOnCronJob (fst (validateAddOnAppMesh h c)) = AddOnCronJob c"
  "AddOnFargate (fst (validateAddOnAppMesh h c)) = AddOnFargate c"
  by (auto simp: validateAddOnAppMesh_def enabled_addon_updates output_paths_updates Let_def
      split: option.splits)

lemma in_order_keeps:
  assumes "\<And>stmt c. stmt \<in> set stmts \<Longrightarrow> g (fst (stmt c)) = g c"
  shows "g (fst (in_order stmts cfg)) = g cfg"
  using assms
proof (induction stmts arbitrary: cfg)
  case Nil
  then show ?case by simp
next
  case (Cons stmt stmts)
  have a: "g (fst (stmt cfg)) = g cfg" using Cons.prems [of stmt cfg] by simp
  have b: "g (fst (in_order stmts c)) = g c" for c
  proof (rule Cons.IH)
    fix s c' assume "s \<in> set stmts"
    then show "g (fst (s c')) = g c'" using Cons.prems [of s c'] by simp
  qed
  obtain c r where p: "stmt cfg = (c, r)" by (cases "stmt cfg")
  show ?case using a b [of c] p by (cases r) simp_all
qed

lemma run_validators_keeps:
  assumes "\<And>name f c. (name, f) \<in> set vs \<Longrightarrow> g (fst (f c)) = g c"
  shows "g (fst (run_validators vs cfg)) = g cfg"
  using assms
proof (induction vs arbitrary: cfg)
  case Nil
  then show ?case by simp
next
  case (Cons v vs)
  obtain name f where v: "v = (name, f)" by (cases v)
  have a: "g (fst (f cfg)) = g cfg" using Cons.prems [of name f cfg] v by simp
  have b: "g (fst (run_validators vs c)) = g c" for c
  proof (rule Cons.IH)
    fix n s c' assume "(n, s) \<in> set vs"
    then show "g (fst (s c')) = g c'" using Cons.prems [of n s c'] by simp
  qed
  obtain c r where p: "f cfg = (c, r)" by (cases "f cfg")
  show ?case using a b [of c] p v by (cases r) simp_all
qed

lemma in_order_append:
  "in_order (xs @ ys) cfg =
     (case in_order xs cfg of (c, Some x) \<Rightarrow> (c, Some x) | (c, None) \<Rightarrow> in_order ys c)"
proof (induction xs arbitrary: cfg)
  case Nil
  then show ?case by simp
next
  case (Cons s xs)
  obtain c r where p: "s cfg = (c, r)" by (cases "s cfg")
  show ?case using Cons [of c] p by (cases r) simp_all
qed

lemma run_validators_append:
  "run_validators (xs @ ys) cfg =
     (case run_validators xs cfg of
        (c, Some x) \<Rightarrow> (c, Some x)
      | (c, None) \<Rightarrow> run_validators ys c)"
proof (induction xs arbitrary: cfg)
  case Nil
  then show ?case by simp
next
  case (Cons v xs)
  obtain name f where v: "v = (name, f)" by (cases v)
  obtain c r where p: "f cfg = (c, r)" by (cases "f cfg")
  show ?case using Cons [of c] p v by (cases r) simp_all
qed

lemmas output_path_defs =
  default_KubectlCommandsOutputPath_def sh_KubectlCommandsOutputPath_def
  default_RemoteAccessCommandsOutputPath_def sh_RemoteAccessCommandsOutputPath_def
  default_CommandAfterCreateClusterOutputPath_def log_CommandAfterCreateClusterOutputPath_def
  default_CommandAfterCreateAddOnsOutputPath_def log_CommandAfterCreateAddOnsOutputPath_def
  default_KubeConfigPath_def

lemma validateConfig_statement_keeps:
  assumes "stmt \<in> set
       ([check (\<lambda>cfg. \<not> RegionToAiport h (Region cfg)) ''region not found'',
         check (\<lambda>cfg. length (Config.Name cfg) = 0) ''Name is empty'',
         check (\<lambda>cfg. Config.Name cfg \<noteq> ToLower (Config.Name cfg)) ''Name must be in lower-case'',
         check (\<lambda>cfg. length (LogOutputs cfg) = 0) ''LogOutputs is not empty'',
         default_ConfigPath h,
         mkdir_ConfigPath h,
         assign add_log_output]
        @ output_path_statements @
        [check (\<lambda>cfg. \<not> Contains (KubectlDownloadURL cfg) (GOOS h))
           ''kubectl-download-url build OS mismatch'',
         resolve_CommandAfterCreateCluster h,
         resolve_CommandAfterCreateAddOns h,
         assign default_S3Bucket])"
  shows "Config.Name (fst (stmt c)) = Config.Name c"
    and "enabled (fst (stmt c)) = enabled c"
    and "Parameters (fst (stmt c)) = Parameters c"
    and "AddOnJobEcho (fst (stmt c)) = AddOnJobEcho c"
    and "AddOnCronJob (fst (stmt c)) = AddOnCronJob c"
    and "AddOnFargate (fst (stmt c)) = AddOnFargate c"
  using assms
  by (auto simp: output_path_statements_def check_def assign_def default_ConfigPath_def
      mkdir_ConfigPath_def add_log_output_def output_path_defs
      resolve_CommandAfterCreateCluster_def resolve_CommandAfterCreateAddOns_def
      default_S3Bucket_def enabled_updates Let_def
      split: option.splits sum.splits)

lemma validateConfig_keeps:
  "Config.Name (fst (validateConfig h c)) = Config.Name c"
  "enabled (fst (validateConfig h c)) = enabled c"
  "Parameters (fst (validateConfig h c)) = Parameters c"
  "AddOnJobEcho (fst (validateConfig h c)) = AddOnJobEcho c"
  "AddOnCronJob (fst (validateConfig h c)) = AddOnCronJob c"
  "AddOnFargate (fst (validateConfig h c)) = AddOnFargate c"
  unfolding validateConfig_def
  by (rule in_order_keeps, erule validateConfig_statement_keeps)+

lemma check_remote_access_keeps:
  "Config.Name (fst (check_remote_access h c)) = Config.Name c"
  "enabled (fst (check_remote_access h c)) = enabled c"
  "output_paths (fst (check_remote_access h c)) = output_paths c"
  "Parameters (fst (check_remote_access h c)) = Parameters c"
  "AddOnJobEcho (fst (check_remote_access h c)) = AddOnJobEcho c"
  "AddOnCronJob (fst (check_remote_access h c)) = AddOnCronJob c"
  "AddOnFargate (fst (check_remote_access h c)) = AddOnFargate c"
  by (simp_all add: check_remote_access_def enabled_updates output_paths_updates)

lemma validateParameters_keeps:
  "Config.Name (fst (validateParameters h c)) = Config.Name c"
  "enabled (fst (validateParameters h c)) = enabled c"
  "output_paths (fst (validateParameters h c)) = output_paths c"
  "AddOnJobEcho (fst (validateParameters h c)) = AddOnJobEcho c"
  "AddOnCronJob (fst (validateParameters h c)) = AddOnCronJob c"
  "AddOnFargate (fst (validateParameters h c)) = AddOnFargate c"
  by (auto simp: validateParameters_def check_remote_access_keeps enabled_updates
      output_paths_updates Let_def split: option.splits prod.splits)

lemma Fargate_check_role_keeps:
  "AddOnFargate.Enable (fst (Fargate_check_role name a)) = AddOnFargate.Enable a"
  "SecretName (fst (Fargate_check_role name a)) = SecretName a"
  by (simp_all add: Fargate_check_role_def Let_def)

lemma default_Fargate_names_keeps:
  "AddOnFargate.Enable (default_Fargate_names h name a) = AddOnFargate.Enable a"
  "SecretName (default_Fargate_names h name a) =
     ToLower (secretRegex_ReplaceAllString
       (if SecretName a = [] then name @ ''addonfargatesecret'' else SecretName a) [])"
  by (simp_all add: default_Fargate_names_def Let_def)

lemma validateAddOnFargate_shape:
  "fst (validateAddOnFargate h c) = c \<or>
   (\<exists>a. AddOnFargate c = Some a \<and>
      fst (validateAddOnFargate h c) =
        c\<lparr>AddOnFargate := Some (fst (Fargate_check_role (Config.Name c)
             (default_Fargate_names h (Config.Name c) a)))\<rparr>)"
  by (simp add: validateAddOnFargate_def case_prod_beta split: option.splits)

lemma validateAddOnFargate_keeps:
  "Config.Name (fst (validateAddOnFargate h c)) = Config.Name c"
  "enabled (fst (validateAddOnFargate h c)) = enabled c"
  "output_paths (fst (validateAddOnFargate h c)) = output_paths c"
  "AddOnJobEcho (fst (validateAddOnFargate h c)) = AddOnJobEcho c"
  "AddOnCronJob (fst (validateAddOnFargate h c)) = AddOnCronJob c"
  using validateAddOnFargate_shape [of h c]
  by (auto simp: enabled_addon_updates output_paths_updates Fargate_check_role_keeps
      default_Fargate_names_keeps)

lemma raise_replicas_keeps:
  "Config.Name (raise_replicas d c) = Config.Name c"
  "enabled (raise_replicas d c) = enabled c"
  "output_paths (raise_replicas d c) = output_paths c"
  "Parameters (raise_replicas d c) = Parameters c"
  "AddOnNodeGroups (raise_replicas d c) = AddOnNodeGroups c"
  "AddOnManagedNodeGroups (raise_replicas d c) = AddOnManagedNodeGroups c"
  "AddOnJobEcho (raise_replicas d c) = AddOnJobEcho c"
  "AddOnCronJob (raise_replicas d c) = AddOnCronJob c"
  "AddOnFargate (raise_replicas d c) = AddOnFargate c"
  by (auto simp: raise_replicas_def Let_def enabled_addon_updates output_paths_updates
      split: option.splits)

lemma validate_ASG_keeps:
  "Config.Name (fst (fst (validate_ASG h k v (c, names)))) = Config.Name c"
  "enabled (fst (fst (validate_ASG h k v (c, names)))) = enabled c"
  "output_paths (fst (fst (validate_ASG h k v (c, names)))) = output_paths c"
  "Parameters (fst (fst (validate_ASG h k v (c, names)))) = Parameters c"
  "AddOnManagedNodeGroups (fst (fst (validate_ASG h k v (c, names)))) = AddOnManagedNodeGroups c"
  "AddOnJobEcho (fst (fst (validate_ASG h k v (c, names)))) = AddOnJobEcho c"
  "AddOnCronJob (fst (fst (validate_ASG h k v (c, names)))) = AddOnCronJob c"
  "AddOnFargate (fst (fst (validate_ASG h k v (c, names)))) = AddOnFargate c"
  by (auto simp: validate_ASG_def Let_def raise_replicas_keeps enabled_addon_updates
      output_paths_updates split: option.splits prod.splits)

lemma validate_ASGs_keeps:
  "Config.Name (fst (validate_ASGs h es st)) = Config.Name (fst st) \<and>
   enabled (fst (validate_ASGs h es st)) = enabled (fst st) \<and>
   output_paths (fst (validate_ASGs h es st)) = output_paths (fst st) \<and>
   Parameters (fst (validate_ASGs h es st)) = Parameters (fst st) \<and>
   AddOnManagedNodeGroups (fst (validate_ASGs h es st)) = AddOnManagedNodeGroups (fst st) \<and>
   AddOnJobEcho (fst (validate_ASGs h es st)) = AddOnJobEcho (fst st) \<and>
   AddOnCronJob (fst (validate_ASGs h es st)) = AddOnCronJob (fst st) \<and>
   AddOnFargate (fst (validate_ASGs h es st)) = AddOnFargate (fst st)"
proof (induction es arbitrary: st)
  case Nil
  then show ?case by simp
next
  case (Cons e es)
  obtain k v where e: "e = (k, v)" by (cases e)
  obtain c names where st: "st = (c, names)" by (cases st)
  obtain st' r where b: "validate_ASG h k v (c, names) = (st', r)"
    by (cases "validate_ASG h k v (c, names)")
  have k: "Config.Name (fst st') = Config.Name c" "enabled (fst st') = enabled c"
    "output_paths (fst st') = output_paths c" "Parameters (fst st') = Parameters c"
    "AddOnManagedNodeGroups (fst st') = AddOnManagedNodeGroups c"
    "AddOnJobEcho (fst st') = AddOnJobEcho c" "AddOnCronJob (fst st') = AddOnCronJob c"
    "AddOnFargate (fst st') = AddOnFargate c"
    using validate_ASG_keeps [of h k v c names] b by simp_all
  show ?case
  proof (cases r)
    case None
    with Cons.IH [of st'] k e st b show ?thesis by simp
  next
    case (Some x)
    with k e st b show ?thesis by simp
  qed
qed

lemma NG_check_role_keeps:
  "AddOnNodeGroups.Enable (fst (NG_check_role name ng)) = AddOnNodeGroups.Enable ng"
  by (simp add: NG_check_role_def Let_def)

lemma validateAddOnNodeGroups_keeps:
  "Config.Name (fst (validateAddOnNodeGroups h c)) = Config.Name c"
  "enabled (fst (validateAddOnNodeGroups h c)) = enabled c"
  "output_paths (fst (validateAddOnNodeGroups h c)) = output_paths c"
  "AddOnJobEcho (fst (validateAddOnNodeGroups h c)) = AddOnJobEcho c"
  "AddOnCronJob (fst (validateAddOnNodeGroups h c)) = AddOnCronJob c"
  "AddOnFargate (fst (validateAddOnNodeGroups h c)) = AddOnFargate c"
proof -
  have u: "enabled (c\<lparr>AddOnNodeGroups := Some (fst (NG_check_role n (ng\<lparr>AddOnNodeGroups.LogsDir := l\<rparr>)))\<rparr>) = enabled c"
    "enabled (c\<lparr>AddOnNodeGroups := Some (fst (NG_check_role n ng))\<rparr>) = enabled c"
    if "AddOnNodeGroups c = Some ng" for n ng l
    using that by (simp_all add: enabled_addon_updates(1) [of c ng] NG_check_role_keeps)
  show "Config.Name (fst (validateAddOnNodeGroups h c)) = Config.Name c"
    "enabled (fst (validateAddOnNodeGroups h c)) = enabled c"
    "output_paths (fst (validateAddOnNodeGroups h c)) = output_paths c"
    "AddOnJobEcho (fst (validateAddOnNodeGroups h c)) = AddOnJobEcho c"
    "AddOnCronJob (fst (validateAddOnNodeGroups h c)) = AddOnCronJob c"
    "AddOnFargate (fst (validateAddOnNodeGroups h c)) = AddOnFargate c"
    by (auto simp: validateAddOnNodeGroups_def Let_def case_prod_beta validate_ASGs_keeps u
        output_paths_updates split: option.splits)
qed

lemma validate_MNG_keeps:
  "Config.Name (fst (fst (validate_MNG h k v (c, names)))) = Config.Name c"
  "enabled (fst (fst (validate_MNG h k v (c, names)))) = enabled c"
  "output_paths (fst (fst (validate_MNG h k v (c, names)))) = output_paths c"
  "Parameters (fst (fst (validate_MNG h k v (c, names)))) = Parameters c"
  "AddOnJobEcho (fst (fst (validate_MNG h k v (c, names)))) = AddOnJobEcho c"
  "AddOnCronJob (fst (fst (validate_MNG h k v (c, names)))) = AddOnCronJob c"
  "AddOnFargate (fst (fst (validate_MNG h k v (c, names)))) = AddOnFargate c"
  by (auto simp: validate_MNG_def Let_def raise_replicas_keeps enabled_addon_updates
      output_paths_updates split: option.splits prod.splits)

lemma validate_MNGs_keeps:
  "Config.Name (fst (validate_MNGs h es st)) = Config.Name (fst st) \<and>
   enabled (fst (validate_MNGs h es st)) = enabled (fst st) \<and>
   output_paths (fst (validate_MNGs h es st)) = output_paths (fst st) \<and>
   Parameters (fst (validate_MNGs h es st)) = Parameters (fst st) \<and>
   AddOnJobEcho (fst (validate_MNGs h es st)) = AddOnJobEcho (fst st) \<and>
   AddOnCronJob (fst (validate_MNGs h es st)) = AddOnCronJob (fst st) \<and>
   AddOnFargate (fst (validate_MNGs h es st)) = AddOnFargate (fst st)"
proof (induction es arbitrary: st)
  case Nil
  then show ?case by simp
next
  case (Cons e es)
  obtain k v where e: "e = (k, v)" by (cases e)
  obtain c names where st: "st = (c, names)" by (cases st)
  obtain st' r where b: "validate_MNG h k v (c, names) = (st', r)"
    by (cases "validate_MNG h k v (c, names)")
  have k: "Config.Name (fst st') = Config.Name c" "enabled (fst st') = enabled c"
    "output_paths (fst st') = output_paths c" "Parameters (fst st') = Parameters c"
    "AddOnJobEcho (fst st') = AddOnJobEcho c" "AddOnCronJob (fst st') = AddOnCronJob c"
    "AddOnFargate (fst st') = AddOnFargate c"
    using validate_MNG_keeps [of h k v c names] b by simp_all
  show ?case
  proof (cases r)
    case None
    with Cons.IH [of st'] k e st b show ?thesis by simp
  next
    case (Some x)
    with k e st b show ?thesis by simp
  qed
qed

lemma MNG_check_role_keeps:
  "AddOnManagedNodeGroups.Enable (fst (MNG_check_role name mng)) = AddOnManagedNodeGroups.Enable mng"
  by (simp add: MNG_check_role_def Let_def)

lemma validateAddOnManagedNodeGroups_keeps:
  "Config.Name (fst (validateAddOnManagedNodeGroups h c)) = Config.Name c"
  "enabled (fst (validateAddOnManagedNodeGroups h c)) = enabled c"
  "output_paths (fst (validateAddOnManagedNodeGroups h c)) = output_paths c"
  "AddOnJobEcho (fst (validateAddOnManagedNodeGroups h c)) = AddOnJobEcho c"
  "AddOnCronJob (fst (validateAddOnManagedNodeGroups h c)) = AddOnCronJob c"
  "AddOnFargate (fst (validateAddOnManagedNodeGroups h c)) = AddOnFargate c"
proof -
  have u: "enabled (c\<lparr>AddOnManagedNodeGroups :=
              Some (fst (MNG_check_role n (mng\<lparr>AddOnManagedNodeGroups.LogsDir := l\<rparr>)))\<rparr>) = enabled c"
    "enabled (c\<lparr>AddOnManagedNodeGroups := Some (fst (MNG_check_role n mng))\<rparr>) = enabled c"
    if "AddOnManagedNodeGroups c = Some mng" for n mng l
    using that by (simp_all add: enabled_addon_updates(2) [of c mng] MNG_check_role_keeps)
  show "Config.Name (fst (validateAddOnManagedNodeGroups h c)) = Config.Name c"
    "enabled (fst (validateAddOnManagedNodeGroups h c)) = enabled c"
    "output_paths (fst (validateAddOnManagedNodeGroups h c)) = output_paths c"
    "AddOnJobEcho (fst (validateAddOnManagedNodeGroups h c)) = AddOnJobEcho c"
    "AddOnCronJob (fst (validateAddOnManagedNodeGroups h c)) = AddOnCronJob c"
    "AddOnFargate (fst (validateAddOnManagedNodeGroups h c)) = AddOnFargate c"
    by (auto simp: validateAddOnManagedNodeGroups_def Let_def case_prod_beta
        validate_MNGs_keeps u output_paths_updates split: option.splits)
qed

text \<open>Every validator leaves the name and the enabled add-ons alone.\<close>

lemma validators_keep:
  assumes "(name, f) \<in> set (validators h)"
  shows "Config.Name (fst (f c)) = Config.Name c" and "enabled (fst (f c)) = enabled c"
  using assms
  by (auto simp: validators_def addon_validators_def validateConfig_keeps
      validateParameters_keeps validateAddOnNodeGroups_keeps
      validateAddOnManagedNodeGroups_keeps validateAddOnNLBHelloWorld_keeps
      validateAddOnALB2048_keeps validateAddOnJobPi_keeps validateAddOnJobEcho_keeps
      validateAddOnCronJob_keeps validateAddOnSecrets_keeps validateAddOnIRSA_keeps
      validateAddOnFargate_keeps validateAddOnAppMesh_keeps)

text \<open>The replacement by the empty string keeps the letters and digits, in their order.\<close>

lemma filter_dropWhile_not:
  "filter P (dropWhile (\<lambda>x. \<not> P x) s) = filter P s"
  by (induction s) simp_all

lemma secretRegex_removes:
  "secretRegex_ReplaceAllString s [] = filter alphanumeric s"
proof (induction s "[] :: string" rule: secretRegex_ReplaceAllString.induct)
  case 1
  then show ?case by simp
next
  case (2 c s)
  then show ?case by (simp add: filter_dropWhile_not)
qed

lemma lower_char_table:
  "\<forall>c \<in> set (lower_letters @ upper_letters @ digits). lower_char c \<in> set (lower_letters @ digits)"
  by code_simp

lemma lower_char_alphanumeric:
  assumes "alphanumeric c"
  shows "lower_char c \<in> set (lower_letters @ digits)"
  using assms lower_char_table unfolding alphanumeric_def by blast

lemma ToLower_secretRegex:
  "set (ToLower (secretRegex_ReplaceAllString s [])) \<subseteq> set (lower_letters @ digits)"
  unfolding secretRegex_removes ToLower_def
  using lower_char_alphanumeric by auto

text \<open>\<^verbatim>\<open>filepath.Ext\<close> of a path that ends with a dot and a word without dot or slash.\<close>

lemma ext_scan_word:
  assumes "CHR ''/'' \<notin> set e" and "CHR ''.'' \<notin> set e"
  shows "ext_scan (rev e @ CHR ''.'' # front) seen = CHR ''.'' # e @ seen"
  using assms
proof (induction e arbitrary: seen rule: rev_induct)
  case Nil
  then show ?case by simp
next
  case (snoc x xs)
  then show ?case by auto
qed

lemma Ext_word:
  assumes "CHR ''/'' \<notin> set e" and "CHR ''.'' \<notin> set e"
  shows "Ext (x @ CHR ''.'' # e) = CHR ''.'' # e"
  using ext_scan_word [OF assms, of "rev x" "[]"] by (simp add: Ext_def)

text \<open>What running the validators to the end without error says of one of them.\<close>

lemma run_validators_reach:
  assumes "snd (run_validators (xs @ (n, f) # ys) cfg) = None"
  shows "snd (run_validators xs cfg) = None"
    and "snd (f (fst (run_validators xs cfg))) = None"
    and "fst (run_validators (xs @ (n, f) # ys) cfg) =
           fst (run_validators ys (fst (f (fst (run_validators xs cfg)))))"
proof -
  obtain c1 r1 where a: "run_validators xs cfg = (c1, r1)" by (cases "run_validators xs cfg")
  obtain c2 r2 where b: "f c1 = (c2, r2)" by (cases "f c1")
  have r1: "r1 = None" using assms a by (cases r1) (simp_all add: run_validators_append)
  have r2: "r2 = None" using assms a b r1 by (cases r2) (simp_all add: run_validators_append)
  show "snd (run_validators xs cfg) = None" using a r1 by simp
  show "snd (f (fst (run_validators xs cfg))) = None" using a b r2 by simp
  show "fst (run_validators (xs @ (n, f) # ys) cfg) =
           fst (run_validators ys (fst (f (fst (run_validators xs cfg)))))"
    using a b r1 r2 by (simp add: run_validators_append)
qed

lemma ValidateAndSetDefaults_run:
  "snd (ValidateAndSetDefaults h cfg) = snd (run_validators (validators h) cfg)"
  "fst (ValidateAndSetDefaults h cfg) = fst (run_validators (validators h) cfg)"
  by (simp_all add: ValidateAndSetDefaults_def unsafeSync_def case_prod_beta)

lemma enabled_same:
  assumes "enabled c' = enabled c"
  shows "IsEnabledAddOnNodeGroups c' = IsEnabledAddOnNodeGroups c"
    and "IsEnabledAddOnManagedNodeGroups c' = IsEnabledAddOnManagedNodeGroups c"
    and "IsEnabledAddOnNLBHelloWorld c' = IsEnabledAddOnNLBHelloWorld c"
    and "IsEnabledAddOnALB2048 c' = IsEnabledAddOnALB2048 c"
    and "IsEnabledAddOnJobPi c' = IsEnabledAddOnJobPi c"
    and "IsEnabledAddOnJobEcho c' = IsEnabledAddOnJobEcho c"
    and "IsEnabledAddOnCronJob c' = IsEnabledAddOnCronJob c"
    and "IsEnabledAddOnSecrets c' = IsEnabledAddOnSecrets c"
    and "IsEnabledAddOnIRSA c' = IsEnabledAddOnIRSA c"
    and "IsEnabledAddOnFargate c' = IsEnabledAddOnFargate c"
    and "IsEnabledAddOnAppMesh c' = IsEnabledAddOnAppMesh c"
    and "no_node_group c' = no_node_group c"
    and "workload_enabled c' = workload_enabled c"
  using assms by (simp_all add: enabled_def no_node_group_def workload_enabled_def)

lemma validateAddOnFargate_result:
  assumes "IsEnabledAddOnFargate c" and "AddOnFargate c = Some a"
    and "snd (validateAddOnFargate h c) = None"
  shows "AddOnFargate (fst (validateAddOnFargate h c)) =
           Some (fst (Fargate_check_role (Config.Name c)
                        (default_Fargate_names h (Config.Name c) a)))"
  using assms
  by (auto simp: validateAddOnFargate_def case_prod_beta fails_def nil_dereference_def
      split: option.splits if_splits)

text \<open>
  C5. When the Fargate add-on is enabled and \<^verbatim>\<open>ValidateAndSetDefaults\<close> returns
  \<^verbatim>\<open>nil\<close>, the secret name of the add-on is, in lower case, what
  \<^verbatim>\<open>secretRegex.ReplaceAllString(_, "")\<close> leaves of the secret name given, or of the name
  of the cluster followed by \<^verbatim>\<open>addonfargatesecret\<close> when none was given: the ASCII
  letters and digits of that text, in their order, every other character removed. All
  its characters are lower-case letters or digits.
\<close>

theorem Fargate_SecretName:
  assumes "IsEnabledAddOnFargate cfg" and "AddOnFargate cfg = Some a"
    and "snd (ValidateAndSetDefaults h cfg) = None"
  shows "\<exists>a'. AddOnFargate (fst (ValidateAndSetDefaults h cfg)) = Some a'
           \<and> SecretName a' =
               ToLower (secretRegex_ReplaceAllString
                 (if SecretName a = [] then Config.Name cfg @ ''addonfargatesecret''
                  else SecretName a) [])
           \<and> SecretName a' =
               map lower_char (filter alphanumeric
                 (if SecretName a = [] then Config.Name cfg @ ''addonfargatesecret''
                  else SecretName a))
           \<and> set (SecretName a') \<subseteq> set (lower_letters @ digits)"
proof -
  define pre where "pre =
    [(''validateConfig'', validateConfig h),
     (''validateParameters'', validateParameters h),
     (''validateAddOnNodeGroups'', validateAddOnNodeGroups h),
     (''validateAddOnManagedNodeGroups'', validateAddOnManagedNodeGroups h),
     (''validateAddOnNLBHelloWorld'', validateAddOnNLBHelloWorld h),
     (''validateAddOnALB2048'', validateAddOnALB2048 h),
     (''validateAddOnJobPi'', validateAddOnJobPi h),
     (''validateAddOnJobEcho'', validateAddOnJobEcho h),
     (''validateAddOnCronJob'', validateAddOnCronJob h),
     (''validateAddOnSecrets'', validateAddOnSecrets h),
     (''validateAddOnIRSA'', validateAddOnIRSA h)]"
  define post where "post = [(''validateAddOnAppMesh'', validateAddOnAppMesh h)]"
  define c1 where "c1 = fst (run_validators pre cfg)"
  define c2 where "c2 = fst (validateAddOnFargate h c1)"
  have split: "validators h = pre @ (''validateAddOnFargate'', validateAddOnFargate h) # post"
    by (simp add: validators_def addon_validators_def pre_def post_def)
  have pre: "AddOnFargate (fst (f c)) = AddOnFargate c"
    "Config.Name (fst (f c)) = Config.Name c" "enabled (fst (f c)) = enabled c"
    if "(name, f) \<in> set pre" for name f c
    using that
    by (auto simp: pre_def validateConfig_keeps validateParameters_keeps
        validateAddOnNodeGroups_keeps validateAddOnManagedNodeGroups_keeps
        validateAddOnNLBHelloWorld_keeps validateAddOnALB2048_keeps validateAddOnJobPi_keeps
        validateAddOnJobEcho_keeps validateAddOnCronJob_keeps validateAddOnSecrets_keeps
        validateAddOnIRSA_keeps)
  have "AddOnFargate c1 = AddOnFargate cfg"
    unfolding c1_def by (rule run_validators_keeps [of pre AddOnFargate cfg], erule pre(1))
  moreover have "Config.Name c1 = Config.Name cfg"
    unfolding c1_def by (rule run_validators_keeps [of pre Config.Name cfg], erule pre(2))
  moreover have "enabled c1 = enabled cfg"
    unfolding c1_def by (rule run_validators_keeps [of pre enabled cfg], erule pre(3))
  ultimately have c1: "AddOnFargate c1 = Some a" "Config.Name c1 = Config.Name cfg"
    "enabled c1 = enabled cfg"
    using assms(2) by simp_all
  have on: "IsEnabledAddOnFargate c1" using enabled_same(10) [OF c1(3)] assms(1) by simp
  have run: "snd (run_validators (pre @ (''validateAddOnFargate'', validateAddOnFargate h) # post)
               cfg) = None"
    using assms(3) by (simp add: ValidateAndSetDefaults_run split)
  have ok: "snd (validateAddOnFargate h c1) = None"
    unfolding c1_def by (rule run_validators_reach(2) [OF run])
  have last: "fst (ValidateAndSetDefaults h cfg) = fst (run_validators post c2)"
    unfolding c2_def c1_def ValidateAndSetDefaults_run split
    by (rule run_validators_reach(3) [OF run])
  have post: "AddOnFargate (fst (f c)) = AddOnFargate c" if "(name, f) \<in> set post" for name f c
    using that by (auto simp: post_def validateAddOnAppMesh_keeps)
  have "AddOnFargate (fst (ValidateAndSetDefaults h cfg)) = AddOnFargate c2"
    unfolding last by (rule run_validators_keeps [of post AddOnFargate c2], erule post)
  also have "\<dots> = Some (fst (Fargate_check_role (Config.Name c1)
                        (default_Fargate_names h (Config.Name c1) a)))"
    unfolding c2_def using on c1(1) ok by (rule validateAddOnFargate_result)
  finally have r: "AddOnFargate (fst (ValidateAndSetDefaults h cfg)) =
      Some (fst (Fargate_check_role (Config.Name cfg)
                   (default_Fargate_names h (Config.Name cfg) a)))"
    by (simp add: c1(2))
  let ?a = "fst (Fargate_check_role (Config.Name cfg) (default_Fargate_names h (Config.Name cfg) a))"
  let ?s = "if SecretName a = [] then Config.Name cfg @ ''addonfargatesecret'' else SecretName a"
  have s: "SecretName ?a = ToLower (secretRegex_ReplaceAllString ?s [])"
    by (simp only: Fargate_check_role_keeps default_Fargate_names_keeps)
  have m: "SecretName ?a = map lower_char (filter alphanumeric ?s)"
    unfolding s by (simp only: secretRegex_removes ToLower_def)
  have l: "set (SecretName ?a) \<subseteq> set (lower_letters @ digits)"
    unfolding s by (rule ToLower_secretRegex)
  show ?thesis
    by (rule exI [of _ ?a], intro conjI, rule r, rule s, rule m, rule l)
qed

theorem Fargate_SecretName_witness:
  "IsEnabledAddOnFargate sample_Config
   \<and> snd (ValidateAndSetDefaults sample_host sample_Config) = None
   \<and> map_option SecretName (AddOnFargate (fst (ValidateAndSetDefaults sample_host sample_Config)))
       = Some ''mysecret1''"
proof -
  let ?a = "\<lparr>AddOnFargate.Enable = True, AddOnFargate.Namespace = [], ProfileName = [],
              SecretName = ''My-Secret_1'', PodName = [], ContainerName = [],
              AddOnFargate.RoleCreate = True, AddOnFargate.RoleName = [],
              AddOnFargate.RoleARN = [], AddOnFargate.RoleServicePrincipals = [],
              AddOnFargate.RoleManagedPolicyARNs = []\<rparr>"
  have a: "IsEnabledAddOnFargate sample_Config" by code_simp
  have b: "AddOnFargate sample_Config = Some ?a" by (simp add: sample_Config_def)
  have c: "snd (ValidateAndSetDefaults sample_host sample_Config) = None" by code_simp
  have d: "ToLower (secretRegex_ReplaceAllString
             (if SecretName ?a = [] then Config.Name sample_Config @ ''addonfargatesecret''
              else SecretName ?a) []) = ''mysecret1''"
    by code_simp
  from Fargate_SecretName [OF a b c] d a c show ?thesis by auto
qed

text \<open>The error that the validators return starts with the name of the one that failed.\<close>

lemma run_validators_error_name:
  assumes "snd (run_validators vs cfg) = Some (returns_error e)"
  shows "\<exists>n t. n \<in> fst ` set vs \<and> error_text e = n @ '' failed ['' @ t"
  using assms
proof (induction vs arbitrary: cfg)
  case Nil
  then show ?case by simp
next
  case (Cons v vs)
  obtain name f where v: "v = (name, f)" by (cases v)
  obtain c r where p: "f cfg = (c, r)" by (cases "f cfg")
  show ?case
  proof (cases r)
    case None
    then have "snd (run_validators vs c) = Some (returns_error e)"
      using Cons.prems v p by simp
    from Cons.IH [OF this] show ?thesis by auto
  next
    case (Some x)
    then have w: "wrapped name x = returns_error e" using Cons.prems v p by simp
    then obtain err where "x = returns_error err"
      and "e = errorString (name @ '' failed ['' @ error_text err @ '']'')"
      by (cases x) (auto simp: wrapped_def)
    then have "error_text e = name @ '' failed ['' @ (error_text err @ '']'')" by simp
    then show ?thesis using v by fastforce
  qed
qed

lemma validator_in_sequence:
  assumes split: "vs = pre @ (n, f) # post"
    and other: "\<And>m t. m \<in> fst ` set pre \<union> fst ` set post \<Longrightarrow>
                  \<not> HasPrefix (m @ '' failed ['' @ t) (n @ '' failed ['')"
  shows "snd (f (fst (run_validators pre cfg))) \<noteq> None \<Longrightarrow> snd (run_validators vs cfg) \<noteq> None"
    and "snd (f (fst (run_validators pre cfg))) = None \<Longrightarrow>
         snd (run_validators vs cfg) = Some (returns_error e) \<Longrightarrow>
         \<not> HasPrefix (error_text e) (n @ '' failed ['')"
proof -
  obtain c1 r1 where a: "run_validators pre cfg = (c1, r1)" by (cases "run_validators pre cfg")
  obtain c2 r2 where b: "f c1 = (c2, r2)" by (cases "f c1")
  show "snd (run_validators vs cfg) \<noteq> None" if "snd (f (fst (run_validators pre cfg))) \<noteq> None"
    using that a b by (cases r1; cases r2) (simp_all add: split run_validators_append)
  show "\<not> HasPrefix (error_text e) (n @ '' failed ['')"
    if ok: "snd (f (fst (run_validators pre cfg))) = None"
      and err: "snd (run_validators vs cfg) = Some (returns_error e)"
  proof (cases r1)
    case None
    then have "snd (run_validators post c2) = Some (returns_error e)"
      using ok err a b by (simp add: split run_validators_append)
    from run_validators_error_name [OF this]
    obtain m t where "m \<in> fst ` set post" and "error_text e = m @ '' failed ['' @ t"
      by blast
    then show ?thesis using other [of m t] by simp
  next
    case (Some x)
    then have "snd (run_validators pre cfg) = Some (returns_error e)"
      using err a by (simp add: split run_validators_append)
    from run_validators_error_name [OF this]
    obtain m t where "m \<in> fst ` set pre" and "error_text e = m @ '' failed ['' @ t"
      by blast
    then show ?thesis using other [of m t] by simp
  qed
qed

lemma validateAddOnJobEcho_result:
  assumes "IsEnabledAddOnJobEcho c" and "\<not> no_node_group c" and "AddOnJobEcho c = Some a"
  shows "snd (validateAddOnJobEcho h c) =
           (if AddOnJobEcho.EchoSize a > 250000 then fails ''echo size limit is 0.25 MB'' else None)"
  using assms by (simp add: validateAddOnJobEcho_def Let_def)

lemma validateAddOnCronJob_result:
  assumes "IsEnabledAddOnCronJob c" and "\<not> no_node_group c" and "AddOnCronJob c = Some a"
  shows "snd (validateAddOnCronJob h c) =
           (if AddOnCronJob.EchoSize a > 250000 then fails ''echo size limit is 0.25 MB'' else None)"
  using assms by (simp add: validateAddOnCronJob_def Let_def)

lemma before_JobEcho:
  "validators h =
     [(''validateConfig'', validateConfig h),
      (''validateParameters'', validateParameters h),
      (''validateAddOnNodeGroups'', validateAddOnNodeGroups h),
      (''validateAddOnManagedNodeGroups'', validateAddOnManagedNodeGroups h),
      (''validateAddOnNLBHelloWorld'', validateAddOnNLBHelloWorld h),
      (''validateAddOnALB2048'', validateAddOnALB2048 h),
      (''validateAddOnJobPi'', validateAddOnJobPi h)]
     @ (''validateAddOnJobEcho'', validateAddOnJobEcho h) #
     [(''validateAddOnCronJob'', validateAddOnCronJob h),
      (''validateAddOnSecrets'', validateAddOnSecrets h),
      (''validateAddOnIRSA'', validateAddOnIRSA h),
      (''validateAddOnFargate'', validateAddOnFargate h),
      (''validateAddOnAppMesh'', validateAddOnAppMesh h)]"
  by (simp add: validators_def addon_validators_def)

lemma before_CronJob:
  "validators h =
     [(''validateConfig'', validateConfig h),
      (''validateParameters'', validateParameters h),
      (''validateAddOnNodeGroups'', validateAddOnNodeGroups h),
      (''validateAddOnManagedNodeGroups'', validateAddOnManagedNodeGroups h),
      (''validateAddOnNLBHelloWorld'', validateAddOnNLBHelloWorld h),
      (''validateAddOnALB2048'', validateAddOnALB2048 h),
      (''validateAddOnJobPi'', validateAddOnJobPi h),
      (''validateAddOnJobEcho'', validateAddOnJobEcho h)]
     @ (''validateAddOnCronJob'', validateAddOnCronJob h) #
     [(''validateAddOnSecrets'', validateAddOnSecrets h),
      (''validateAddOnIRSA'', validateAddOnIRSA h),
      (''validateAddOnFargate'', validateAddOnFargate h),
      (''validateAddOnAppMesh'', validateAddOnAppMesh h)]"
  by (simp add: validators_def addon_validators_def)

lemma JobEcho_reached:
  assumes "IsEnabledAddOnJobEcho cfg" and "\<not> no_node_group cfg" and "AddOnJobEcho cfg = Some a"
  shows "snd (validateAddOnJobEcho h (fst (run_validators
           [(''validateConfig'', validateConfig h),
            (''validateParameters'', validateParameters h),
            (''validateAddOnNodeGroups'', validateAddOnNodeGroups h),
            (''validateAddOnManagedNodeGroups'', validateAddOnManagedNodeGroups h),
            (''validateAddOnNLBHelloWorld'', validateAddOnNLBHelloWorld h),
            (''validateAddOnALB2048'', validateAddOnALB2048 h),
            (''validateAddOnJobPi'', validateAddOnJobPi h)] cfg))) =
         (if AddOnJobEcho.EchoSize a > 250000 then fails ''echo size limit is 0.25 MB'' else None)"
    (is "snd (validateAddOnJobEcho h (fst (run_validators ?pre cfg))) = _")
proof -
  have pre: "AddOnJobEcho (fst (f c)) = AddOnJobEcho c" "enabled (fst (f c)) = enabled c"
    if "(name, f) \<in> set ?pre" for name f c
    using that
    by (auto simp: validateConfig_keeps validateParameters_keeps
        validateAddOnNodeGroups_keeps validateAddOnManagedNodeGroups_keeps
        validateAddOnNLBHelloWorld_keeps validateAddOnALB2048_keeps validateAddOnJobPi_keeps)
  have 1: "AddOnJobEcho (fst (run_validators ?pre cfg)) = AddOnJobEcho cfg"
    by (rule run_validators_keeps [of ?pre AddOnJobEcho cfg], erule pre(1))
  have 2: "enabled (fst (run_validators ?pre cfg)) = enabled cfg"
    by (rule run_validators_keeps [of ?pre enabled cfg], erule pre(2))
  have a: "IsEnabledAddOnJobEcho (fst (run_validators ?pre cfg))"
    unfolding enabled_same(6) [OF 2] by (rule assms(1))
  have b: "\<not> no_node_group (fst (run_validators ?pre cfg))"
    unfolding enabled_same(12) [OF 2] by (rule assms(2))
  have c: "AddOnJobEcho (fst (run_validators ?pre cfg)) = Some a"
    unfolding 1 by (rule assms(3))
  show ?thesis by (rule validateAddOnJobEcho_result [OF a b c])
qed

lemma CronJob_reached:
  assumes "IsEnabledAddOnCronJob cfg" and "\<not> no_node_group cfg" and "AddOnCronJob cfg = Some a"
  shows "snd (validateAddOnCronJob h (fst (run_validators
           [(''validateConfig'', validateConfig h),
            (''validateParameters'', validateParameters h),
            (''validateAddOnNodeGroups'', validateAddOnNodeGroups h),
            (''validateAddOnManagedNodeGroups'', validateAddOnManagedNodeGroups h),
            (''validateAddOnNLBHelloWorld'', validateAddOnNLBHelloWorld h),
            (''validateAddOnALB2048'', validateAddOnALB2048 h),
            (''validateAddOnJobPi'', validateAddOnJobPi h),
            (''validateAddOnJobEcho'', validateAddOnJobEcho h)] cfg))) =
         (if AddOnCronJob.EchoSize a > 250000 then fails ''echo size limit is 0.25 MB'' else None)"
    (is "snd (validateAddOnCronJob h (fst (run_validators ?pre cfg))) = _")
proof -
  have pre: "AddOnCronJob (fst (f c)) = AddOnCronJob c" "enabled (fst (f c)) = enabled c"
    if "(name, f) \<in> set ?pre" for name f c
    using that
    by (auto simp: validateConfig_keeps validateParameters_keeps
        validateAddOnNodeGroups_keeps validateAddOnManagedNodeGroups_keeps
        validateAddOnNLBHelloWorld_keeps validateAddOnALB2048_keeps validateAddOnJobPi_keeps
        validateAddOnJobEcho_keeps)
  have 1: "AddOnCronJob (fst (run_validators ?pre cfg)) = AddOnCronJob cfg"
    by (rule run_validators_keeps [of ?pre AddOnCronJob cfg], erule pre(1))
  have 2: "enabled (fst (run_validators ?pre cfg)) = enabled cfg"
    by (rule run_validators_keeps [of ?pre enabled cfg], erule pre(2))
  have a: "IsEnabledAddOnCronJob (fst (run_validators ?pre cfg))"
    unfolding enabled_same(7) [OF 2] by (rule assms(1))
  have b: "\<not> no_node_group (fst (run_validators ?pre cfg))"
    unfolding enabled_same(12) [OF 2] by (rule assms(2))
  have c: "AddOnCronJob (fst (run_validators ?pre cfg)) = Some a"
    unfolding 1 by (rule assms(3))
  show ?thesis by (rule validateAddOnCronJob_result [OF a b c])
qed

lemma returns_or_panics:
  assumes "r \<noteq> None" and "\<forall>m. r \<noteq> Some (panics m)"
  shows "\<exists>e. r = Some (returns_error e)"
proof -
  from assms(1) obtain x where x: "r = Some x" by auto
  with assms(2) show ?thesis by (cases x) auto
qed

text \<open>
  C6. Take a configuration with a node group enabled on which \<^verbatim>\<open>ValidateAndSetDefaults\<close>
  does not panic. With the echo job enabled and an \<^verbatim>\<open>EchoSize\<close> over 250000 it returns an
  error; with an \<^verbatim>\<open>EchoSize\<close> of at most 250000 the error it returns, if any, is not the
  one of \<^verbatim>\<open>validateAddOnJobEcho\<close> (whose text starts with the name of that validator):
  another check failed. The same holds of the cron job and \<^verbatim>\<open>validateAddOnCronJob\<close>.
\<close>

theorem EchoSize_limit:
  assumes "\<not> no_node_group cfg"
    and "\<forall>m. snd (ValidateAndSetDefaults h cfg) \<noteq> Some (panics m)"
  shows "(IsEnabledAddOnJobEcho cfg \<and> AddOnJobEcho cfg = Some a \<longrightarrow>
            (if AddOnJobEcho.EchoSize a > 250000
             then \<exists>e. snd (ValidateAndSetDefaults h cfg) = Some (returns_error e)
             else \<forall>e. snd (ValidateAndSetDefaults h cfg) = Some (returns_error e) \<longrightarrow>
                    \<not> HasPrefix (error_text e) ''validateAddOnJobEcho failed [''))
       \<and> (IsEnabledAddOnCronJob cfg \<and> AddOnCronJob cfg = Some b \<longrightarrow>
            (if AddOnCronJob.EchoSize b > 250000
             then \<exists>e. snd (ValidateAndSetDefaults h cfg) = Some (returns_error e)
             else \<forall>e. snd (ValidateAndSetDefaults h cfg) = Some (returns_error e) \<longrightarrow>
                    \<not> HasPrefix (error_text e) ''validateAddOnCronJob failed [''))"
proof (intro conjI impI; elim conjE)
  assume on: "IsEnabledAddOnJobEcho cfg" and a: "AddOnJobEcho cfg = Some a"
  note reached = JobEcho_reached [OF on assms(1) a, where h = h]
  have other: "\<not> HasPrefix (m @ '' failed ['' @ t) (''validateAddOnJobEcho'' @ '' failed ['')"
    if "m \<in> fst ` set
           [(''validateConfig'', validateConfig h),
            (''validateParameters'', validateParameters h),
            (''validateAddOnNodeGroups'', validateAddOnNodeGroups h),
            (''validateAddOnManagedNodeGroups'', validateAddOnManagedNodeGroups h),
            (''validateAddOnNLBHelloWorld'', validateAddOnNLBHelloWorld h),
            (''validateAddOnALB2048'', validateAddOnALB2048 h),
            (''validateAddOnJobPi'', validateAddOnJobPi h)]
         \<union> fst ` set
           [(''validateAddOnCronJob'', validateAddOnCronJob h),
            (''validateAddOnSecrets'', validateAddOnSecrets h),
            (''validateAddOnIRSA'', validateAddOnIRSA h),
            (''validateAddOnFargate'', validateAddOnFargate h),
            (''validateAddOnAppMesh'', validateAddOnAppMesh h)]" for m t
    using that by (auto simp: HasPrefix_def)
  note seq = validator_in_sequence [OF before_JobEcho other, where cfg = cfg]
  show "if AddOnJobEcho.EchoSize a > 250000
        then \<exists>e. snd (ValidateAndSetDefaults h cfg) = Some (returns_error e)
        else \<forall>e. snd (ValidateAndSetDefaults h cfg) = Some (returns_error e) \<longrightarrow>
               \<not> HasPrefix (error_text e) ''validateAddOnJobEcho failed [''"
  proof (cases "AddOnJobEcho.EchoSize a > 250000")
    case True
    then have "snd (ValidateAndSetDefaults h cfg) \<noteq> None"
      unfolding ValidateAndSetDefaults_run using seq(1) reached by (simp add: fails_def)
    from returns_or_panics [OF this assms(2)] True show ?thesis by simp
  next
    case False
    then show ?thesis
      unfolding ValidateAndSetDefaults_run using seq(2) reached by simp
  qed
next
  assume on: "IsEnabledAddOnCronJob cfg" and b: "AddOnCronJob cfg = Some b"
  note reached = CronJob_reached [OF on assms(1) b, where h = h]
  have other: "\<not> HasPrefix (m @ '' failed ['' @ t) (''validateAddOnCronJob'' @ '' failed ['')"
    if "m \<in> fst ` set
           [(''validateConfig'', validateConfig h),
            (''validateParameters'', validateParameters h),
            (''validateAddOnNodeGroups'', validateAddOnNodeGroups h),
            (''validateAddOnManagedNodeGroups'', validateAddOnManagedNodeGroups h),
            (''validateAddOnNLBHelloWorld'', validateAddOnNLBHelloWorld h),
            (''validateAddOnALB2048'', validateAddOnALB2048 h),
            (''validateAddOnJobPi'', validateAddOnJobPi h),
            (''validateAddOnJobEcho'', validateAddOnJobEcho h)]
         \<union> fst ` set
           [(''validateAddOnSecrets'', validateAddOnSecrets h),
            (''validateAddOnIRSA'', validateAddOnIRSA h),
            (''validateAddOnFargate'', validateAddOnFargate h),
            (''validateAddOnAppMesh'', validateAddOnAppMesh h)]" for m t
    using that by (auto simp: HasPrefix_def)
  note seq = validator_in_sequence [OF before_CronJob other, where cfg = cfg]
  show "if AddOnCronJob.EchoSize b > 250000
        then \<exists>e. snd (ValidateAndSetDefaults h cfg) = Some (returns_error e)
        else \<forall>e. snd (ValidateAndSetDefaults h cfg) = Some (returns_error e) \<longrightarrow>
               \<not> HasPrefix (error_text e) ''validateAddOnCronJob failed [''"
  proof (cases "AddOnCronJob.EchoSize b > 250000")
    case True
    then have "snd (ValidateAndSetDefaults h cfg) \<noteq> None"
      unfolding ValidateAndSetDefaults_run using seq(1) reached by (simp add: fails_def)
    from returns_or_panics [OF this assms(2)] True show ?thesis by simp
  next
    case False
    then show ?thesis
      unfolding ValidateAndSetDefaults_run using seq(2) reached by simp
  qed
qed

theorem EchoSize_limit_witness:
  "\<not> no_node_group large_JobEcho_Config \<and> IsEnabledAddOnJobEcho large_JobEcho_Config
   \<and> snd (ValidateAndSetDefaults sample_host large_JobEcho_Config) =
       Some (returns_error (errorString
         ''validateAddOnJobEcho failed [echo size limit is 0.25 MB]''))
   \<and> \<not> no_node_group large_CronJob_Config \<and> IsEnabledAddOnCronJob large_CronJob_Config
   \<and> snd (ValidateAndSetDefaults sample_host large_CronJob_Config) =
       Some (returns_error (errorString
         ''validateAddOnCronJob failed [echo size limit is 0.25 MB]''))
   \<and> \<not> no_node_group sample_Config \<and> IsEnabledAddOnJobEcho sample_Config
   \<and> IsEnabledAddOnCronJob sample_Config
   \<and> map_option AddOnJobEcho.EchoSize (AddOnJobEcho sample_Config) = Some 100
   \<and> map_option AddOnCronJob.EchoSize (AddOnCronJob sample_Config) = Some 250000
   \<and> snd (ValidateAndSetDefaults sample_host sample_Config) = None"
proof -
  let ?small = "\<lparr>AddOnJobEcho.Enable = True, AddOnJobEcho.Namespace = [],
                 AddOnJobEcho.EchoSize = 100\<rparr>"
  let ?large = "\<lparr>AddOnJobEcho.Enable = True, AddOnJobEcho.Namespace = [],
                 AddOnJobEcho.EchoSize = 250001\<rparr>"
  let ?cron = "\<lparr>AddOnCronJob.Enable = True, AddOnCronJob.Namespace = [],
                AddOnCronJob.EchoSize = 250000\<rparr>"
  let ?large_cron = "\<lparr>AddOnCronJob.Enable = True, AddOnCronJob.Namespace = [],
                      AddOnCronJob.EchoSize = 250001\<rparr>"
  have n1: "\<not> no_node_group large_JobEcho_Config" by code_simp
  have e1: "IsEnabledAddOnJobEcho large_JobEcho_Config" by code_simp
  have a1: "AddOnJobEcho large_JobEcho_Config = Some ?large"
    by (simp add: large_JobEcho_Config_def)
  have r1: "snd (ValidateAndSetDefaults sample_host large_JobEcho_Config) =
       Some (returns_error (errorString
         ''validateAddOnJobEcho failed [echo size limit is 0.25 MB]''))"
    by code_simp
  have p1: "\<forall>m. snd (ValidateAndSetDefaults sample_host large_JobEcho_Config) \<noteq> Some (panics m)"
    unfolding r1 by simp
  have n2: "\<not> no_node_group large_CronJob_Config" by code_simp
  have e2: "IsEnabledAddOnCronJob large_CronJob_Config" by code_simp
  have a2: "AddOnCronJob large_CronJob_Config = Some ?large_cron"
    by (simp add: large_CronJob_Config_def)
  have r2: "snd (ValidateAndSetDefaults sample_host large_CronJob_Config) =
       Some (returns_error (errorString
         ''validateAddOnCronJob failed [echo size limit is 0.25 MB]''))"
    by code_simp
  have p2: "\<forall>m. snd (ValidateAndSetDefaults sample_host large_CronJob_Config) \<noteq> Some (panics m)"
    unfolding r2 by simp
  have n3: "\<not> no_node_group sample_Config" by code_simp
  have e3: "IsEnabledAddOnJobEcho sample_Config" "IsEnabledAddOnCronJob sample_Config"
    by code_simp+
  have a3: "AddOnJobEcho sample_Config = Some ?small" "AddOnCronJob sample_Config = Some ?cron"
    by (simp_all add: sample_Config_def)
  have r3: "snd (ValidateAndSetDefaults sample_host sample_Config) = None" by code_simp
  have p3: "\<forall>m. snd (ValidateAndSetDefaults sample_host sample_Config) \<noteq> Some (panics m)"
    unfolding r3 by simp
  from EchoSize_limit [OF n1 p1, of ?large ?cron] e1 a1
  have "\<exists>e. snd (ValidateAndSetDefaults sample_host large_JobEcho_Config) = Some (returns_error e)"
    by simp
  moreover from EchoSize_limit [OF n2 p2, of ?small ?large_cron] e2 a2
  have "\<exists>e. snd (ValidateAndSetDefaults sample_host large_CronJob_Config) = Some (returns_error e)"
    by simp
  moreover from EchoSize_limit [OF n3 p3, of ?small ?cron] e3 a3
  have "\<forall>e. snd (ValidateAndSetDefaults sample_host sample_Config) = Some (returns_error e) \<longrightarrow>
          \<not> HasPrefix (error_text e) ''validateAddOnJobEcho failed [''"
    by simp
  ultimately show ?thesis
    using n1 e1 r1 n2 e2 r2 n3 e3 r3 by (simp add: a3)
qed

text \<open>What each of the nine statements on the output paths does to the six paths.\<close>

lemma default_KubectlCommandsOutputPath_paths:
  "ConfigPath (default_KubectlCommandsOutputPath c) = ConfigPath c"
  "KubeConfigPath (default_KubectlCommandsOutputPath c) = KubeConfigPath c"
  "KubectlCommandsOutputPath (default_KubectlCommandsOutputPath c) =
     (if KubectlCommandsOutputPath c = [] then ReplaceAll (ConfigPath c) ''.yaml'' [] @ ''.kubectl.sh'' else KubectlCommandsOutputPath c)"
  "RemoteAccessCommandsOutputPath (default_KubectlCommandsOutputPath c) = RemoteAccessCommandsOutputPath c"
  "CommandAfterCreateClusterOutputPath (default_KubectlCommandsOutputPath c) = CommandAfterCreateClusterOutputPath c"
  "CommandAfterCreateAddOnsOutputPath (default_KubectlCommandsOutputPath c) = CommandAfterCreateAddOnsOutputPath c"
  by (simp_all add: default_KubectlCommandsOutputPath_def)

lemma sh_KubectlCommandsOutputPath_paths:
  "ConfigPath (sh_KubectlCommandsOutputPath c) = ConfigPath c"
  "KubeConfigPath (sh_KubectlCommandsOutputPath c) = KubeConfigPath c"
  "KubectlCommandsOutputPath (sh_KubectlCommandsOutputPath c) =
     (if Ext (KubectlCommandsOutputPath c) \<noteq> ''.sh'' then KubectlCommandsOutputPath c @ ''.sh'' else KubectlCommandsOutputPath c)"
  "RemoteAccessCommandsOutputPath (sh_KubectlCommandsOutputPath c) = RemoteAccessCommandsOutputPath c"
  "CommandAfterCreateClusterOutputPath (sh_KubectlCommandsOutputPath c) = CommandAfterCreateClusterOutputPath c"
  "CommandAfterCreateAddOnsOutputPath (sh_KubectlCommandsOutputPath c) = CommandAfterCreateAddOnsOutputPath c"
  by (simp_all add: sh_KubectlCommandsOutputPath_def)

lemma default_RemoteAccessCommandsOutputPath_paths:
  "ConfigPath (default_RemoteAccessCommandsOutputPath c) = ConfigPath c"
  "KubeConfigPath (default_RemoteAccessCommandsOutputPath c) = KubeConfigPath c"
  "KubectlCommandsOutputPath (default_RemoteAccessCommandsOutputPath c) = KubectlCommandsOutputPath c"
  "RemoteAccessCommandsOutputPath (default_RemoteAccessCommandsOutputPath c) =
     (if RemoteAccessCommandsOutputPath c = [] then ReplaceAll (ConfigPath c) ''.yaml'' [] @ ''.ssh.sh'' else RemoteAccessCommandsOutputPath c)"
  "CommandAfterCreateClusterOutputPath (default_RemoteAccessCommandsOutputPath c) = CommandAfterCreateClusterOutputPath c"
  "CommandAfterCreateAddOnsOutputPath (default_RemoteAccessCommandsOutputPath c) = CommandAfterCreateAddOnsOutputPath c"
  by (simp_all add: default_RemoteAccessCommandsOutputPath_def)

lemma sh_RemoteAccessCommandsOutputPath_paths:
  "ConfigPath (sh_RemoteAccessCommandsOutputPath c) = ConfigPath c"
  "KubeConfigPath (sh_RemoteAccessCommandsOutputPath c) = KubeConfigPath c"
  "KubectlCommandsOutputPath (sh_RemoteAccessCommandsOutputPath c) = KubectlCommandsOutputPath c"
  "RemoteAccessCommandsOutputPath (sh_RemoteAccessCommandsOutputPath c) =
     (if Ext (RemoteAccessCommandsOutputPath c) \<noteq> ''.sh'' then RemoteAccessCommandsOutputPath c @ ''.sh'' else RemoteAccessCommandsOutputPath c)"
  "CommandAfterCreateClusterOutputPath (sh_RemoteAccessCommandsOutputPath c) = CommandAfterCreateClusterOutputPath c"
  "CommandAfterCreateAddOnsOutputPath (sh_RemoteAccessCommandsOutputPath c) = CommandAfterCreateAddOnsOutputPath c"
  by (simp_all add: sh_RemoteAccessCommandsOutputPath_def)

lemma default_CommandAfterCreateClusterOutputPath_paths:
  "ConfigPath (default_CommandAfterCreateClusterOutputPath c) = ConfigPath c"
  "KubeConfigPath (default_CommandAfterCreateClusterOutputPath c) = KubeConfigPath c"
  "KubectlCommandsOutputPath (default_CommandAfterCreateClusterOutputPath c) = KubectlCommandsOutputPath c"
  "RemoteAccessCommandsOutputPath (default_CommandAfterCreateClusterOutputPath c) = RemoteAccessCommandsOutputPath c"
  "CommandAfterCreateClusterOutputPath (default_CommandAfterCreateClusterOutputPath c) =
     (if CommandAfterCreateClusterOutputPath c = [] then ReplaceAll (ConfigPath c) ''.yaml'' [] @ ''.after-create-cluster.out.log'' else CommandAfterCreateClusterOutputPath c)"
  "CommandAfterCreateAddOnsOutputPath (default_CommandAfterCreateClusterOutputPath c) = CommandAfterCreateAddOnsOutputPath c"
  by (simp_all add: default_CommandAfterCreateClusterOutputPath_def)

lemma log_CommandAfterCreateClusterOutputPath_paths:
  "ConfigPath (log_CommandAfterCreateClusterOutputPath c) = ConfigPath c"
  "KubeConfigPath (log_CommandAfterCreateClusterOutputPath c) = KubeConfigPath c"
  "KubectlCommandsOutputPath (log_CommandAfterCreateClusterOutputPath c) = KubectlCommandsOutputPath c"
  "RemoteAccessCommandsOutputPath (log_CommandAfterCreateClusterOutputPath c) = RemoteAccessCommandsOutputPath c"
  "CommandAfterCreateClusterOutputPath (log_CommandAfterCreateClusterOutputPath c) =
     (if Ext (CommandAfterCreateClusterOutputPath c) \<noteq> ''.log'' then CommandAfterCreateClusterOutputPath c @ ''.log'' else CommandAfterCreateClusterOutputPath c)"
  "CommandAfterCreateAddOnsOutputPath (log_CommandAfterCreateClusterOutputPath c) = CommandAfterCreateAddOnsOutputPath c"
  by (simp_all add: log_CommandAfterCreateClusterOutputPath_def)

lemma default_CommandAfterCreateAddOnsOutputPath_paths:
  "ConfigPath (default_CommandAfterCreateAddOnsOutputPath c) = ConfigPath c"
  "KubeConfigPath (default_CommandAfterCreateAddOnsOutputPath c) = KubeConfigPath c"
  "KubectlCommandsOutputPath (default_CommandAfterCreateAddOnsOutputPath c) = KubectlCommandsOutputPath c"
  "RemoteAccessCommandsOutputPath (default_CommandAfterCreateAddOnsOutputPath c) = RemoteAccessCommandsOutputPath c"
  "CommandAfterCreateClusterOutputPath (default_CommandAfterCreateAddOnsOutputPath c) = CommandAfterCreateClusterOutputPath c"
  "CommandAfterCreateAddOnsOutputPath (default_CommandAfterCreateAddOnsOutputPath c) =
     (if CommandAfterCreateAddOnsOutputPath c = [] then ReplaceAll (ConfigPath c) ''.yaml'' [] @ ''.after-create-add-ons.out.log'' else CommandAfterCreateAddOnsOutputPath c)"
  by (simp_all add: default_CommandAfterCreateAddOnsOutputPath_def)

lemma log_CommandAfterCreateAddOnsOutputPath_paths:
  "ConfigPath (log_CommandAfterCreateAddOnsOutputPath c) = ConfigPath c"
  "KubeConfigPath (log_CommandAfterCreateAddOnsOutputPath c) = KubeConfigPath c"
  "KubectlCommandsOutputPath (log_CommandAfterCreateAddOnsOutputPath c) = KubectlCommandsOutputPath c"
  "RemoteAccessCommandsOutputPath (log_CommandAfterCreateAddOnsOutputPath c) = RemoteAccessCommandsOutputPath c"
  "CommandAfterCreateClusterOutputPath (log_CommandAfterCreateAddOnsOutputPath c) = CommandAfterCreateClusterOutputPath c"
  "CommandAfterCreateAddOnsOutputPath (log_CommandAfterCreateAddOnsOutputPath c) =
     (if Ext (CommandAfterCreateAddOnsOutputPath c) \<noteq> ''.log'' then CommandAfterCreateAddOnsOutputPath c @ ''.log'' else CommandAfterCreateAddOnsOutputPath c)"
  by (simp_all add: log_CommandAfterCreateAddOnsOutputPath_def)

lemma default_KubeConfigPath_paths:
  "ConfigPath (default_KubeConfigPath c) = ConfigPath c"
  "KubeConfigPath (default_KubeConfigPath c) =
     (if KubeConfigPath c = [] then ReplaceAll (ConfigPath c) ''.yaml'' [] @ ''.kubeconfig.yaml'' else KubeConfigPath c)"
  "KubectlCommandsOutputPath (default_KubeConfigPath c) = KubectlCommandsOutputPath c"
  "RemoteAccessCommandsOutputPath (default_KubeConfigPath c) = RemoteAccessCommandsOutputPath c"
  "CommandAfterCreateClusterOutputPath (default_KubeConfigPath c) = CommandAfterCreateClusterOutputPath c"
  "CommandAfterCreateAddOnsOutputPath (default_KubeConfigPath c) = CommandAfterCreateAddOnsOutputPath c"
  by (simp_all add: default_KubeConfigPath_def)

lemmas output_path_steps =
  default_KubectlCommandsOutputPath_paths
  sh_KubectlCommandsOutputPath_paths
  default_RemoteAccessCommandsOutputPath_paths
  sh_RemoteAccessCommandsOutputPath_paths
  default_CommandAfterCreateClusterOutputPath_paths
  log_CommandAfterCreateClusterOutputPath_paths
  default_CommandAfterCreateAddOnsOutputPath_paths
  log_CommandAfterCreateAddOnsOutputPath_paths
  default_KubeConfigPath_paths

lemma Ext_defaults:
  "Ext (s @ ''.kubectl.sh'') = ''.sh''"
  "Ext (s @ ''.ssh.sh'') = ''.sh''"
  "Ext (s @ ''.after-create-cluster.out.log'') = ''.log''"
  "Ext (s @ ''.after-create-add-ons.out.log'') = ''.log''"
  using Ext_word [of "''sh''" "s @ ''.kubectl''"] Ext_word [of "''sh''" "s @ ''.ssh''"]
    Ext_word [of "''log''" "s @ ''.after-create-cluster.out''"]
    Ext_word [of "''log''" "s @ ''.after-create-add-ons.out''"]
  by simp_all

lemma in_order_assign:
  "in_order (assign f # stmts) c = in_order stmts (f c)"
  by (simp add: assign_def)

text \<open>The nine statements together.\<close>

lemma output_path_statements_paths:
  "snd (in_order output_path_statements c) = None"
  "ConfigPath (fst (in_order output_path_statements c)) = ConfigPath c"
  "KubeConfigPath (fst (in_order output_path_statements c)) =
     (if KubeConfigPath c = [] then ReplaceAll (ConfigPath c) ''.yaml'' [] @ ''.kubeconfig.yaml''
      else KubeConfigPath c)"
  "KubectlCommandsOutputPath (fst (in_order output_path_statements c)) =
     (if KubectlCommandsOutputPath c = []
      then ReplaceAll (ConfigPath c) ''.yaml'' [] @ ''.kubectl.sh''
      else if Ext (KubectlCommandsOutputPath c) \<noteq> ''.sh''
      then KubectlCommandsOutputPath c @ ''.sh''
      else KubectlCommandsOutputPath c)"
  "RemoteAccessCommandsOutputPath (fst (in_order output_path_statements c)) =
     (if RemoteAccessCommandsOutputPath c = []
      then ReplaceAll (ConfigPath c) ''.yaml'' [] @ ''.ssh.sh''
      else if Ext (RemoteAccessCommandsOutputPath c) \<noteq> ''.sh''
      then RemoteAccessCommandsOutputPath c @ ''.sh''
      else RemoteAccessCommandsOutputPath c)"
  "CommandAfterCreateClusterOutputPath (fst (in_order output_path_statements c)) =
     (if CommandAfterCreateClusterOutputPath c = []
      then ReplaceAll (ConfigPath c) ''.yaml'' [] @ ''.after-create-cluster.out.log''
      else if Ext (CommandAfterCreateClusterOutputPath c) \<noteq> ''.log''
      then CommandAfterCreateClusterOutputPath c @ ''.log''
      else CommandAfterCreateClusterOutputPath c)"
  "CommandAfterCreateAddOnsOutputPath (fst (in_order output_path_statements c)) =
     (if CommandAfterCreateAddOnsOutputPath c = []
      then ReplaceAll (ConfigPath c) ''.yaml'' [] @ ''.after-create-add-ons.out.log''
      else if Ext (CommandAfterCreateAddOnsOutputPath c) \<noteq> ''.log''
      then CommandAfterCreateAddOnsOutputPath c @ ''.log''
      else CommandAfterCreateAddOnsOutputPath c)"
  unfolding output_path_statements_def in_order_assign in_order.simps(1)
  by (simp_all add: output_path_steps Ext_defaults)

text \<open>Statements that keep a reading of the configuration while an invariant holds.\<close>

lemma in_order_keeps_while:
  assumes "\<And>stmt c. stmt \<in> set stmts \<Longrightarrow> I c \<Longrightarrow> I (fst (stmt c)) \<and> g (fst (stmt c)) = g c"
    and "I cfg"
  shows "I (fst (in_order stmts cfg)) \<and> g (fst (in_order stmts cfg)) = g cfg"
  using assms
proof (induction stmts arbitrary: cfg)
  case Nil
  then show ?case by simp
next
  case (Cons stmt stmts)
  have a: "I (fst (stmt cfg)) \<and> g (fst (stmt cfg)) = g cfg"
    using Cons.prems(1) [of stmt cfg] Cons.prems(2) by simp
  have b: "I (fst (in_order stmts c)) \<and> g (fst (in_order stmts c)) = g c" if "I c" for c
  proof (rule Cons.IH)
    fix s c' assume "s \<in> set stmts" and "I c'"
    then show "I (fst (s c')) \<and> g (fst (s c')) = g c'" using Cons.prems(1) [of s c'] by simp
  next
    show "I c" by (rule that)
  qed
  obtain c r where p: "stmt cfg = (c, r)" by (cases "stmt cfg")
  show ?case using a b [of c] p by (cases r) simp_all
qed

lemma in_order_reach:
  assumes "snd (in_order (xs @ ys) cfg) = None"
  shows "snd (in_order xs cfg) = None"
    and "snd (in_order ys (fst (in_order xs cfg))) = None"
    and "fst (in_order (xs @ ys) cfg) = fst (in_order ys (fst (in_order xs cfg)))"
proof -
  obtain c1 r1 where a: "in_order xs cfg = (c1, r1)" by (cases "in_order xs cfg")
  have r1: "r1 = None" using assms a by (cases r1) (simp_all add: in_order_append)
  show "snd (in_order xs cfg) = None" using a r1 by simp
  show "snd (in_order ys (fst (in_order xs cfg))) = None"
    using assms a r1 by (simp add: in_order_append)
  show "fst (in_order (xs @ ys) cfg) = fst (in_order ys (fst (in_order xs cfg)))"
    using a r1 by (simp add: in_order_append)
qed

lemma validateConfig_paths:
  assumes "ConfigPath cfg \<noteq> []" and "snd (validateConfig h cfg) = None"
  shows "ConfigPath (fst (validateConfig h cfg)) = ConfigPath cfg"
    and "KubeConfigPath (fst (validateConfig h cfg)) =
     (if KubeConfigPath cfg = [] then ReplaceAll (ConfigPath cfg) ''.yaml'' [] @ ''.kubeconfig.yaml''
      else KubeConfigPath cfg)"
    and "KubectlCommandsOutputPath (fst (validateConfig h cfg)) =
     (if KubectlCommandsOutputPath cfg = []
      then ReplaceAll (ConfigPath cfg) ''.yaml'' [] @ ''.kubectl.sh''
      else if Ext (KubectlCommandsOutputPath cfg) \<noteq> ''.sh''
      then KubectlCommandsOutputPath cfg @ ''.sh''
      else KubectlCommandsOutputPath cfg)"
    and "RemoteAccessCommandsOutputPath (fst (validateConfig h cfg)) =
     (if RemoteAccessCommandsOutputPath cfg = []
      then ReplaceAll (ConfigPath cfg) ''.yaml'' [] @ ''.ssh.sh''
      else if Ext (RemoteAccessCommandsOutputPath cfg) \<noteq> ''.sh''
      then RemoteAccessCommandsOutputPath cfg @ ''.sh''
      else RemoteAccessCommandsOutputPath cfg)"
    and "CommandAfterCreateClusterOutputPath (fst (validateConfig h cfg)) =
     (if CommandAfterCreateClusterOutputPath cfg = []
      then ReplaceAll (ConfigPath cfg) ''.yaml'' [] @ ''.after-create-cluster.out.log''
      else if Ext (CommandAfterCreateClusterOutputPath cfg) \<noteq> ''.log''
      then CommandAfterCreateClusterOutputPath cfg @ ''.log''
      else CommandAfterCreateClusterOutputPath cfg)"
    and "CommandAfterCreateAddOnsOutputPath (fst (validateConfig h cfg)) =
     (if CommandAfterCreateAddOnsOutputPath cfg = []
      then ReplaceAll (ConfigPath cfg) ''.yaml'' [] @ ''.after-create-add-ons.out.log''
      else if Ext (CommandAfterCreateAddOnsOutputPath cfg) \<noteq> ''.log''
      then CommandAfterCreateAddOnsOutputPath cfg @ ''.log''
      else CommandAfterCreateAddOnsOutputPath cfg)"
proof -
  define P where "P =
     [check (\<lambda>cfg. \<not> RegionToAiport h (Region cfg)) ''region not found'',
      check (\<lambda>cfg. length (Config.Name cfg) = 0) ''Name is empty'',
      check (\<lambda>cfg. Config.Name cfg \<noteq> ToLower (Config.Name cfg)) ''Name must be in lower-case'',
      check (\<lambda>cfg. length (LogOutputs cfg) = 0) ''LogOutputs is not empty'',
      default_ConfigPath h,
      mkdir_ConfigPath h,
      assign add_log_output]"
  define S where "S =
     [check (\<lambda>cfg. \<not> Contains (KubectlDownloadURL cfg) (GOOS h))
        ''kubectl-download-url build OS mismatch'',
      resolve_CommandAfterCreateCluster h,
      resolve_CommandAfterCreateAddOns h,
      assign default_S3Bucket]"
  define c1 where "c1 = fst (in_order P cfg)"
  define c2 where "c2 = fst (in_order output_path_statements c1)"
  have v: "validateConfig h = in_order (P @ output_path_statements @ S)"
    by (simp add: validateConfig_def P_def S_def)
  have ok: "snd (in_order (P @ output_path_statements @ S) cfg) = None"
    using assms(2) by (simp add: v)
  have ok2: "snd (in_order (output_path_statements @ S) c1) = None"
    unfolding c1_def by (rule in_order_reach(2) [OF ok])
  have "fst (validateConfig h cfg) = fst (in_order (output_path_statements @ S) c1)"
    unfolding c1_def v by (rule in_order_reach(3) [OF ok])
  also have "\<dots> = fst (in_order S c2)"
    unfolding c2_def by (rule in_order_reach(3) [OF ok2])
  finally have r: "fst (validateConfig h cfg) = fst (in_order S c2)" .
  have kP: "ConfigPath (fst (stmt c)) \<noteq> [] \<and> output_paths (fst (stmt c)) = output_paths c"
    if "stmt \<in> set P" and "ConfigPath c \<noteq> []" for stmt c
    using that
    by (auto simp: P_def check_def default_ConfigPath_def mkdir_ConfigPath_def assign_def
        add_log_output_def output_paths_def split: if_splits)
  have "ConfigPath (fst (in_order P cfg)) \<noteq> [] \<and>
        output_paths (fst (in_order P cfg)) = output_paths cfg"
  proof (rule in_order_keeps_while [of P "\<lambda>c. ConfigPath c \<noteq> []" output_paths cfg])
    fix stmt and c :: Config assume "stmt \<in> set P" and "ConfigPath c \<noteq> []"
    then show "ConfigPath (fst (stmt c)) \<noteq> [] \<and> output_paths (fst (stmt c)) = output_paths c"
      by (rule kP)
  next
    show "ConfigPath cfg \<noteq> []" by (rule assms(1))
  qed
  then have p1: "output_paths c1 = output_paths cfg"
    unfolding c1_def by simp
  have kS: "output_paths (fst (stmt c)) = output_paths c" if "stmt \<in> set S" for stmt c
    using that
    by (auto simp: S_def check_def assign_def resolve_CommandAfterCreateCluster_def
        resolve_CommandAfterCreateAddOns_def default_S3Bucket_def output_paths_def Let_def
        split: option.splits)
  have "output_paths (fst (in_order S c2)) = output_paths c2"
    by (rule in_order_keeps [of S output_paths c2], erule kS)
  then have p3: "output_paths (fst (validateConfig h cfg)) = output_paths c2"
    by (simp add: r)
  have f1: "ConfigPath c1 = ConfigPath cfg" "KubeConfigPath c1 = KubeConfigPath cfg"
    "KubectlCommandsOutputPath c1 = KubectlCommandsOutputPath cfg"
    "RemoteAccessCommandsOutputPath c1 = RemoteAccessCommandsOutputPath cfg"
    "CommandAfterCreateClusterOutputPath c1 = CommandAfterCreateClusterOutputPath cfg"
    "CommandAfterCreateAddOnsOutputPath c1 = CommandAfterCreateAddOnsOutputPath cfg"
    using p1 by (simp_all add: output_paths_def)
  have f3: "ConfigPath (fst (validateConfig h cfg)) = ConfigPath c2"
    "KubeConfigPath (fst (validateConfig h cfg)) = KubeConfigPath c2"
    "KubectlCommandsOutputPath (fst (validateConfig h cfg)) = KubectlCommandsOutputPath c2"
    "RemoteAccessCommandsOutputPath (fst (validateConfig h cfg)) = RemoteAccessCommandsOutputPath c2"
    "CommandAfterCreateClusterOutputPath (fst (validateConfig h cfg)) =
       CommandAfterCreateClusterOutputPath c2"
    "CommandAfterCreateAddOnsOutputPath (fst (validateConfig h cfg)) =
       CommandAfterCreateAddOnsOutputPath c2"
    using p3 by (simp_all add: output_paths_def)
  note f2 = output_path_statements_paths [of c1, folded c2_def, unfolded f1]
  show "ConfigPath (fst (validateConfig h cfg)) = ConfigPath cfg"
    unfolding f3 by (rule f2(2))
  show "KubeConfigPath (fst (validateConfig h cfg)) =
     (if KubeConfigPath cfg = [] then ReplaceAll (ConfigPath cfg) ''.yaml'' [] @ ''.kubeconfig.yaml''
      else KubeConfigPath cfg)"
    unfolding f3 by (rule f2(3))
  show "KubectlCommandsOutputPath (fst (validateConfig h cfg)) =
     (if KubectlCommandsOutputPath cfg = []
      then ReplaceAll (ConfigPath cfg) ''.yaml'' [] @ ''.kubectl.sh''
      else if Ext (KubectlCommandsOutputPath cfg) \<noteq> ''.sh''
      then KubectlCommandsOutputPath cfg @ ''.sh''
      else KubectlCommandsOutputPath cfg)"
    unfolding f3 by (rule f2(4))
  show "RemoteAccessCommandsOutputPath (fst (validateConfig h cfg)) =
     (if RemoteAccessCommandsOutputPath cfg = []
      then ReplaceAll (ConfigPath cfg) ''.yaml'' [] @ ''.ssh.sh''
      else if Ext (RemoteAccessCommandsOutputPath cfg) \<noteq> ''.sh''
      then RemoteAccessCommandsOutputPath cfg @ ''.sh''
      else RemoteAccessCommandsOutputPath cfg)"
    unfolding f3 by (rule f2(5))
  show "CommandAfterCreateClusterOutputPath (fst (validateConfig h cfg)) =
     (if CommandAfterCreateClusterOutputPath cfg = []
      then ReplaceAll (ConfigPath cfg) ''.yaml'' [] @ ''.after-create-cluster.out.log''
      else if Ext (CommandAfterCreateClusterOutputPath cfg) \<noteq> ''.log''
      then CommandAfterCreateClusterOutputPath cfg @ ''.log''
      else CommandAfterCreateClusterOutputPath cfg)"
    unfolding f3 by (rule f2(6))
  show "CommandAfterCreateAddOnsOutputPath (fst (validateConfig h cfg)) =
     (if CommandAfterCreateAddOnsOutputPath cfg = []
      then ReplaceAll (ConfigPath cfg) ''.yaml'' [] @ ''.after-create-add-ons.out.log''
      else if Ext (CommandAfterCreateAddOnsOutputPath cfg) \<noteq> ''.log''
      then CommandAfterCreateAddOnsOutputPath cfg @ ''.log''
      else CommandAfterCreateAddOnsOutputPath cfg)"
    unfolding f3 by (rule f2(7))
qed

lemma after_validateConfig:
  assumes "snd (ValidateAndSetDefaults h cfg) = None"
  shows "snd (validateConfig h cfg) = None"
    and "output_paths (fst (ValidateAndSetDefaults h cfg)) =
           output_paths (fst (validateConfig h cfg))"
proof -
  define rest where "rest =
    (''validateParameters'', validateParameters h) #
    (''validateAddOnNodeGroups'', validateAddOnNodeGroups h) #
    (''validateAddOnManagedNodeGroups'', validateAddOnManagedNodeGroups h) #
    addon_validators h"
  have split: "validators h = [] @ (''validateConfig'', validateConfig h) # rest"
    by (simp add: validators_def rest_def)
  have run: "snd (run_validators ([] @ (''validateConfig'', validateConfig h) # rest) cfg) = None"
    using assms by (simp add: ValidateAndSetDefaults_run split)
  from run_validators_reach(2) [OF run]
  show "snd (validateConfig h cfg) = None" by simp
  have k: "output_paths (fst (f c)) = output_paths c" if "(name, f) \<in> set rest" for name f c
    using that
    by (auto simp: rest_def addon_validators_def validateParameters_keeps
        validateAddOnNodeGroups_keeps validateAddOnManagedNodeGroups_keeps
        validateAddOnNLBHelloWorld_keeps validateAddOnALB2048_keeps validateAddOnJobPi_keeps
        validateAddOnJobEcho_keeps validateAddOnCronJob_keeps validateAddOnSecrets_keeps
        validateAddOnIRSA_keeps validateAddOnFargate_keeps validateAddOnAppMesh_keeps)
  have "fst (ValidateAndSetDefaults h cfg) =
          fst (run_validators rest (fst (validateConfig h cfg)))"
    using run_validators_reach(3) [OF run] by (simp add: ValidateAndSetDefaults_run split)
  moreover have "output_paths (fst (run_validators rest (fst (validateConfig h cfg)))) =
          output_paths (fst (validateConfig h cfg))"
    by (rule run_validators_keeps [of rest output_paths], erule k)
  ultimately show "output_paths (fst (ValidateAndSetDefaults h cfg)) =
           output_paths (fst (validateConfig h cfg))" by simp
qed

text \<open>
  C4. When \<^verbatim>\<open>ConfigPath\<close> is not empty and \<^verbatim>\<open>ValidateAndSetDefaults\<close> returns \<^verbatim>\<open>nil\<close>,
  \<^verbatim>\<open>ConfigPath\<close> is as it was, and each path derived from it that was empty is
  \<^verbatim>\<open>ConfigPath\<close> without its occurrences of \<^verbatim>\<open>.yaml\<close>, followed by the suffix of the
  field. A path that was not empty is as it was, but for the four paths of commands
  and of outputs: to those \<^verbatim>\<open>.sh\<close>, or \<^verbatim>\<open>.log\<close>, is appended when \<^verbatim>\<open>filepath.Ext\<close> of the
  path is not that extension.
\<close>

theorem derived_output_paths:
  assumes "ConfigPath cfg \<noteq> []" and "snd (ValidateAndSetDefaults h cfg) = None"
  shows "ConfigPath (fst (ValidateAndSetDefaults h cfg)) = ConfigPath cfg
    \<and> KubeConfigPath (fst (ValidateAndSetDefaults h cfg)) =
       (if KubeConfigPath cfg = []
        then ReplaceAll (ConfigPath cfg) ''.yaml'' [] @ ''.kubeconfig.yaml''
        else KubeConfigPath cfg)
    \<and> KubectlCommandsOutputPath (fst (ValidateAndSetDefaults h cfg)) =
       (if KubectlCommandsOutputPath cfg = []
        then ReplaceAll (ConfigPath cfg) ''.yaml'' [] @ ''.kubectl.sh''
        else if Ext (KubectlCommandsOutputPath cfg) \<noteq> ''.sh''
        then KubectlCommandsOutputPath cfg @ ''.sh''
        else KubectlCommandsOutputPath cfg)
    \<and> RemoteAccessCommandsOutputPath (fst (ValidateAndSetDefaults h cfg)) =
       (if RemoteAccessCommandsOutputPath cfg = []
        then ReplaceAll (ConfigPath cfg) ''.yaml'' [] @ ''.ssh.sh''
        else if Ext (RemoteAccessCommandsOutputPath cfg) \<noteq> ''.sh''
        then RemoteAccessCommandsOutputPath cfg @ ''.sh''
        else RemoteAccessCommandsOutputPath cfg)
    \<and> CommandAfterCreateClusterOutputPath (fst (ValidateAndSetDefaults h cfg)) =
       (if CommandAfterCreateClusterOutputPath cfg = []
        then ReplaceAll (ConfigPath cfg) ''.yaml'' [] @ ''.after-create-cluster.out.log''
        else if Ext (CommandAfterCreateClusterOutputPath cfg) \<noteq> ''.log''
        then CommandAfterCreateClusterOutputPath cfg @ ''.log''
        else CommandAfterCreateClusterOutputPath cfg)
    \<and> CommandAfterCreateAddOnsOutputPath (fst (ValidateAndSetDefaults h cfg)) =
       (if CommandAfterCreateAddOnsOutputPath cfg = []
        then ReplaceAll (ConfigPath cfg) ''.yaml'' [] @ ''.after-create-add-ons.out.log''
        else if Ext (CommandAfterCreateAddOnsOutputPath cfg) \<noteq> ''.log''
        then CommandAfterCreateAddOnsOutputPath cfg @ ''.log''
        else CommandAfterCreateAddOnsOutputPath cfg)"
proof -
  note a = after_validateConfig [OF assms(2)]
  have f: "ConfigPath (fst (ValidateAndSetDefaults h cfg)) = ConfigPath (fst (validateConfig h cfg))"
    "KubeConfigPath (fst (ValidateAndSetDefaults h cfg)) = KubeConfigPath (fst (validateConfig h cfg))"
    "KubectlCommandsOutputPath (fst (ValidateAndSetDefaults h cfg)) =
       KubectlCommandsOutputPath (fst (validateConfig h cfg))"
    "RemoteAccessCommandsOutputPath (fst (ValidateAndSetDefaults h cfg)) =
       RemoteAccessCommandsOutputPath (fst (validateConfig h cfg))"
    "CommandAfterCreateClusterOutputPath (fst (ValidateAndSetDefaults h cfg)) =
       CommandAfterCreateClusterOutputPath (fst (validateConfig h cfg))"
    "CommandAfterCreateAddOnsOutputPath (fst (ValidateAndSetDefaults h cfg)) =
       CommandAfterCreateAddOnsOutputPath (fst (validateConfig h cfg))"
    using a(2) by (simp_all add: output_paths_def)
  note p = validateConfig_paths [OF assms(1) a(1)]
  show ?thesis
    unfolding f
    by (intro conjI, rule p(1), rule p(2), rule p(3), rule p(4), rule p(5), rule p(6))
qed

theorem derived_output_paths_witness:
  "ConfigPath sample_Config = ''/tmp/a.yaml''
   \<and> KubeConfigPath sample_Config = []
   \<and> KubectlCommandsOutputPath sample_Config = ''/tmp/k''
   \<and> RemoteAccessCommandsOutputPath sample_Config = []
   \<and> CommandAfterCreateClusterOutputPath sample_Config = []
   \<and> CommandAfterCreateAddOnsOutputPath sample_Config = ''/tmp/after.log''
   \<and> snd (ValidateAndSetDefaults sample_host sample_Config) = None
   \<and> ConfigPath (fst (ValidateAndSetDefaults sample_host sample_Config)) = ''/tmp/a.yaml''
   \<and> KubeConfigPath (fst (ValidateAndSetDefaults sample_host sample_Config))
       = ''/tmp/a.kubeconfig.yaml''
   \<and> KubectlCommandsOutputPath (fst (ValidateAndSetDefaults sample_host sample_Config))
       = ''/tmp/k.sh''
   \<and> RemoteAccessCommandsOutputPath (fst (ValidateAndSetDefaults sample_host sample_Config))
       = ''/tmp/a.ssh.sh''
   \<and> CommandAfterCreateClusterOutputPath (fst (ValidateAndSetDefaults sample_host sample_Config))
       = ''/tmp/a.after-create-cluster.out.log''
   \<and> CommandAfterCreateAddOnsOutputPath (fst (ValidateAndSetDefaults sample_host sample_Config))
       = ''/tmp/after.log''"
proof -
  have i: "ConfigPath sample_Config = ''/tmp/a.yaml''" "KubeConfigPath sample_Config = []"
    "KubectlCommandsOutputPath sample_Config = ''/tmp/k''"
    "RemoteAccessCommandsOutputPath sample_Config = []"
    "CommandAfterCreateClusterOutputPath sample_Config = []"
    "CommandAfterCreateAddOnsOutputPath sample_Config = ''/tmp/after.log''"
    by (simp_all add: sample_Config_def)
  have n: "ConfigPath sample_Config \<noteq> []" by (simp add: i)
  have s: "snd (ValidateAndSetDefaults sample_host sample_Config) = None" by code_simp
  have e: "ReplaceAll ''/tmp/a.yaml'' ''.yaml'' [] = ''/tmp/a''" "Ext ''/tmp/k'' \<noteq> ''.sh''"
    "Ext ''/tmp/after.log'' = ''.log''"
    by code_simp+
  note t = derived_output_paths [OF n s, unfolded i e]
  show ?thesis using t by (simp add: i s e del: ReplaceAll.simps)
qed

end
